theory Spec2Isabelle
  imports Main "HOL-Library.Sublist"
begin

section \<open>Python text\<close>

text \<open>
  A Python \<open>str\<close> is modelled as a \<open>string\<close>: one \<open>char\<close> per code point, so the
  model covers text whose code points are below 256. The string methods below are the ones
  \<open>project-1.py\<close> calls, with the arguments it passes.
\<close>

definition backticks :: string where
  \<comment> \<open>\<open>chr(96) + chr(96) + chr(96)\<close>\<close>
  "backticks = [CHR 0x60, CHR 0x60, CHR 0x60]"

fun py_in :: "string \<Rightarrow> string \<Rightarrow> bool" where
  \<comment> \<open>\<open>needle in haystack\<close> on two strings\<close>
  "py_in needle [] = (needle = [])"
| "py_in needle (c # cs) = (prefix needle (c # cs) \<or> py_in needle cs)"

definition lower_char :: "char \<Rightarrow> char" where
  \<comment> \<open>\<open>A-Z\<close> and the upper-case letters of Latin-1 (\<open>0xC0-0xDE\<close> without \<open>0xD7\<close>) move
      up by 32; every other code point below 256 is kept.\<close>
  "lower_char c =
     (let n = (of_char c :: nat)
      in if (65 \<le> n \<and> n \<le> 90) \<or> (192 \<le> n \<and> n \<le> 222 \<and> n \<noteq> 215)
         then char_of (n + 32) else c)"

definition py_lower :: "string \<Rightarrow> string" where
  "py_lower s = map lower_char s"

definition py_isspace :: "char \<Rightarrow> bool" where
  \<comment> \<open>the code points below 256 that \<open>str.strip()\<close> removes\<close>
  "py_isspace c =
     (let n = (of_char c :: nat)
      in (9 \<le> n \<and> n \<le> 13) \<or> (28 \<le> n \<and> n \<le> 32) \<or> n = 133 \<or> n = 160)"

definition py_strip :: "string \<Rightarrow> string" where
  "py_strip s = rev (dropWhile py_isspace (rev (dropWhile py_isspace s)))"

fun py_replace_empty :: "string \<Rightarrow> string \<Rightarrow> string" where
  \<comment> \<open>\<open>s.replace(old, "")\<close>: the occurrences of \<open>old\<close> are found from the left, without
      overlap, and deleted\<close>
  "py_replace_empty old [] = []"
| "py_replace_empty old (c # cs) =
     (if old \<noteq> [] \<and> prefix old (c # cs)
      then py_replace_empty old (drop (length old) (c # cs))
      else c # py_replace_empty old cs)"

fun split_backticks :: "string \<Rightarrow> string list" where
  \<comment> \<open>\<open>s.split(backticks)\<close>: the separators are found from the left, without overlap\<close>
  "split_backticks [] = [[]]"
| "split_backticks (c # cs) =
     (if prefix backticks (c # cs)
      then [] # split_backticks (drop 3 (c # cs))
      else (case split_backticks cs of
              p # ps \<Rightarrow> (c # p) # ps
            | [] \<Rightarrow> [[c]]))"

fun py_join :: "string \<Rightarrow> string list \<Rightarrow> string" where
  \<comment> \<open>\<open>sep.join(xs)\<close>\<close>
  "py_join sep [] = []"
| "py_join sep [x] = x"
| "py_join sep (x # y # ys) = x @ sep @ py_join sep (y # ys)"

fun str_nat :: "nat \<Rightarrow> string" where
  "str_nat n =
     (if n < 10 then [char_of (48 + n)]
      else str_nat (n div 10) @ [char_of (48 + n mod 10)])"

definition str_int :: "int \<Rightarrow> string" where
  \<comment> \<open>\<open>str(i)\<close> of a Python integer\<close>
  "str_int i = (if i < 0 then CHR ''-'' # str_nat (nat (- i)) else str_nat (nat i))"

section \<open>Cleaning the generated text\<close>

definition is_markup :: "string \<Rightarrow> bool" where
  \<comment> \<open>the test of line 129\<close>
  "is_markup part \<longleftrightarrow>
     py_in ''<html'' (py_lower part) \<or> py_in ''<!DOCTYPE'' (py_lower part)"

fun clean_parts :: "string \<Rightarrow> string list \<Rightarrow> string" where
  \<comment> \<open>the loop of lines 128-131 over the parts still to visit; the first argument is the
      value \<open>html_code\<close> holds when the loop starts\<close>
  "clean_parts html_code [] = html_code"
| "clean_parts html_code (part # parts) =
     (if is_markup part
      then py_strip (py_replace_empty ''HTML'' (py_replace_empty ''html'' part))
      else clean_parts html_code parts)"

definition clean_markdown :: "string \<Rightarrow> string" where
  \<comment> \<open>lines 125-131, for a response text that is a \<open>str\<close>\<close>
  "clean_markdown html_code =
     (if py_in backticks html_code
      then clean_parts html_code (split_backticks html_code)
      else html_code)"

section \<open>Values, exceptions and the outside world\<close>

text \<open>
  The values the program receives from \<open>response.json()\<close> are untyped, so they are
  modelled as a datatype of JSON values, and each operation of the source on such a value is
  written out for every shape of value. A float is kept as the pair of a mantissa and a
  decimal exponent; the program never computes with one.
\<close>

datatype json =
    JNull
  | JBool bool
  | JNum int
  | JFloat int int
  | JStr string
  | JArr "json list"
  | JObj "(string \<times> json) list"

datatype exn =
    Exception string \<comment> \<open>\<open>raise Exception(msg)\<close> in the source\<close>
  | RequestException string \<comment> \<open>raised by a call of \<open>requests\<close>, with its text\<close>
  | JSONDecodeError \<comment> \<open>\<open>response.json()\<close> on a body that is not JSON\<close>
  | KeyError json
  | IndexError
  | TypeError
  | AttributeError

record config =
  MY_SECRET :: "string option"
  GITHUB_TOKEN :: "string option"
  GROQ_API_KEY :: "string option"

definition GITHUB_USERNAME :: string where
  "GITHUB_USERNAME = ''SiriChandanaSykam''"

definition str_env :: "string option \<Rightarrow> string" where
  \<comment> \<open>how an f-string renders the value of \<open>os.getenv\<close>\<close>
  "str_env v = (case v of None \<Rightarrow> ''None'' | Some s \<Rightarrow> s)"

record attachment =
  name :: string
  url :: string

record task_request =
  email :: string
  secret :: string
  task :: string
  round :: int
  nonce :: string
  brief :: string
  checks :: "string list"
  evaluation_url :: string
  attachments :: "attachment list option"

record http_request =
  http_method :: string
  http_url :: string
  http_headers :: "(string \<times> string) list"
  http_json :: "json option"
  http_timeout :: "nat option"

record http_response =
  status_code :: int
  response_text :: string
  response_json :: "json option" \<comment> \<open>\<open>None\<close>: the body is not JSON\<close>

datatype outcome = Raises string | Responds http_response

datatype event =
    Http http_request
  | Sleep nat \<comment> \<open>\<open>time.sleep(n)\<close>\<close>
  | Print string
  | Print_Exception string exn string
    \<comment> \<open>\<open>print(f"{prefix}{e}{suffix}")\<close> for a caught exception \<open>e\<close>\<close>

text \<open>
  The outside world answers a request from the events so far. A function of the program takes
  the world and the events so far, and returns its result (\<open>Inl\<close> an exception that leaves
  the function) with the events extended in the order they happen.
\<close>

type_synonym world = "event list \<Rightarrow> http_request \<Rightarrow> outcome"

type_synonym 'a io = "(exn + 'a) \<times> event list"

definition and_then :: "'a io \<Rightarrow> ('a \<Rightarrow> event list \<Rightarrow> 'b io) \<Rightarrow> 'b io" where
  \<comment> \<open>sequencing: an exception of the first statement skips the rest\<close>
  "and_then m f = (case m of (Inl e, tr) \<Rightarrow> (Inl e, tr) | (Inr v, tr) \<Rightarrow> f v tr)"

definition requests :: "world \<Rightarrow> event list \<Rightarrow> http_request \<Rightarrow> http_response io" where
  \<comment> \<open>\<open>requests.post\<close>, \<open>requests.put\<close>, \<open>requests.get\<close>\<close>
  "requests w tr rq =
     (case w tr rq of
        Raises m \<Rightarrow> Inl (RequestException m)
      | Responds r \<Rightarrow> Inr r,
      tr @ [Http rq])"

definition json_of :: "http_response \<Rightarrow> exn + json" where
  \<comment> \<open>\<open>response.json()\<close>\<close>
  "json_of r = (case response_json r of None \<Rightarrow> Inl JSONDecodeError | Some j \<Rightarrow> Inr j)"

fun getitem :: "string \<Rightarrow> json \<Rightarrow> exn + json" where
  \<comment> \<open>\<open>v[key]\<close> for a string key\<close>
  "getitem k (JObj kvs) =
     (case map_of kvs k of None \<Rightarrow> Inl (KeyError (JStr k)) | Some v \<Rightarrow> Inr v)"
| "getitem k v = Inl TypeError"

fun getitem_0 :: "json \<Rightarrow> exn + json" where
  \<comment> \<open>\<open>v[0]\<close>\<close>
  "getitem_0 (JArr xs) = (case xs of [] \<Rightarrow> Inl IndexError | x # _ \<Rightarrow> Inr x)"
| "getitem_0 (JStr s) = (case s of [] \<Rightarrow> Inl IndexError | c # _ \<Rightarrow> Inr (JStr [c]))"
| "getitem_0 (JObj kvs) = Inl (KeyError (JNum 0))"
| "getitem_0 v = Inl TypeError"

definition then_get :: "exn + 'a \<Rightarrow> ('a \<Rightarrow> exn + 'b) \<Rightarrow> exn + 'b" where
  "then_get r f = (case r of Inl e \<Rightarrow> Inl e | Inr v \<Rightarrow> f v)"

section \<open>Content generator\<close>

definition attachment_line :: "attachment \<Rightarrow> string" where
  "attachment_line att = ''- '' @ name att @ '': '' @ take 100 (url att) @ ''...''"

definition build_prompt :: "string \<Rightarrow> string list \<Rightarrow> attachment list option \<Rightarrow> string" where
  \<comment> \<open>lines 77-103\<close>
  \<open>build_prompt brief_text check_list atts =
     (let attachment_info =
            (case atts of
               Some (a # as) \<Rightarrow>
                 ''ATTACHMENTS:\<newline>'' @ py_join ''\<newline>'' (map attachment_line (a # as))
             | _ \<Rightarrow> []);
          checks_list = py_join ''\<newline>'' (map (\<lambda>check. ''- '' @ check) check_list)
      in ''Generate a complete single-page HTML application.\<newline>''
       @ ''\<newline>''
       @ ''TASK BRIEF:\<newline>''
       @ brief_text
       @ ''\<newline>''
       @ ''\<newline>''
       @ ''REQUIREMENTS (the app MUST pass these checks):\<newline>''
       @ checks_list
       @ ''\<newline>''
       @ ''\<newline>''
       @ attachment_info
       @ ''\<newline>''
       @ ''\<newline>''
       @ ''INSTRUCTIONS:\<newline>''
       @ ''1. Create a COMPLETE, self-contained HTML file\<newline>''
       @ ''2. Include ALL CSS in style tags within head\<newline>''
       @ ''3. Include ALL JavaScript in script tags before body closing tag\<newline>''
       @ ''4. Use Bootstrap 5 from CDN\<newline>''
       @ ''5. Make sure ALL requirement checks will pass\<newline>''
       @ ''6. Use professional, clean code\<newline>''
       @ ''\<newline>''
       @ ''Return ONLY the HTML code, nothing else. No explanations.'')\<close>

definition groq_request :: "config \<Rightarrow> string \<Rightarrow> http_request" where
  \<comment> \<open>the call of lines 105-120\<close>
  "groq_request cfg prompt =
     \<lparr>http_method = ''POST'',
      http_url = ''https://api.groq.com/openai/v1/chat/completions'',
      http_headers =
        [(''Authorization'', ''Bearer '' @ str_env (GROQ_API_KEY cfg)),
         (''Content-Type'', ''application/json'')],
      http_json = Some (JObj
        [(''model'', JStr ''llama-3.3-70b-versatile''),
         (''messages'', JArr
            [JObj [(''role'', JStr ''system''),
                   (''content'', JStr
                      ''You are an expert web developer who creates complete, working HTML applications.'')],
             JObj [(''role'', JStr ''user''), (''content'', JStr prompt)]]),
         (''temperature'', JFloat 7 (- 1)),
         (''max_tokens'', JNum 8000)]),
      http_timeout = None\<rparr>"

definition chat_content :: "http_response \<Rightarrow> exn + json" where
  \<comment> \<open>line 122: \<open>response.json()["choices"][0]["message"]["content"]\<close>\<close>
  "chat_content response =
     then_get (then_get (then_get (then_get (json_of response)
       (getitem ''choices'')) getitem_0) (getitem ''message'')) (getitem ''content'')"

fun clean_code_blocks :: "json \<Rightarrow> exn + json" where
  \<comment> \<open>lines 125-131 on the value line 122 produced: \<open>in\<close> is a substring test on a
      \<open>str\<close>, a membership test on a list, a key test on a dict and a \<open>TypeError\<close> on any
      other value; only a \<open>str\<close> has \<open>split\<close>\<close>
  "clean_code_blocks (JStr s) = Inr (JStr (clean_markdown s))"
| "clean_code_blocks (JArr xs) =
     (if JStr backticks \<in> set xs then Inl AttributeError else Inr (JArr xs))"
| "clean_code_blocks (JObj kvs) =
     (if backticks \<in> fst ` set kvs then Inl AttributeError else Inr (JObj kvs))"
| "clean_code_blocks v = Inl TypeError"

definition generate_app_with_groq ::
  "config \<Rightarrow> world \<Rightarrow> event list \<Rightarrow> string \<Rightarrow> string list \<Rightarrow> attachment list option \<Rightarrow> json io"
where
  "generate_app_with_groq cfg w tr brief_text check_list atts =
     and_then (requests w tr (groq_request cfg (build_prompt brief_text check_list atts)))
       (\<lambda>response tr1.
          (then_get (chat_content response) clean_code_blocks, tr1))"

section \<open>Repository publisher\<close>

definition utf8_encode :: "string \<Rightarrow> nat list" where
  \<comment> \<open>\<open>content.encode()\<close>: UTF-8, one byte below 128 and two bytes from 128 to 255\<close>
  "utf8_encode s =
     concat (map (\<lambda>c. let n = (of_char c :: nat)
                       in if n < 128 then [n] else [192 + n div 64, 128 + n mod 64]) s)"

definition b64_digit :: "nat \<Rightarrow> char" where
  "b64_digit n =
     ''ABCDEFGHIJKLMNOPQRSTUVWXYZabcdefghijklmnopqrstuvwxyz0123456789+/'' ! (n mod 64)"

fun b64encode :: "nat list \<Rightarrow> string" where
  \<comment> \<open>\<open>base64.b64encode(bytes).decode()\<close>\<close>
  "b64encode (a # b # c # rest) =
     [b64_digit (a div 4), b64_digit ((a mod 4) * 16 + b div 16),
      b64_digit ((b mod 16) * 4 + c div 64), b64_digit (c mod 64)] @ b64encode rest"
| "b64encode [a, b] =
     [b64_digit (a div 4), b64_digit ((a mod 4) * 16 + b div 16),
      b64_digit ((b mod 16) * 4), CHR ''='']"
| "b64encode [a] = [b64_digit (a div 4), b64_digit ((a mod 4) * 16), CHR ''='', CHR ''='']"
| "b64encode [] = []"

fun encode_content :: "json \<Rightarrow> exn + string" where
  \<comment> \<open>\<open>base64.b64encode(content.encode()).decode()\<close>; only a \<open>str\<close> has \<open>encode\<close>\<close>
  "encode_content (JStr s) = Inr (b64encode (utf8_encode s))"
| "encode_content v = Inl AttributeError"

definition github_headers :: "config \<Rightarrow> (string \<times> string) list" where
  "github_headers cfg =
     [(''Authorization'', ''token '' @ str_env (GITHUB_TOKEN cfg)),
      (''Accept'', ''application/vnd.github.v3+json'')]"

definition contents_url :: "string \<Rightarrow> string \<Rightarrow> string" where
  "contents_url repo_name file_path =
     ''https://api.github.com/repos/'' @ GITHUB_USERNAME @ ''/'' @ repo_name
       @ ''/contents/'' @ file_path"

definition put_request ::
  "(string \<times> string) list \<Rightarrow> string \<Rightarrow> string \<Rightarrow> string \<Rightarrow> string \<Rightarrow> json option \<Rightarrow> http_request"
where
  \<comment> \<open>the \<open>requests.put\<close> of lines 196-203 (no \<open>sha\<close>) and of lines 223-231 (with \<open>sha\<close>)\<close>
  "put_request headers repo_name file_path message encoded_content file_sha =
     \<lparr>http_method = ''PUT'',
      http_url = contents_url repo_name file_path,
      http_headers = headers,
      http_json = Some (JObj
        ([(''message'', JStr message), (''content'', JStr encoded_content)]
         @ (case file_sha of None \<Rightarrow> [] | Some v \<Rightarrow> [(''sha'', v)]))),
      http_timeout = None\<rparr>"

definition get_request :: "(string \<times> string) list \<Rightarrow> string \<Rightarrow> string \<Rightarrow> http_request" where
  \<comment> \<open>the \<open>requests.get\<close> of lines 212-215\<close>
  "get_request headers repo_name file_path =
     \<lparr>http_method = ''GET'',
      http_url = contents_url repo_name file_path,
      http_headers = headers,
      http_json = None,
      http_timeout = None\<rparr>"

definition create_request :: "config \<Rightarrow> string \<Rightarrow> string \<Rightarrow> http_request" where
  \<comment> \<open>the \<open>requests.post\<close> of lines 143-152\<close>
  "create_request cfg repo_name brief_text =
     \<lparr>http_method = ''POST'',
      http_url = ''https://api.github.com/user/repos'',
      http_headers = github_headers cfg,
      http_json = Some (JObj
        [(''name'', JStr repo_name),
         (''description'', JStr (''Auto-generated: '' @ take 100 brief_text)),
         (''private'', JBool False),
         (''auto_init'', JBool False)]),
      http_timeout = None\<rparr>"

definition commit_sha_of :: "http_response \<Rightarrow> exn + json" where
  \<comment> \<open>\<open>response.json()["commit"]["sha"]\<close>\<close>
  "commit_sha_of response =
     then_get (then_get (json_of response) (getitem ''commit'')) (getitem ''sha'')"

definition get_mit_license :: string where
  \<open>get_mit_license =
       ''MIT License\<newline>''
     @ ''\<newline>''
     @ ''Copyright (c) 2025\<newline>''
     @ ''\<newline>''
     @ ''Permission is hereby granted, free of charge, to any person obtaining a copy\<newline>''
     @ ''of this software and associated documentation files (the "Software"), to deal\<newline>''
     @ ''in the Software without restriction, including without limitation the rights\<newline>''
     @ ''to use, copy, modify, merge, publish, distribute, sublicense, and/or sell\<newline>''
     @ ''copies of the Software, and to permit persons to whom the Software is\<newline>''
     @ ''furnished to do so, subject to the following conditions:\<newline>''
     @ ''\<newline>''
     @ ''The above copyright notice and this permission notice shall be included in all\<newline>''
     @ ''copies or substantial portions of the Software.\<newline>''
     @ ''\<newline>''
     @ ''THE SOFTWARE IS PROVIDED "AS IS", WITHOUT WARRANTY OF ANY KIND, EXPRESS OR\<newline>''
     @ ''IMPLIED, INCLUDING BUT NOT LIMITED TO THE WARRANTIES OF MERCHANTABILITY,\<newline>''
     @ ''FITNESS FOR A PARTICULAR PURPOSE AND NONINFRINGEMENT. IN NO EVENT SHALL THE\<newline>''
     @ ''AUTHORS OR COPYRIGHT HOLDERS BE LIABLE FOR ANY CLAIM, DAMAGES OR OTHER\<newline>''
     @ ''LIABILITY, WHETHER IN AN ACTION OF CONTRACT, TORT OR OTHERWISE, ARISING FROM,\<newline>''
     @ ''OUT OF OR IN CONNECTION WITH THE SOFTWARE OR THE USE OR OTHER DEALINGS IN THE\<newline>''
     @ ''SOFTWARE.''\<close>

definition generate_readme :: "string \<Rightarrow> string \<Rightarrow> int \<Rightarrow> string" where
  \<open>generate_readme repo_name brief_text round_num =
       ''# '' @ repo_name @ ''\<newline>''
     @ ''\<newline>''
     @ ''## Summary\<newline>''
     @ ''Auto-generated application (Round '' @ str_int round_num @ ''): '' @ brief_text
     @ ''\<newline>''
     @ ''\<newline>''
     @ ''## Setup\<newline>''
     @ ''No setup required. This is a static HTML page deployed on GitHub Pages.\<newline>''
     @ ''\<newline>''
     @ ''## Usage\<newline>''
     @ ''1. Visit the GitHub Pages URL for this repository\<newline>''
     @ ''2. The application will load and run in your browser\<newline>''
     @ ''3. Follow the on-screen instructions\<newline>''
     @ ''\<newline>''
     @ ''## Code Explanation\<newline>''
     @ ''This application was automatically generated using LLM-based code generation (Groq/Llama).\<newline>''
     @ ''\<newline>''
     @ ''The code includes:\<newline>''
     @ ''- Self-contained HTML with embedded CSS and JavaScript\<newline>''
     @ ''- Bootstrap 5 for styling\<newline>''
     @ ''- All required functionality as specified in the brief\<newline>''
     @ ''\<newline>''
     @ ''## Deployment\<newline>''
     @ ''- Hosted on GitHub Pages\<newline>''
     @ ''- Automatically deployed from the main branch\<newline>''
     @ ''- Updates are live within minutes of pushing changes\<newline>''
     @ ''\<newline>''
     @ ''## License\<newline>''
     @ ''MIT License - see LICENSE file for details''\<close>

definition add_file_to_repo ::
  "world \<Rightarrow> event list \<Rightarrow> string \<Rightarrow> string \<Rightarrow> json \<Rightarrow> string \<Rightarrow> (string \<times> string) list \<Rightarrow> json io"
where
  "add_file_to_repo w tr repo_name file_path content message headers =
     (case encode_content content of
        Inl e \<Rightarrow> (Inl e, tr)
      | Inr encoded_content \<Rightarrow>
          and_then
            (requests w tr (put_request headers repo_name file_path message encoded_content None))
            (\<lambda>response tr1.
               if status_code response \<notin> {201, 200}
               then (Inl (Exception
                       (''Failed to add '' @ file_path @ '': '' @ response_text response)), tr1)
               else (commit_sha_of response, tr1)))"

definition update_file_in_repo ::
  "world \<Rightarrow> event list \<Rightarrow> string \<Rightarrow> string \<Rightarrow> json \<Rightarrow> string \<Rightarrow> (string \<times> string) list \<Rightarrow> json io"
where
  "update_file_in_repo w tr repo_name file_path content message headers =
     and_then (requests w tr (get_request headers repo_name file_path))
       (\<lambda>get_response tr1.
          if status_code get_response \<noteq> 200
          then add_file_to_repo w tr1 repo_name file_path content message headers
          else
            (case then_get (json_of get_response) (getitem ''sha'') of
               Inl e \<Rightarrow> (Inl e, tr1)
             | Inr file_sha \<Rightarrow>
                 (case encode_content content of
                    Inl e \<Rightarrow> (Inl e, tr1)
                  | Inr encoded_content \<Rightarrow>
                      and_then
                        (requests w tr1
                           (put_request headers repo_name file_path message encoded_content
                              (Some file_sha)))
                        (\<lambda>response tr2.
                           if status_code response \<notin> {200, 201}
                           then (Inl (Exception
                                   (''Failed to update '' @ file_path @ '': ''
                                      @ response_text response)), tr2)
                           else (commit_sha_of response, tr2)))))"

definition create_github_repo ::
  "config \<Rightarrow> world \<Rightarrow> event list \<Rightarrow> string \<Rightarrow> json \<Rightarrow> string \<Rightarrow> (json \<times> json) io"
where
  "create_github_repo cfg w tr repo_name html_code brief_text =
     (let headers = github_headers cfg in
      and_then (requests w tr (create_request cfg repo_name brief_text))
        (\<lambda>response tr1.
           if status_code response \<noteq> 201
           then (Inl (Exception (''Failed to create repo: '' @ response_text response)), tr1)
           else
             (case then_get (json_of response) (getitem ''html_url'') of
                Inl e \<Rightarrow> (Inl e, tr1)
              | Inr repo_url \<Rightarrow>
                  and_then
                    (add_file_to_repo w (tr1 @ [Sleep 2]) repo_name ''README.md''
                       (JStr (generate_readme repo_name brief_text 1)) ''Initial commit'' headers)
                    (\<lambda>_ tr2.
                       and_then
                         (add_file_to_repo w (tr2 @ [Sleep 1]) repo_name ''index.html''
                            html_code ''Add generated app'' headers)
                         (\<lambda>commit_sha tr3.
                            and_then
                              (add_file_to_repo w tr3 repo_name ''LICENSE''
                                 (JStr get_mit_license) ''Add MIT license'' headers)
                              (\<lambda>_ tr4. (Inr (repo_url, commit_sha), tr4)))))))"

definition update_github_repo ::
  "config \<Rightarrow> world \<Rightarrow> event list \<Rightarrow> string \<Rightarrow> json \<Rightarrow> string \<Rightarrow> (json \<times> json) io"
where
  "update_github_repo cfg w tr repo_name html_code brief_text =
     (let headers = github_headers cfg;
          repo_url = JStr (''https://github.com/'' @ GITHUB_USERNAME @ ''/'' @ repo_name)
      in and_then
           (update_file_in_repo w tr repo_name ''index.html'' html_code
              ''Update app for round 2'' headers)
           (\<lambda>commit_sha tr1.
              and_then
                (update_file_in_repo w tr1 repo_name ''README.md''
                   (JStr (generate_readme repo_name brief_text 2))
                   ''Update README for round 2'' headers)
                (\<lambda>_ tr2. (Inr (repo_url, commit_sha), tr2))))"

section \<open>Static site enabler\<close>

definition pages_request :: "config \<Rightarrow> string \<Rightarrow> http_request" where
  \<comment> \<open>the \<open>requests.post\<close> of lines 245-249\<close>
  "pages_request cfg repo_name =
     \<lparr>http_method = ''POST'',
      http_url = ''https://api.github.com/repos/'' @ GITHUB_USERNAME @ ''/'' @ repo_name
                   @ ''/pages'',
      http_headers = github_headers cfg,
      http_json = Some (JObj
        [(''source'', JObj [(''branch'', JStr ''main''), (''path'', JStr ''/'')])]),
      http_timeout = None\<rparr>"

definition enable_github_pages :: "config \<Rightarrow> world \<Rightarrow> event list \<Rightarrow> string \<Rightarrow> unit io" where
  "enable_github_pages cfg w tr repo_name =
     and_then (requests w tr (pages_request cfg repo_name))
       (\<lambda>response tr1.
          (Inr (),
           (if status_code response \<notin> {201, 409}
            then tr1 @ [Print (''Warning: GitHub Pages response: ''
                                 @ str_int (status_code response))]
            else tr1) @ [Sleep 5]))"

section \<open>Completion notifier\<close>

definition notify_payload :: "task_request \<Rightarrow> json \<Rightarrow> json \<Rightarrow> string \<Rightarrow> json" where
  \<comment> \<open>lines 258-266\<close>
  "notify_payload request repo_url commit_sha pages_url =
     JObj [(''email'', JStr (email request)),
           (''task'', JStr (task request)),
           (''round'', JNum (round request)),
           (''nonce'', JStr (nonce request)),
           (''repo_url'', repo_url),
           (''commit_sha'', commit_sha),
           (''pages_url'', JStr pages_url)]"

definition notify_request :: "task_request \<Rightarrow> json \<Rightarrow> http_request" where
  \<comment> \<open>the \<open>requests.post\<close> of lines 273-278\<close>
  "notify_request request payload =
     \<lparr>http_method = ''POST'',
      http_url = evaluation_url request,
      http_headers = [(''Content-Type'', ''application/json'')],
      http_json = Some payload,
      http_timeout = Some 10\<rparr>"

fun notify_loop :: "world \<Rightarrow> http_request \<Rightarrow> nat list \<Rightarrow> event list \<Rightarrow> unit io" where
  \<comment> \<open>the \<open>for\<close> loop of lines 268-286 over the delays still to come, and line 288 after it\<close>
  "notify_loop w rq [] tr =
     (Inr (), tr @ [Print ''Warning: Failed to notify evaluation URL after all retries''])"
| "notify_loop w rq (delay # delays) tr =
     (let tr1 = (if delay > 0 then tr @ [Sleep delay] else tr)
      in case requests w tr1 rq of
           (Inr response, tr2) \<Rightarrow>
             if status_code response = 200
             then (Inr (), tr2 @ [Print ''Evaluation notified successfully''])
             else notify_loop w rq delays
                    (tr2 @ [Print (''Evaluation URL returned ''
                                     @ str_int (status_code response) @ '', retrying...'')])
         | (Inl e, tr2) \<Rightarrow>
             notify_loop w rq delays
               (tr2 @ [Print_Exception ''Failed to notify evaluation URL: '' e
                         '', retrying...'']))"

definition notify_evaluation ::
  "world \<Rightarrow> event list \<Rightarrow> task_request \<Rightarrow> json \<Rightarrow> json \<Rightarrow> string \<Rightarrow> unit io"
where
  "notify_evaluation w tr request repo_url commit_sha pages_url =
     notify_loop w (notify_request request (notify_payload request repo_url commit_sha pages_url))
       [0, 1, 2, 4, 8] tr"

section \<open>Request handler\<close>

datatype body =
    Success json string json
    \<comment> \<open>\<open>{"status": "success", "repo_url": _, "pages_url": _, "commit_sha": _}\<close>\<close>
  | Failure exn
    \<comment> \<open>\<open>{"status": "error", "message": str(e)}\<close>\<close>

datatype reply =
    HTTPException int string \<comment> \<open>\<open>raise HTTPException(status_code, detail)\<close>\<close>
  | Returned body \<comment> \<open>a returned dict, which the framework sends with status 200\<close>

definition receive_task_try :: "config \<Rightarrow> world \<Rightarrow> event list \<Rightarrow> task_request \<Rightarrow> body io" where
  \<comment> \<open>the body of the \<open>try\<close> statement, lines 40-69\<close>
  "receive_task_try cfg w tr request =
     and_then
       (generate_app_with_groq cfg w
          (tr @ [Print (''Received task: '' @ task request @ '', round: ''
                          @ str_int (round request)),
                 Print ''Generating code with Groq...''])
          (brief request) (checks request) (attachments request))
       (\<lambda>html_code tr1.
          let repo_name = task request in
          and_then
            (if round request = 1
             then create_github_repo cfg w
                    (tr1 @ [Print (''Creating GitHub repo: '' @ repo_name)])
                    repo_name html_code (brief request)
             else update_github_repo cfg w
                    (tr1 @ [Print (''Updating GitHub repo: '' @ repo_name)])
                    repo_name html_code (brief request))
            (\<lambda>(repo_url, commit_sha) tr2.
               and_then
                 (if round request = 1
                  then enable_github_pages cfg w (tr2 @ [Print ''Enabling GitHub Pages...''])
                         repo_name
                  else (Inr (), tr2))
                 (\<lambda>_ tr3.
                    let pages_url = ''https://'' @ GITHUB_USERNAME @ ''.github.io/''
                                      @ repo_name @ ''/''
                    in and_then
                         (notify_evaluation w (tr3 @ [Print ''Notifying evaluation URL...''])
                            request repo_url commit_sha pages_url)
                         (\<lambda>_ tr4.
                            (Inr (Success repo_url pages_url commit_sha),
                             tr4 @ [Print ''Task completed successfully!''])))))"

definition receive_task :: "config \<Rightarrow> world \<Rightarrow> task_request \<Rightarrow> reply \<times> event list" where
  "receive_task cfg w request =
     (if Some (secret request) \<noteq> MY_SECRET cfg
      then (HTTPException 401 ''Invalid secret'', [])
      else (case receive_task_try cfg w [] request of
              (Inr result, tr) \<Rightarrow> (Returned result, tr)
            | (Inl e, tr) \<Rightarrow> (Returned (Failure e), tr @ [Print_Exception ''Error: '' e []])))"

section \<open>Observations on the events of a run\<close>

definition calls_of :: "event list \<Rightarrow> event list" where
  \<comment> \<open>the external calls and the waits of a run, without its output\<close>
  "calls_of es =
     filter (\<lambda>ev. case ev of Http _ \<Rightarrow> True | Sleep _ \<Rightarrow> True | _ \<Rightarrow> False) es"

definition attempts :: "event list \<Rightarrow> nat" where
  \<comment> \<open>the number of requests sent\<close>
  "attempts es = length (filter (\<lambda>ev. case ev of Http _ \<Rightarrow> True | _ \<Rightarrow> False) es)"

definition attempt_ok :: "world \<Rightarrow> event list \<Rightarrow> http_request \<Rightarrow> bool" where
  \<comment> \<open>the world answers the request, sent after the events \<open>h\<close>, with status 200\<close>
  "attempt_ok w h rq =
     (case w h rq of Responds r \<Rightarrow> status_code r = 200 | Raises _ \<Rightarrow> False)"

fun schedule :: "http_request \<Rightarrow> nat list \<Rightarrow> event list" where
  \<comment> \<open>one attempt per delay, after a wait where the delay is positive\<close>
  "schedule rq [] = []"
| "schedule rq (d # ds) = (if d > 0 then [Sleep d] else []) @ Http rq # schedule rq ds"

definition notify_call :: "task_request \<Rightarrow> json \<Rightarrow> json \<Rightarrow> string \<Rightarrow> http_request" where
  \<comment> \<open>the request of every attempt of the notifier\<close>
  "notify_call request repo_url commit_sha pages_url =
     notify_request request (notify_payload request repo_url commit_sha pages_url)"

definition is_write :: "event \<Rightarrow> bool" where
  \<comment> \<open>a file write: a \<open>PUT\<close>\<close>
  "is_write ev = (case ev of Http rq \<Rightarrow> http_method rq = ''PUT'' | _ \<Rightarrow> False)"

definition writes_file :: "string \<Rightarrow> string \<Rightarrow> event \<Rightarrow> bool" where
  \<comment> \<open>a write of the file at \<open>file_path\<close> in the repository\<close>
  "writes_file repo_name file_path ev =
     (case ev of
        Http rq \<Rightarrow> http_method rq = ''PUT'' \<and> http_url rq = contents_url repo_name file_path
      | _ \<Rightarrow> False)"

definition reads_file :: "string \<Rightarrow> string \<Rightarrow> event \<Rightarrow> bool" where
  "reads_file repo_name file_path ev =
     (case ev of
        Http rq \<Rightarrow> http_method rq = ''GET'' \<and> http_url rq = contents_url repo_name file_path
      | _ \<Rightarrow> False)"

definition is_create :: "event \<Rightarrow> bool" where
  \<comment> \<open>a repository creation: a \<open>POST\<close> to the repositories of the user\<close>
  "is_create ev =
     (case ev of
        Http rq \<Rightarrow> http_method rq = ''POST'' \<and> http_url rq = ''https://api.github.com/user/repos''
      | _ \<Rightarrow> False)"

definition preceded :: "(event \<Rightarrow> bool) \<Rightarrow> (event \<Rightarrow> bool) \<Rightarrow> event list \<Rightarrow> bool" where
  \<comment> \<open>every event that satisfies \<open>Q\<close> comes after an event that satisfies \<open>P\<close>\<close>
  "preceded P Q es \<longleftrightarrow> (\<forall>i < length es. Q (es ! i) \<longrightarrow> (\<exists>j < i. P (es ! j)))"

definition answered_sha :: "world \<Rightarrow> event list \<Rightarrow> nat \<Rightarrow> json \<Rightarrow> bool" where
  \<comment> \<open>the event at position \<open>i\<close> is a request, and the world answered it, after the events
      before it, with a response whose \<open>["commit"]["sha"]\<close> is \<open>v\<close>\<close>
  "answered_sha w es i v =
     (case es ! i of
        Http rq \<Rightarrow>
          (case w (take i es) rq of
             Responds r \<Rightarrow> commit_sha_of r = Inr v
           | Raises _ \<Rightarrow> False)
      | _ \<Rightarrow> False)"

subsection \<open>A sample run\<close>

definition sample_config :: config where
  "sample_config =
     \<lparr>MY_SECRET = Some ''s3cret'', GITHUB_TOKEN = Some ''ghp'', GROQ_API_KEY = Some ''gsk''\<rparr>"

definition sample_request :: task_request where
  "sample_request =
     \<lparr>email = ''a@b.com'', secret = ''s3cret'', task = ''demo1'', round = 1, nonce = ''abc'',
      brief = ''a counter app'', checks = [''has a button''],
      evaluation_url = ''https://eval.example/cb'', attachments = Some []\<rparr>"

definition sample_response :: "int \<Rightarrow> json option \<Rightarrow> outcome" where
  "sample_response code j =
     Responds \<lparr>status_code = code, response_text = [], response_json = j\<rparr>"

definition friendly_world :: world where
  \<comment> \<open>every call succeeds; a read finds the file, and the commit of a write is named after
      the URL written to\<close>
  "friendly_world tr rq =
     (if http_method rq = ''GET''
        then sample_response 200 (Some (JObj [(''sha'', JStr ''f00'')]))
      else if http_method rq = ''PUT''
        then sample_response 201
               (Some (JObj [(''commit'', JObj [(''sha'', JStr (http_url rq))])]))
      else if http_url rq = ''https://api.groq.com/openai/v1/chat/completions''
        then sample_response 200
               (Some (JObj [(''choices'', JArr [JObj [(''message'',
                  JObj [(''content'', JStr ''<p>0</p>'')])]])]))
      else if http_url rq = ''https://api.github.com/user/repos''
        then sample_response 201
               (Some (JObj [(''html_url'', JStr ''https://github.com/SiriChandanaSykam/demo1'')]))
      else if http_url rq = evaluation_url sample_request
        then sample_response 200 None
      else sample_response 201 None)"

definition fresh_world :: world where
  \<comment> \<open>as \<open>friendly_world\<close>, but no file exists yet: every read answers 404\<close>
  "fresh_world tr rq =
     (if http_method rq = ''GET'' then sample_response 404 None else friendly_world tr rq)"

definition deaf_world :: world where
  \<comment> \<open>every call times out\<close>
  "deaf_world tr rq = Raises ''timed out''"

definition flaky_world :: world where
  \<comment> \<open>the first request is answered 500, every later one 200\<close>
  "flaky_world tr rq =
     (if attempts tr = 0 then sample_response 500 None else sample_response 200 None)"

definition late_world :: world where
  \<comment> \<open>the first five requests time out, every later one is answered 200\<close>
  "late_world tr rq =
     (if attempts tr < 5 then Raises ''timed out'' else sample_response 200 None)"

section \<open>Basic facts\<close>

lemma and_then_Inl [simp]: "and_then (Inl e, tr) f = (Inl e, tr)"
  by (simp add: and_then_def)

lemma and_then_Inr [simp]: "and_then (Inr v, tr) f = f v tr"
  by (simp add: and_then_def)

lemma and_then_eq_Inr:
  "and_then m f = (Inr v, tr') \<longleftrightarrow> (\<exists>x tr1. m = (Inr x, tr1) \<and> f x tr1 = (Inr v, tr'))"
  by (cases m; cases "fst m") auto

lemma fst_and_then_Inl:
  "fst m = Inl e \<Longrightarrow> and_then m f = m"
  by (cases m) auto

lemma snd_requests [simp]: "snd (requests w tr rq) = tr @ [Http rq]"
  by (simp add: requests_def)

lemma requests_eq_Inr:
  "requests w tr rq = (Inr r, tr') \<longleftrightarrow> w tr rq = Responds r \<and> tr' = tr @ [Http rq]"
  by (auto simp: requests_def split: outcome.splits)

lemma requests_Responds [simp]:
  "w tr rq = Responds r \<Longrightarrow> requests w tr rq = (Inr r, tr @ [Http rq])"
  by (simp add: requests_def)

lemma requests_Raises [simp]:
  "w tr rq = Raises m \<Longrightarrow> requests w tr rq = (Inl (RequestException m), tr @ [Http rq])"
  by (simp add: requests_def)

lemma calls_of_append [simp]: "calls_of (xs @ ys) = calls_of xs @ calls_of ys"
  by (simp add: calls_of_def)

lemma attempts_append [simp]: "attempts (xs @ ys) = attempts xs + attempts ys"
  by (simp add: attempts_def)

section \<open>The sample runs, evaluated\<close>

lemmas run_defs =
  receive_task_try_def generate_app_with_groq_def groq_request_def chat_content_def
  then_get_def json_of_def clean_markdown_def backticks_def create_github_repo_def
  update_github_repo_def add_file_to_repo_def update_file_in_repo_def put_request_def
  get_request_def create_request_def commit_sha_of_def contents_url_def
  enable_github_pages_def pages_request_def notify_evaluation_def notify_request_def
  github_headers_def GITHUB_USERNAME_def Let_def

lemmas sample_defs =
  sample_config_def sample_request_def sample_response_def friendly_world_def fresh_world_def
  deaf_world_def

lemma sample_run_friendly:
  "fst (receive_task_try sample_config friendly_world [] sample_request)
     = Inr (Success (JStr ''https://github.com/SiriChandanaSykam/demo1'')
              ''https://SiriChandanaSykam.github.io/demo1/''
              (JStr ''https://api.github.com/repos/SiriChandanaSykam/demo1/contents/index.html''))"
  by (simp add: run_defs sample_defs)


section \<open>Handler\<close>


text \<open>
  C5. A request whose secret differs from the configured secret is answered with the
  HTTP exception 401, and the run has no event at all: no external call is made.
\<close>

theorem wrong_secret_unauthorized:
  assumes "MY_SECRET cfg \<noteq> Some (secret request)"
  shows "receive_task cfg w request = (HTTPException 401 ''Invalid secret'', [])"
  using assms by (auto simp: receive_task_def)

theorem wrong_secret_unauthorized_witness:
  "MY_SECRET sample_config \<noteq> Some (secret (sample_request\<lparr>secret := ''guess''\<rparr>))
   \<and> receive_task sample_config friendly_world (sample_request\<lparr>secret := ''guess''\<rparr>)
       = (HTTPException 401 ''Invalid secret'', [])"
proof -
  have h: "MY_SECRET sample_config \<noteq> Some (secret (sample_request\<lparr>secret := ''guess''\<rparr>))"
    by (simp add: sample_config_def)
  show ?thesis
    using h wrong_secret_unauthorized [OF h, of friendly_world] by simp
qed



section \<open>Notifier\<close>

lemma notify_loop_returns: "fst (notify_loop w rq ds tr) = Inr ()"
  by (induction ds arbitrary: tr) (auto simp: Let_def requests_def split: outcome.splits)

lemma notify_loop_shape:
  "\<exists>es. snd (notify_loop w rq ds tr) = tr @ es
        \<and> prefix (calls_of es) (schedule rq ds)
        \<and> attempts es \<le> length ds
        \<and> ((\<forall>h. \<not> attempt_ok w h rq) \<longrightarrow> calls_of es = schedule rq ds)"
proof (induction ds arbitrary: tr)
  case Nil
  show ?case by (simp add: calls_of_def attempts_def)
next
  case (Cons d ds)
  define tr1 where "tr1 = (if d > 0 then tr @ [Sleep d] else tr)"
  define pre where "pre = (if d > 0 then [Sleep d] else [])"
  have tr1: "tr1 = tr @ pre" by (simp add: tr1_def pre_def)
  have cp: "calls_of pre = pre" by (simp add: pre_def calls_of_def)
  have ap: "attempts pre = 0" by (simp add: pre_def attempts_def)
  have retry: ?case
    if step: "notify_loop w rq (d # ds) tr = notify_loop w rq ds (tr1 @ [Http rq, p])"
      and p: "calls_of [p] = []" "attempts [p] = 0" for p
  proof -
    from Cons.IH[of "tr1 @ [Http rq, p]"] obtain es where
      es: "snd (notify_loop w rq ds (tr1 @ [Http rq, p])) = (tr1 @ [Http rq, p]) @ es"
          "prefix (calls_of es) (schedule rq ds)" "attempts es \<le> length ds"
          "(\<forall>h. \<not> attempt_ok w h rq) \<longrightarrow> calls_of es = schedule rq ds" by blast
    have "snd (notify_loop w rq (d # ds) tr) = tr @ (pre @ [Http rq] @ [p] @ es)"
      using step es(1) tr1 by simp
    moreover have "calls_of (pre @ [Http rq] @ [p] @ es) = pre @ Http rq # calls_of es"
      unfolding calls_of_append cp p(1) by (simp add: calls_of_def)
    moreover have "attempts (pre @ [Http rq] @ [p] @ es) = Suc (attempts es)"
      unfolding attempts_append ap p(2) by (simp add: attempts_def)
    ultimately show ?thesis
      using es(2-4) by (intro exI[of _ "pre @ [Http rq] @ [p] @ es"]) (auto simp: pre_def)
  qed
  show ?case
  proof (cases "w tr1 rq")
    case (Raises m)
    show ?thesis
      by (rule retry[of "Print_Exception ''Failed to notify evaluation URL: ''
                           (RequestException m) '', retrying...''"])
         (use Raises in \<open>simp_all add: requests_def tr1_def Let_def calls_of_def attempts_def\<close>)
  next
    case (Responds r)
    show ?thesis
    proof (cases "status_code r = 200")
      case True
      let ?p = "Print ''Evaluation notified successfully''"
      have "notify_loop w rq (d # ds) tr = (Inr (), tr1 @ [Http rq, ?p])"
        using Responds True by (simp add: requests_def tr1_def Let_def)
      then have "snd (notify_loop w rq (d # ds) tr) = tr @ (pre @ [Http rq, ?p])"
        using tr1 by simp
      moreover have "calls_of (pre @ [Http rq, ?p]) = pre @ [Http rq]"
        unfolding calls_of_append cp by (simp add: calls_of_def)
      moreover have "attempts (pre @ [Http rq, ?p]) = 1"
        unfolding attempts_append ap by (simp add: attempts_def)
      moreover have "attempt_ok w tr1 rq"
        using Responds True by (simp add: attempt_ok_def)
      ultimately show ?thesis
        by (intro exI[of _ "pre @ [Http rq, ?p]"]) (auto simp: pre_def)
    next
      case False
      show ?thesis
        by (rule retry[of "Print (''Evaluation URL returned '' @ str_int (status_code r)
                                    @ '', retrying...'')"])
           (use Responds False in
             \<open>simp_all add: requests_def tr1_def Let_def calls_of_def attempts_def\<close>)
    qed
  qed
qed

lemma notify_loop_first_ok:
  assumes "attempt_ok w (if d > 0 then tr @ [Sleep d] else tr) rq"
  shows "notify_loop w rq (d # ds) tr =
           (Inr (), (if d > 0 then tr @ [Sleep d] else tr)
                      @ [Http rq, Print ''Evaluation notified successfully''])"
  using assms by (auto simp: attempt_ok_def requests_def Let_def split: outcome.splits)

lemma notify_loop_attempts_pos:
  "1 \<le> attempts (drop (length tr) (snd (notify_loop w rq (d # ds) tr)))"
proof -
  define tr1 where "tr1 = (if d > 0 then tr @ [Sleep d] else tr)"
  have "\<exists>p. notify_loop w rq (d # ds) tr = (Inr (), tr1 @ [Http rq, p])
          \<or> notify_loop w rq (d # ds) tr = notify_loop w rq ds (tr1 @ [Http rq, p])"
    by (cases "w tr1 rq") (auto simp: requests_def tr1_def Let_def)
  then obtain p where
    "notify_loop w rq (d # ds) tr = (Inr (), tr1 @ [Http rq, p])
       \<or> notify_loop w rq (d # ds) tr = notify_loop w rq ds (tr1 @ [Http rq, p])" by blast
  moreover obtain es where
    "snd (notify_loop w rq ds (tr1 @ [Http rq, p])) = (tr1 @ [Http rq, p]) @ es"
    using notify_loop_shape[of w rq ds "tr1 @ [Http rq, p]"] by blast
  ultimately have "\<exists>es'. snd (notify_loop w rq (d # ds) tr) = tr1 @ [Http rq] @ es'"
    by auto
  then obtain es' where "snd (notify_loop w rq (d # ds) tr) = tr1 @ [Http rq] @ es'" by blast
  then show ?thesis
    by (auto simp: tr1_def attempts_def)
qed


lemma attempts_zero_no_request: "attempts es = 0 \<Longrightarrow> Http rq \<notin> set es"
  by (induction es) (auto simp: attempts_def split: if_splits)

lemma attempt_blockI:
  assumes pre: "attempts pre = 0" and p: "attempts [p] = 0"
    and first: "P (length pre)"
    and later: "\<And>j. j < length es \<Longrightarrow> es ! j = Http rq \<Longrightarrow> P (length pre + 2 + j)"
  shows "\<forall>i < length (pre @ Http rq # p # es). (pre @ Http rq # p # es) ! i = Http rq \<longrightarrow> P i"
proof (intro allI impI)
  fix i
  assume i: "i < length (pre @ Http rq # p # es)" "(pre @ Http rq # p # es) ! i = Http rq"
  have np: "pre ! i \<noteq> Http rq" if "i < length pre" for i
    using attempts_zero_no_request[OF pre, of rq] that by (metis nth_mem)
  have pp: "p \<noteq> Http rq"
    using p by (auto simp: attempts_def)
  consider "i < length pre" | "i = length pre" | "i = Suc (length pre)"
    | j where "i = length pre + 2 + j" "j < length es"
  proof -
    assume c: "i < length pre \<Longrightarrow> thesis" "i = length pre \<Longrightarrow> thesis"
      "i = Suc (length pre) \<Longrightarrow> thesis"
      "\<And>j. i = length pre + 2 + j \<Longrightarrow> j < length es \<Longrightarrow> thesis"
    show thesis
    proof (cases "i < length pre + 2")
      case True
      then show ?thesis using c(1,2,3) by linarith
    next
      case False
      then have "i = length pre + 2 + (i - length pre - 2)" "i - length pre - 2 < length es"
        using i(1) by auto
      then show ?thesis using c(4) by blast
    qed
  qed
  then show "P i"
  proof cases
    case 1
    with i(2) np show ?thesis by (simp add: nth_append)
  next
    case 2
    with first show ?thesis by simp
  next
    case 3
    with i(2) pp show ?thesis by (simp add: nth_append)
  next
    case (4 j)
    with i(2) have "es ! j = Http rq" by (simp add: nth_append)
    with later 4 show ?thesis by simp
  qed
qed

lemma notify_loop_stops:
  "\<exists>es. snd (notify_loop w rq ds tr) = tr @ es
        \<and> (\<forall>i < length es. es ! i = Http rq \<longrightarrow>
              (attempts (drop (Suc i) es) = 0
               \<longleftrightarrow> attempt_ok w (tr @ take i es) rq \<or> attempts (take (Suc i) es) = length ds))"
proof (induction ds arbitrary: tr)
  case Nil
  show ?case by simp
next
  case (Cons d ds)
  define pre where "pre = (if d > 0 then [Sleep d] else [])"
  define tr1 where "tr1 = tr @ pre"
  have tr1: "(if d > 0 then tr @ [Sleep d] else tr) = tr1"
    by (simp add: tr1_def pre_def)
  have ap: "attempts pre = 0"
    by (simp add: pre_def attempts_def)
  show ?case
  proof (cases "attempt_ok w tr1 rq")
    case True
    let ?p = "Print ''Evaluation notified successfully''"
    have run: "snd (notify_loop w rq (d # ds) tr) = tr @ (pre @ Http rq # ?p # [])"
      using notify_loop_first_ok[of w d tr rq ds] True unfolding tr1 by (simp add: tr1_def)
    have ap2: "attempts [?p] = 0"
      by (simp add: attempts_def)
    have "\<forall>i < length (pre @ Http rq # ?p # []). (pre @ Http rq # ?p # []) ! i = Http rq \<longrightarrow>
              (attempts (drop (Suc i) (pre @ Http rq # ?p # [])) = 0
               \<longleftrightarrow> attempt_ok w (tr @ take i (pre @ Http rq # ?p # [])) rq
                    \<or> attempts (take (Suc i) (pre @ Http rq # ?p # [])) = length (d # ds))"
    proof (rule attempt_blockI[OF ap ap2])
      show "attempts (drop (Suc (length pre)) (pre @ Http rq # ?p # [])) = 0
               \<longleftrightarrow> attempt_ok w (tr @ take (length pre) (pre @ Http rq # ?p # [])) rq
                    \<or> attempts (take (Suc (length pre)) (pre @ Http rq # ?p # [])) = length (d # ds)"
        using True by (simp add: tr1_def attempts_def)
    qed simp
    with run show ?thesis by blast
  next
    case False
    have "\<exists>p. attempts [p] = 0
            \<and> notify_loop w rq (d # ds) tr = notify_loop w rq ds (tr1 @ [Http rq, p])"
    proof (cases "w tr1 rq")
      case (Raises x)
      have "attempts [Print_Exception ''Failed to notify evaluation URL: ''
                        (RequestException x) '', retrying...''] = 0"
        by (simp add: attempts_def)
      moreover have "notify_loop w rq (d # ds) tr
          = notify_loop w rq ds (tr1 @ [Http rq, Print_Exception ''Failed to notify evaluation URL: ''
                        (RequestException x) '', retrying...''])"
        using Raises unfolding tr1[symmetric] by (simp add: requests_def Let_def)
      ultimately show ?thesis by blast
    next
      case (Responds r)
      with False have ne: "status_code r \<noteq> 200"
        by (simp add: attempt_ok_def)
      have "attempts [Print (''Evaluation URL returned ''
                                     @ str_int (status_code r) @ '', retrying...'')] = 0"
        by (simp add: attempts_def)
      moreover have "notify_loop w rq (d # ds) tr
          = notify_loop w rq ds (tr1 @ [Http rq, Print (''Evaluation URL returned ''
                                     @ str_int (status_code r) @ '', retrying...'')])"
        using Responds ne unfolding tr1[symmetric] by (simp add: requests_def Let_def)
      ultimately show ?thesis by blast
    qed
    then obtain p where p: "attempts [p] = 0"
      and step: "notify_loop w rq (d # ds) tr = notify_loop w rq ds (tr1 @ [Http rq, p])"
      by blast
    obtain es where es: "snd (notify_loop w rq ds (tr1 @ [Http rq, p])) = (tr1 @ [Http rq, p]) @ es"
      and IH: "\<forall>j < length es. es ! j = Http rq \<longrightarrow>
              (attempts (drop (Suc j) es) = 0
               \<longleftrightarrow> attempt_ok w ((tr1 @ [Http rq, p]) @ take j es) rq
                    \<or> attempts (take (Suc j) es) = length ds)"
      using Cons.IH[of "tr1 @ [Http rq, p]"] by blast
    obtain es0 where es0: "snd (notify_loop w rq ds (tr1 @ [Http rq, p])) = (tr1 @ [Http rq, p]) @ es0"
      "attempts es0 \<le> length ds"
      using notify_loop_shape[of w rq ds "tr1 @ [Http rq, p]"] by blast
    have np: "\<not> (case p of Http _ \<Rightarrow> True | _ \<Rightarrow> False)"
      using p by (auto simp: attempts_def split: if_splits)
    have fp: "filter (\<lambda>ev. case ev of Http _ \<Rightarrow> True | _ \<Rightarrow> False) pre = []"
      using ap by (simp add: attempts_def)
    have le: "attempts es \<le> length ds"
      using es es0 by simp
    have pos: "1 \<le> attempts es" if "ds \<noteq> []"
    proof -
      from that obtain d' ds' where "ds = d' # ds'" by (cases ds) auto
      then show ?thesis
        using notify_loop_attempts_pos[of "tr1 @ [Http rq, p]" w rq d' ds'] es by simp
    qed
    have run: "snd (notify_loop w rq (d # ds) tr) = tr @ (pre @ Http rq # p # es)"
      using step es by (simp add: tr1_def)
    have first: "attempts (drop (Suc (length pre)) (pre @ Http rq # p # es)) = 0
               \<longleftrightarrow> attempt_ok w (tr @ take (length pre) (pre @ Http rq # p # es)) rq
                    \<or> attempts (take (Suc (length pre)) (pre @ Http rq # p # es))
                        = length (d # ds)"
    proof -
      have "attempts (drop (Suc (length pre)) (pre @ Http rq # p # es)) = attempts es"
        using np by (simp add: attempts_def)
      moreover have "attempts (take (Suc (length pre)) (pre @ Http rq # p # es)) = 1"
        using fp by (simp add: attempts_def)
      moreover have "attempts es = 0 \<longleftrightarrow> ds = []"
        using le pos by (cases "ds = []") auto
      ultimately show ?thesis
        using False by (simp add: tr1_def)
    qed
    have later: "attempts (drop (Suc (length pre + 2 + j)) (pre @ Http rq # p # es)) = 0
               \<longleftrightarrow> attempt_ok w (tr @ take (length pre + 2 + j) (pre @ Http rq # p # es)) rq
                    \<or> attempts (take (Suc (length pre + 2 + j)) (pre @ Http rq # p # es))
                        = length (d # ds)"
      if j: "j < length es" "es ! j = Http rq" for j
    proof -
      have two: "length pre + 2 + j = Suc (Suc (length pre + j))"
        by simp
      have e1: "drop (Suc (length pre + 2 + j)) (pre @ Http rq # p # es) = drop (Suc j) es"
        unfolding two by (simp add: numeral_3_eq_3)
      have e2: "tr @ take (length pre + 2 + j) (pre @ Http rq # p # es)
                       = (tr1 @ [Http rq, p]) @ take j es"
        unfolding two by (simp add: tr1_def numeral_3_eq_3)
      have e3: "attempts (take (Suc (length pre + 2 + j)) (pre @ Http rq # p # es))
                       = Suc (attempts (take (Suc j) es))"
        unfolding two using fp np by (simp add: attempts_def numeral_3_eq_3)
      have "attempts (drop (Suc j) es) = 0
               \<longleftrightarrow> attempt_ok w ((tr1 @ [Http rq, p]) @ take j es) rq
                    \<or> Suc (attempts (take (Suc j) es)) = length (d # ds)"
        using IH[rule_format, OF j] by simp
      then show ?thesis
        by (simp only: e1 e2 e3)
    qed
    have "\<forall>i < length (pre @ Http rq # p # es). (pre @ Http rq # p # es) ! i = Http rq \<longrightarrow>
              (attempts (drop (Suc i) (pre @ Http rq # p # es)) = 0
               \<longleftrightarrow> attempt_ok w (tr @ take i (pre @ Http rq # p # es)) rq
                    \<or> attempts (take (Suc i) (pre @ Http rq # p # es)) = length (d # ds))"
      by (rule attempt_blockI[OF ap p first later])
    with run show ?thesis by blast
  qed
qed


text \<open>
  C1. The notifier never raises, whatever the world answers. It sends between one and five
  requests, and its calls and waits are an initial part of: attempt, wait 1, attempt, wait 2,
  attempt, wait 4, attempt, wait 8, attempt (the delay 0 of the first attempt is no wait).
  If the first attempt is answered with status 200, that attempt is the only call. If no
  attempt is ever answered with status 200 (any other status, or an exception of the
  transport), all five attempts are made with all four waits, and the notifier still
  returns normally. For every sequence of outcomes, an attempt is the last one exactly
  when the world answers it with status 200 or it is the fifth: after an attempt that is
  answered otherwise, or raises, and is not the fifth, another attempt follows, and after
  an attempt answered with status 200 none does.
\<close>

theorem notify_evaluation_retries:
  "fst (notify_evaluation w tr request repo_url commit_sha pages_url) = Inr ()
   \<and> (\<exists>es. snd (notify_evaluation w tr request repo_url commit_sha pages_url) = tr @ es
         \<and> prefix (calls_of es)
              (schedule (notify_call request repo_url commit_sha pages_url) [0, 1, 2, 4, 8])
         \<and> 1 \<le> attempts es \<and> attempts es \<le> 5
         \<and> (attempt_ok w tr (notify_call request repo_url commit_sha pages_url) \<longrightarrow>
              calls_of es = [Http (notify_call request repo_url commit_sha pages_url)])
         \<and> ((\<forall>h. \<not> attempt_ok w h (notify_call request repo_url commit_sha pages_url)) \<longrightarrow>
              calls_of es
                = schedule (notify_call request repo_url commit_sha pages_url) [0, 1, 2, 4, 8])
         \<and> (\<forall>i < length es.
                es ! i = Http (notify_call request repo_url commit_sha pages_url) \<longrightarrow>
                  (attempts (drop (Suc i) es) = 0
                   \<longleftrightarrow> attempt_ok w (tr @ take i es)
                          (notify_call request repo_url commit_sha pages_url)
                        \<or> attempts (take (Suc i) es) = 5)))
   \<and> schedule (notify_call request repo_url commit_sha pages_url) [0, 1, 2, 4, 8]
       = [Http (notify_call request repo_url commit_sha pages_url), Sleep 1,
          Http (notify_call request repo_url commit_sha pages_url), Sleep 2,
          Http (notify_call request repo_url commit_sha pages_url), Sleep 4,
          Http (notify_call request repo_url commit_sha pages_url), Sleep 8,
          Http (notify_call request repo_url commit_sha pages_url)]"
proof -
  define rq where "rq = notify_call request repo_url commit_sha pages_url"
  let ?run = "notify_loop w rq [0, 1, 2, 4, 8] tr"
  have run: "notify_evaluation w tr request repo_url commit_sha pages_url = ?run"
    by (simp add: notify_evaluation_def rq_def notify_call_def)
  obtain es where es: "snd ?run = tr @ es" "prefix (calls_of es) (schedule rq [0, 1, 2, 4, 8])"
      "attempts es \<le> length [0::nat, 1, 2, 4, 8]"
      "(\<forall>h. \<not> attempt_ok w h rq) \<longrightarrow> calls_of es = schedule rq [0, 1, 2, 4, 8]"
    using notify_loop_shape[of w rq "[0, 1, 2, 4, 8]" tr] by blast
  obtain es' where es': "snd ?run = tr @ es'"
      "\<forall>i < length es'. es' ! i = Http rq \<longrightarrow>
          (attempts (drop (Suc i) es') = 0
           \<longleftrightarrow> attempt_ok w (tr @ take i es') rq
                \<or> attempts (take (Suc i) es') = length [0::nat, 1, 2, 4, 8])"
    using notify_loop_stops[of w rq "[0, 1, 2, 4, 8]" tr] by blast
  have same: "es' = es"
    using es(1) es'(1) by simp
  have stops: "\<forall>i < length es. es ! i = Http rq \<longrightarrow>
          (attempts (drop (Suc i) es) = 0
           \<longleftrightarrow> attempt_ok w (tr @ take i es) rq \<or> attempts (take (Suc i) es) = 5)"
  proof -
    have five: "length [0::nat, 1, 2, 4, 8] = 5"
      by simp
    show ?thesis
      using es'(2) unfolding same five .
  qed
  have pos: "1 \<le> attempts es"
    using notify_loop_attempts_pos[of tr w rq 0 "[1, 2, 4, 8]"] es(1) by simp
  have first: "calls_of es = [Http rq]" if "attempt_ok w tr rq"
  proof -
    have "?run = (Inr (), tr @ [Http rq, Print ''Evaluation notified successfully''])"
      using notify_loop_first_ok[of w 0 tr rq "[1, 2, 4, 8]"] that by simp
    with es(1) have "es = [Http rq, Print ''Evaluation notified successfully'']" by simp
    then show ?thesis by (simp add: calls_of_def)
  qed
  have "fst ?run = Inr ()"
    by (rule notify_loop_returns)
  moreover have "\<exists>es. snd ?run = tr @ es
         \<and> prefix (calls_of es) (schedule rq [0, 1, 2, 4, 8])
         \<and> 1 \<le> attempts es \<and> attempts es \<le> 5
         \<and> (attempt_ok w tr rq \<longrightarrow> calls_of es = [Http rq])
         \<and> ((\<forall>h. \<not> attempt_ok w h rq) \<longrightarrow> calls_of es = schedule rq [0, 1, 2, 4, 8])
         \<and> (\<forall>i < length es. es ! i = Http rq \<longrightarrow>
                (attempts (drop (Suc i) es) = 0
                 \<longleftrightarrow> attempt_ok w (tr @ take i es) rq \<or> attempts (take (Suc i) es) = 5))"
    using es pos first stops by (intro exI[of _ es]) simp
  moreover have "schedule rq [0, 1, 2, 4, 8]
       = [Http rq, Sleep 1, Http rq, Sleep 2, Http rq, Sleep 4, Http rq, Sleep 8, Http rq]"
    by simp
  ultimately show ?thesis
    unfolding run rq_def by blast
qed

theorem notify_evaluation_retries_witness:
  "attempt_ok friendly_world [] (notify_call sample_request JNull JNull [])
   \<and> calls_of (snd (notify_evaluation friendly_world [] sample_request JNull JNull []))
       = [Http (notify_call sample_request JNull JNull [])]
   \<and> (\<forall>h. \<not> attempt_ok deaf_world h (notify_call sample_request JNull JNull []))
   \<and> fst (notify_evaluation deaf_world [] sample_request JNull JNull []) = Inr ()
   \<and> calls_of (snd (notify_evaluation deaf_world [] sample_request JNull JNull []))
       = [Http (notify_call sample_request JNull JNull []), Sleep 1,
          Http (notify_call sample_request JNull JNull []), Sleep 2,
          Http (notify_call sample_request JNull JNull []), Sleep 4,
          Http (notify_call sample_request JNull JNull []), Sleep 8,
          Http (notify_call sample_request JNull JNull [])]
   \<and> snd (notify_evaluation flaky_world [] sample_request JNull JNull [])
       = [Http (notify_call sample_request JNull JNull []),
          Print ''Evaluation URL returned 500, retrying...'',
          Sleep 1,
          Http (notify_call sample_request JNull JNull []),
          Print ''Evaluation notified successfully'']
   \<and> \<not> attempt_ok flaky_world [] (notify_call sample_request JNull JNull [])
   \<and> attempts (drop 1 (snd (notify_evaluation flaky_world [] sample_request JNull JNull [])))
       \<noteq> 0
   \<and> attempt_ok flaky_world
         (take 3 (snd (notify_evaluation flaky_world [] sample_request JNull JNull [])))
         (notify_call sample_request JNull JNull [])
   \<and> attempts (drop 4 (snd (notify_evaluation flaky_world [] sample_request JNull JNull [])))
       = 0
   \<and> attempt_ok late_world
         (snd (notify_evaluation late_world [] sample_request JNull JNull []))
         (notify_call sample_request JNull JNull [])
   \<and> attempts (snd (notify_evaluation late_world [] sample_request JNull JNull [])) = 5"
proof -
  let ?rq = "notify_call sample_request JNull JNull []"
  let ?flaky = "snd (notify_evaluation flaky_world [] sample_request JNull JNull [])"
  let ?late = "snd (notify_evaluation late_world [] sample_request JNull JNull [])"
  have ok: "attempt_ok friendly_world [] ?rq"
    by (simp add: attempt_ok_def friendly_world_def notify_call_def notify_request_def
          sample_request_def sample_response_def)
  have never: "\<forall>h. \<not> attempt_ok deaf_world h ?rq"
    by (simp add: attempt_ok_def deaf_world_def)
  have flaky: "?flaky
       = [Http ?rq, Print ''Evaluation URL returned 500, retrying...'', Sleep 1,
          Http ?rq, Print ''Evaluation notified successfully'']"
    by code_simp
  have bad: "\<not> attempt_ok flaky_world [] ?rq"
    by (simp add: attempt_ok_def flaky_world_def attempts_def sample_response_def)
  have good: "attempt_ok flaky_world (take 3 ?flaky) ?rq"
    unfolding flaky
    by (simp add: attempt_ok_def flaky_world_def attempts_def sample_response_def)
  obtain es where es: "?flaky = [] @ es"
    and stops: "\<forall>i < length es. es ! i = Http ?rq \<longrightarrow>
                  (attempts (drop (Suc i) es) = 0
                   \<longleftrightarrow> attempt_ok flaky_world ([] @ take i es) ?rq
                        \<or> attempts (take (Suc i) es) = 5)"
    using notify_evaluation_retries [of flaky_world "[]" sample_request JNull JNull "[]"]
    by blast
  have es_eq: "es = ?flaky"
    using es by simp
  have at0: "0 < length es" "es ! 0 = Http ?rq"
    and at3: "3 < length es" "es ! 3 = Http ?rq"
    and n1: "attempts (take (Suc 0) es) \<noteq> 5"
    unfolding es_eq flaky by (simp_all add: attempts_def)
  have again: "attempts (drop 1 ?flaky) \<noteq> 0"
    using stops[rule_format, OF at0] bad n1 unfolding es_eq by simp
  have last: "attempts (drop 4 ?flaky) = 0"
  proof -
    have "attempts (drop (Suc 3) es) = 0"
      using stops[rule_format, OF at3] good unfolding es_eq by simp
    then show ?thesis
      unfolding es_eq by simp
  qed
  have late_ok: "attempt_ok late_world ?late ?rq"
    by (simp add: notify_evaluation_def notify_call_def requests_def late_world_def
          sample_response_def attempts_def attempt_ok_def Let_def)
  have late5: "attempts ?late = 5"
    by (simp add: notify_evaluation_def notify_call_def requests_def late_world_def
          sample_response_def attempts_def Let_def)
  have friendly_deaf:
    "calls_of (snd (notify_evaluation friendly_world [] sample_request JNull JNull []))
       = [Http ?rq]
     \<and> fst (notify_evaluation deaf_world [] sample_request JNull JNull []) = Inr ()
     \<and> calls_of (snd (notify_evaluation deaf_world [] sample_request JNull JNull []))
         = [Http ?rq, Sleep 1, Http ?rq, Sleep 2, Http ?rq, Sleep 4, Http ?rq, Sleep 8, Http ?rq]"
    using ok never
      notify_evaluation_retries [of friendly_world "[]" sample_request JNull JNull "[]"]
      notify_evaluation_retries [of deaf_world "[]" sample_request JNull JNull "[]"]
    by auto
  show ?thesis
    using ok never flaky bad again good last late_ok late5 friendly_deaf by blast
qed

section \<open>Cleaning\<close>








text \<open>
  C2. The extraction deletes every occurrence of \<open>html\<close> and of \<open>HTML\<close> in the part it
  takes, not only a leading language tag: on a fenced document the root tags themselves lose
  their name.
\<close>

theorem extraction_mangles_root_tag:
  "clean_markdown
     (backticks @ ''html\<newline><html><body>Hi</body></html>\<newline>'' @ backticks)
     = ''<><body>Hi</body></>''
   \<and> clean_markdown
       (backticks @ ''html\<newline><html><body>Hi</body></html>\<newline>'' @ backticks)
     \<noteq> ''<html><body>Hi</body></html>''"
  by (simp add: clean_markdown_def backticks_def is_markup_def py_lower_def lower_char_def
        py_strip_def py_isspace_def)

section \<open>Order of events\<close>

lemma preceded_Nil [simp]: "preceded P Q []"
  by (simp add: preceded_def)

lemma preceded_Cons:
  "preceded P Q (x # xs) \<longleftrightarrow> \<not> Q x \<and> (P x \<or> preceded P Q xs)"
proof
  assume a: "preceded P Q (x # xs)"
  have "\<not> Q x" using a by (auto simp: preceded_def)
  moreover have "preceded P Q xs" if "\<not> P x"
    unfolding preceded_def
  proof (intro allI impI)
    fix i assume i: "i < length xs" "Q (xs ! i)"
    with a obtain j where j: "j < Suc i" "P ((x # xs) ! j)"
      unfolding preceded_def by (metis length_Cons nth_Cons_Suc Suc_less_eq)
    with that obtain k where "j = Suc k" by (cases j) auto
    with j show "\<exists>j<i. P (xs ! j)" by auto
  qed
  ultimately show "\<not> Q x \<and> (P x \<or> preceded P Q xs)" by blast
next
  assume b: "\<not> Q x \<and> (P x \<or> preceded P Q xs)"
  show "preceded P Q (x # xs)"
    unfolding preceded_def
  proof (intro allI impI)
    fix i assume i: "i < length (x # xs)" "Q ((x # xs) ! i)"
    with b obtain k where k: "i = Suc k" by (cases i) auto
    show "\<exists>j<i. P ((x # xs) ! j)"
    proof (cases "P x")
      case True
      then show ?thesis using k by (intro exI[of _ 0]) simp
    next
      case False
      with b have "preceded P Q xs" by blast
      with i k obtain j where "j < k" "P (xs ! j)" by (auto simp: preceded_def)
      then show ?thesis using k by (intro exI[of _ "Suc j"]) simp
    qed
  qed
qed

lemma preceded_append:
  "preceded P Q xs \<Longrightarrow> preceded P Q ys \<Longrightarrow> preceded P Q (xs @ ys)"
  by (induction xs) (auto simp: preceded_Cons)

lemma preceded_none: "\<forall>x \<in> set xs. \<not> Q x \<Longrightarrow> preceded P Q xs"
  by (induction xs) (auto simp: preceded_Cons)

lemma preceded_prefix: "preceded P Q ys \<Longrightarrow> prefix xs ys \<Longrightarrow> preceded P Q xs"
proof -
  assume a: "preceded P Q ys" and p: "prefix xs ys"
  then obtain zs where ys: "ys = xs @ zs" by (auto simp: prefix_def)
  show ?thesis
    unfolding preceded_def
  proof (intro allI impI)
    fix i assume i: "i < length xs" "Q (xs ! i)"
    then have "i < length ys" "Q (ys ! i)" by (auto simp: ys nth_append)
    with a obtain j where "j < i" "P (ys ! j)" by (auto simp: preceded_def)
    with i show "\<exists>j<i. P (xs ! j)" by (intro exI[of _ j]) (auto simp: ys nth_append)
  qed
qed

section \<open>Publisher\<close>

lemma add_file_to_repo_events:
  "snd (add_file_to_repo w tr repo_name file_path content message headers)
     = tr @ (case encode_content content of
               Inl e \<Rightarrow> []
             | Inr enc \<Rightarrow> [Http (put_request headers repo_name file_path message enc None)])"
  by (cases "encode_content content";
      cases "w tr (put_request headers repo_name file_path message
                     (projr (encode_content content)) None)")
     (auto simp: add_file_to_repo_def)

lemma add_file_to_repo_Inr:
  assumes "add_file_to_repo w tr repo_name file_path content message headers = (Inr v, tr')"
  shows "\<exists>enc r. encode_content content = Inr enc
           \<and> tr' = tr @ [Http (put_request headers repo_name file_path message enc None)]
           \<and> w tr (put_request headers repo_name file_path message enc None) = Responds r
           \<and> status_code r \<in> {200, 201}
           \<and> commit_sha_of r = Inr v"
  using assms
  by (cases "encode_content content")
     (auto simp: add_file_to_repo_def and_then_eq_Inr requests_eq_Inr split: if_splits)

lemma update_file_in_repo_Inr:
  assumes "update_file_in_repo w tr repo_name file_path content message headers = (Inr v, tr')"
  shows "\<exists>enc sha r. encode_content content = Inr enc
           \<and> tr' = tr @ [Http (get_request headers repo_name file_path),
                          Http (put_request headers repo_name file_path message enc sha)]
           \<and> w (tr @ [Http (get_request headers repo_name file_path)])
                (put_request headers repo_name file_path message enc sha) = Responds r
           \<and> commit_sha_of r = Inr v"
proof -
  from assms obtain g where
    g: "w tr (get_request headers repo_name file_path) = Responds g"
    and rest: "(if status_code g \<noteq> 200
          then add_file_to_repo w (tr @ [Http (get_request headers repo_name file_path)])
                 repo_name file_path content message headers
          else
            (case then_get (json_of g) (getitem ''sha'') of
               Inl e \<Rightarrow> (Inl e, tr @ [Http (get_request headers repo_name file_path)])
             | Inr file_sha \<Rightarrow>
                 (case encode_content content of
                    Inl e \<Rightarrow> (Inl e, tr @ [Http (get_request headers repo_name file_path)])
                  | Inr encoded_content \<Rightarrow>
                      and_then
                        (requests w (tr @ [Http (get_request headers repo_name file_path)])
                           (put_request headers repo_name file_path message encoded_content
                              (Some file_sha)))
                        (\<lambda>response tr2.
                           if status_code response \<notin> {200, 201}
                           then (Inl (Exception
                                   (''Failed to update '' @ file_path @ '': ''
                                      @ response_text response)), tr2)
                           else (commit_sha_of response, tr2))))) = (Inr v, tr')"
    unfolding update_file_in_repo_def and_then_eq_Inr requests_eq_Inr by blast
  show ?thesis
  proof (cases "status_code g \<noteq> 200")
    case True
    with rest add_file_to_repo_Inr[of w "tr @ [Http (get_request headers repo_name file_path)]"
        repo_name file_path content message headers v tr']
    show ?thesis by auto
  next
    case False
    with rest show ?thesis
      by (auto simp: and_then_eq_Inr requests_eq_Inr split: sum.splits if_splits)
  qed
qed

lemma update_file_in_repo_events:
  "\<exists>es. snd (update_file_in_repo w tr repo_name file_path content message headers)
           = tr @ Http (get_request headers repo_name file_path) # es
        \<and> (es = [] \<or> (\<exists>enc sha.
              es = [Http (put_request headers repo_name file_path message enc sha)]))"
proof (cases "w tr (get_request headers repo_name file_path)")
  case (Raises m)
  then show ?thesis by (simp add: update_file_in_repo_def)
next
  case (Responds g)
  show ?thesis
  proof (cases "status_code g \<noteq> 200")
    case True
    then show ?thesis
      using Responds add_file_to_repo_events[of w
          "tr @ [Http (get_request headers repo_name file_path)]"
          repo_name file_path content message headers]
      by (auto simp: update_file_in_repo_def split: sum.splits)
  next
    case False
    show ?thesis
    proof (cases "then_get (json_of g) (getitem ''sha'')")
      case (Inl e)
      with Responds False show ?thesis by (simp add: update_file_in_repo_def)
    next
      case (Inr file_sha)
      show ?thesis
      proof (cases "encode_content content")
        case (Inl e)
        with Responds False Inr show ?thesis by (simp add: update_file_in_repo_def)
      next
        case enc: (Inr enc)
        show ?thesis
          using Responds False Inr enc
          by (cases "w (tr @ [Http (get_request headers repo_name file_path)])
                       (put_request headers repo_name file_path message enc (Some file_sha))")
             (auto simp: update_file_in_repo_def)
      qed
    qed
  qed
qed

lemma snd_and_then:
  "snd (and_then m f) = (case fst m of Inl e \<Rightarrow> snd m | Inr v \<Rightarrow> snd (f v (snd m)))"
  by (cases m; cases "fst m") auto

lemma fst_and_then:
  "fst (and_then m f) = (case fst m of Inl e \<Rightarrow> Inl e | Inr v \<Rightarrow> fst (f v (snd m)))"
  by (cases m; cases "fst m") auto

lemma add_file_to_repo_Inl:
  "encode_content content = Inl e \<Longrightarrow>
     add_file_to_repo w tr repo_name file_path content message headers = (Inl e, tr)"
  by (simp add: add_file_to_repo_def)

lemma create_github_repo_events:
  "\<exists>es. snd (create_github_repo cfg w tr repo_name html_code brief_text) = tr @ es
        \<and> prefix es
            ([Http (create_request cfg repo_name brief_text), Sleep 2,
              Http (put_request (github_headers cfg) repo_name ''README.md'' ''Initial commit''
                      (b64encode (utf8_encode (generate_readme repo_name brief_text 1))) None),
              Sleep 1]
             @ (case encode_content html_code of
                  Inl e \<Rightarrow> []
                | Inr enc \<Rightarrow>
                    [Http (put_request (github_headers cfg) repo_name ''index.html''
                             ''Add generated app'' enc None),
                     Http (put_request (github_headers cfg) repo_name ''LICENSE''
                             ''Add MIT license'' (b64encode (utf8_encode get_mit_license))
                             None)]))"
  unfolding create_github_repo_def Let_def
  by (cases "encode_content html_code")
     (auto simp: snd_and_then add_file_to_repo_events add_file_to_repo_Inl split: sum.splits)

lemma update_github_repo_events:
  "\<exists>es. snd (update_github_repo cfg w tr repo_name html_code brief_text) = tr @ es
        \<and> (\<forall>ev \<in> set es. reads_file repo_name ''index.html'' ev
                \<or> writes_file repo_name ''index.html'' ev
                \<or> reads_file repo_name ''README.md'' ev
                \<or> writes_file repo_name ''README.md'' ev)
        \<and> preceded (reads_file repo_name ''index.html'') (writes_file repo_name ''index.html'') es
        \<and> preceded (reads_file repo_name ''README.md'') (writes_file repo_name ''README.md'') es
        \<and> preceded (writes_file repo_name ''index.html'') (reads_file repo_name ''README.md'') es"
proof -
  let ?h = "github_headers cfg"
  let ?g1 = "Http (get_request ?h repo_name ''index.html'')"
  let ?g2 = "Http (get_request ?h repo_name ''README.md'')"
  have diff: "contents_url repo_name ''index.html'' \<noteq> contents_url repo_name ''README.md''"
    by (simp add: contents_url_def)
  have g1: "reads_file repo_name ''index.html'' ?g1" "\<not> writes_file repo_name p ?g1"
    "\<not> reads_file repo_name ''README.md'' ?g1" for p
    using diff by (simp_all add: reads_file_def writes_file_def get_request_def)
  have g2: "reads_file repo_name ''README.md'' ?g2" "\<not> writes_file repo_name p ?g2"
    "\<not> reads_file repo_name ''index.html'' ?g2" for p
    using diff by (simp_all add: reads_file_def writes_file_def get_request_def)
  have p1: "writes_file repo_name ''index.html''
              (Http (put_request ?h repo_name ''index.html'' m enc sha))"
    "\<not> reads_file repo_name p (Http (put_request ?h repo_name ''index.html'' m enc sha))"
    "\<not> writes_file repo_name ''README.md''
         (Http (put_request ?h repo_name ''index.html'' m enc sha))" for m enc sha p
    using diff by (simp_all add: reads_file_def writes_file_def put_request_def)
  have p2: "writes_file repo_name ''README.md''
              (Http (put_request ?h repo_name ''README.md'' m enc sha))"
    "\<not> reads_file repo_name p (Http (put_request ?h repo_name ''README.md'' m enc sha))"
    "\<not> writes_file repo_name ''index.html''
         (Http (put_request ?h repo_name ''README.md'' m enc sha))" for m enc sha p
    using diff by (simp_all add: reads_file_def writes_file_def put_request_def)
  let ?first = "update_file_in_repo w tr repo_name ''index.html'' html_code
                  ''Update app for round 2'' ?h"
  obtain es1 where es1: "snd ?first = tr @ ?g1 # es1"
    "es1 = [] \<or> (\<exists>enc sha. es1 = [Http (put_request ?h repo_name ''index.html''
                                           ''Update app for round 2'' enc sha)])"
    using update_file_in_repo_events[of w tr repo_name "''index.html''" html_code
        "''Update app for round 2''" ?h] by blast
  show ?thesis
  proof (cases "fst ?first")
    case (Inl e)
    then have "snd (update_github_repo cfg w tr repo_name html_code brief_text)
                 = tr @ ?g1 # es1"
      using es1(1) by (simp add: update_github_repo_def Let_def snd_and_then)
    then show ?thesis
      using es1(2) g1 p1 by (intro exI[of _ "?g1 # es1"]) (auto simp: preceded_Cons)
  next
    case (Inr c)
    then have first: "?first = (Inr c, tr @ ?g1 # es1)"
      using es1(1) by (metis prod.collapse)
    then obtain enc sha where
      es1': "es1 = [Http (put_request ?h repo_name ''index.html'' ''Update app for round 2''
                            enc sha)]"
      using update_file_in_repo_Inr[OF first] by auto
    let ?second = "update_file_in_repo w (tr @ ?g1 # es1) repo_name ''README.md''
                     (JStr (generate_readme repo_name brief_text 2))
                     ''Update README for round 2'' ?h"
    obtain es2 where es2: "snd ?second = (tr @ ?g1 # es1) @ ?g2 # es2"
      "es2 = [] \<or> (\<exists>enc sha. es2 = [Http (put_request ?h repo_name ''README.md''
                                             ''Update README for round 2'' enc sha)])"
      using update_file_in_repo_events[of w "tr @ ?g1 # es1" repo_name "''README.md''"
          "JStr (generate_readme repo_name brief_text 2)" "''Update README for round 2''" ?h]
      by blast
    have "snd (update_github_repo cfg w tr repo_name html_code brief_text)
            = tr @ (?g1 # es1 @ ?g2 # es2)"
      using first es2(1)
      by (cases "fst ?second") (simp_all add: update_github_repo_def Let_def snd_and_then)
    then show ?thesis
      using es1' es2(2) g1 g2 p1 p2
      by (intro exI[of _ "?g1 # es1 @ ?g2 # es2"]) (auto simp: preceded_Cons)
  qed
qed

section \<open>The events of each step\<close>

lemma generate_app_with_groq_events:
  "snd (generate_app_with_groq cfg w tr brief_text check_list atts)
     = tr @ [Http (groq_request cfg (build_prompt brief_text check_list atts))]"
  by (simp add: generate_app_with_groq_def snd_and_then split: sum.splits)

lemma enable_github_pages_events:
  "\<exists>es. snd (enable_github_pages cfg w tr repo_name)
           = tr @ Http (pages_request cfg repo_name) # es
        \<and> (\<forall>rq. Http rq \<notin> set es)"
  by (cases "w tr (pages_request cfg repo_name)") (auto simp: enable_github_pages_def)

lemma notify_loop_requests:
  "\<exists>es. snd (notify_loop w rq ds tr) = tr @ es \<and> (\<forall>rq'. Http rq' \<in> set es \<longrightarrow> rq' = rq)"
proof (induction ds arbitrary: tr)
  case Nil
  show ?case by simp
next
  case (Cons d ds)
  define tr1 where "tr1 = (if d > 0 then tr @ [Sleep d] else tr)"
  have "\<exists>p. (\<forall>rq'. p \<noteq> Http rq')
          \<and> (notify_loop w rq (d # ds) tr = (Inr (), tr1 @ [Http rq, p])
             \<or> notify_loop w rq (d # ds) tr = notify_loop w rq ds (tr1 @ [Http rq, p]))"
    by (cases "w tr1 rq") (auto simp: tr1_def Let_def)
  then obtain p where p: "\<forall>rq'. p \<noteq> Http rq'"
    and step: "notify_loop w rq (d # ds) tr = (Inr (), tr1 @ [Http rq, p])
             \<or> notify_loop w rq (d # ds) tr = notify_loop w rq ds (tr1 @ [Http rq, p])"
    by blast
  obtain es where es: "snd (notify_loop w rq ds (tr1 @ [Http rq, p])) = (tr1 @ [Http rq, p]) @ es"
    "\<forall>rq'. Http rq' \<in> set es \<longrightarrow> rq' = rq"
    using Cons.IH[of "tr1 @ [Http rq, p]"] by blast
  obtain pre where pre: "tr1 = tr @ pre" "\<forall>rq'. Http rq' \<notin> set pre"
    by (cases "d > 0") (auto simp: tr1_def)
  from step show ?case
  proof
    assume "notify_loop w rq (d # ds) tr = (Inr (), tr1 @ [Http rq, p])"
    then show ?thesis
      using p pre by (intro exI[of _ "pre @ [Http rq, p]"]) auto
  next
    assume "notify_loop w rq (d # ds) tr = notify_loop w rq ds (tr1 @ [Http rq, p])"
    then show ?thesis
      using p pre es by (intro exI[of _ "pre @ [Http rq, p] @ es"]) auto
  qed
qed

lemma notify_evaluation_events:
  "\<exists>es. snd (notify_evaluation w tr request repo_url commit_sha pages_url) = tr @ es
        \<and> (\<forall>rq. Http rq \<in> set es \<longrightarrow> rq = notify_call request repo_url commit_sha pages_url)"
  using notify_loop_requests[of w "notify_call request repo_url commit_sha pages_url"
      "[0, 1, 2, 4, 8]" tr]
  by (simp add: notify_evaluation_def notify_call_def)

lemma notify_evaluation_first_request:
  "\<exists>es. snd (notify_evaluation w tr request repo_url commit_sha pages_url)
           = tr @ Http (notify_call request repo_url commit_sha pages_url) # es"
proof -
  let ?rq = "notify_call request repo_url commit_sha pages_url"
  have "\<exists>p. notify_loop w ?rq [0, 1, 2, 4, 8] tr = (Inr (), tr @ [Http ?rq, p])
          \<or> notify_loop w ?rq [0, 1, 2, 4, 8] tr
              = notify_loop w ?rq [1, 2, 4, 8] (tr @ [Http ?rq, p])"
    by (cases "w tr ?rq") (auto simp: Let_def)
  then obtain p where
    "notify_loop w ?rq [0, 1, 2, 4, 8] tr = (Inr (), tr @ [Http ?rq, p])
     \<or> notify_loop w ?rq [0, 1, 2, 4, 8] tr
         = notify_loop w ?rq [1, 2, 4, 8] (tr @ [Http ?rq, p])" by blast
  moreover obtain es where
    "snd (notify_loop w ?rq [1, 2, 4, 8] (tr @ [Http ?rq, p])) = (tr @ [Http ?rq, p]) @ es"
    using notify_loop_requests[of w ?rq "[1, 2, 4, 8]" "tr @ [Http ?rq, p]"] by blast
  ultimately show ?thesis
    by (auto simp: notify_evaluation_def notify_call_def)
qed

section \<open>Properties kept by every step of the handler\<close>

lemma append_events_invariant:
  assumes "I tr"
    and other: "\<And>es ev. I es \<Longrightarrow> (\<forall>rq. ev \<noteq> Http rq) \<Longrightarrow> I (es @ [ev])"
    and sent: "\<And>es. I es \<Longrightarrow> I (es @ [Http rq0])"
    and only: "\<forall>rq. Http rq \<in> set new \<longrightarrow> rq = rq0"
  shows "I (tr @ new)"
  using only
proof (induction new rule: rev_induct)
  case Nil
  show ?case using assms(1) by simp
next
  case (snoc ev new)
  then have IH: "I (tr @ new)" by simp
  show ?case
  proof (cases "\<exists>rq. ev = Http rq")
    case True
    then have "ev = Http rq0" using snoc.prems by auto
    then show ?thesis using sent[OF IH] by simp
  next
    case False
    then show ?thesis using other[OF IH, of ev] by simp
  qed
qed

lemma append_other_invariant:
  assumes "I tr"
    and other: "\<And>es ev. I es \<Longrightarrow> (\<forall>rq. ev \<noteq> Http rq) \<Longrightarrow> I (es @ [ev])"
    and none: "\<forall>rq. Http rq \<notin> set new"
  shows "I (tr @ new)"
  using none
proof (induction new rule: rev_induct)
  case Nil
  show ?case using assms(1) by simp
next
  case (snoc ev new)
  then have "I (tr @ new)" "\<forall>rq. ev \<noteq> Http rq" by auto
  then show ?case using other[of "tr @ new" ev] by simp
qed

lemma receive_task_try_invariant:
  assumes init: "I tr"
    and other: "\<And>es ev. I es \<Longrightarrow> (\<forall>rq. ev \<noteq> Http rq) \<Longrightarrow> I (es @ [ev])"
    and groq: "\<And>es p. I es \<Longrightarrow> I (es @ [Http (groq_request cfg p)])"
    and publish: "\<And>es html.
        I es \<Longrightarrow>
        I (snd (if round request = 1
                then create_github_repo cfg w es (task request) html (brief request)
                else update_github_repo cfg w es (task request) html (brief request)))"
    and pages: "\<And>es. I es \<Longrightarrow> round request = 1 \<Longrightarrow>
                  I (es @ [Http (pages_request cfg (task request))])"
    and notify: "\<And>es u c p. I es \<Longrightarrow> I (es @ [Http (notify_call request u c p)])"
  shows "I (snd (receive_task_try cfg w tr request))"
proof -
  define tr0 where
    "tr0 = tr @ [Print (''Received task: '' @ task request @ '', round: ''
                          @ str_int (round request)),
                 Print ''Generating code with Groq...'']"
  define gen where
    "gen = generate_app_with_groq cfg w tr0 (brief request) (checks request) (attachments request)"
  have print: "I (es @ [Print s])" if "I es" for es s
    by (rule other[OF that]) simp
  have "I ((tr @ [Print (''Received task: '' @ task request @ '', round: ''
                          @ str_int (round request))])
           @ [Print ''Generating code with Groq...''])"
    by (intro print init)
  then have I0: "I tr0"
    by (simp add: tr0_def)
  have I1: "I (snd gen)"
    unfolding gen_def generate_app_with_groq_events by (rule groq[OF I0])
  have enable: "I (snd (enable_github_pages cfg w es (task request)))"
    if "I es" "round request = 1" for es
  proof -
    obtain new where new: "snd (enable_github_pages cfg w es (task request))
        = es @ Http (pages_request cfg (task request)) # new" "\<forall>rq. Http rq \<notin> set new"
      using enable_github_pages_events by blast
    have "I ((es @ [Http (pages_request cfg (task request))]) @ new)"
      by (rule append_other_invariant[of I "es @ [Http (pages_request cfg (task request))]",
            OF pages[OF that] other new(2)])
    then show ?thesis using new(1) by simp
  qed
  have notified: "I (snd (notify_evaluation w es request u c p))" if "I es" for es u c p
  proof -
    obtain new where new: "snd (notify_evaluation w es request u c p) = es @ new"
      "\<forall>rq. Http rq \<in> set new \<longrightarrow> rq = notify_call request u c p"
      using notify_evaluation_events by blast
    have "I (es @ new)"
      by (rule append_events_invariant[of I es "notify_call request u c p",
            OF that other notify new(2)])
    then show ?thesis using new(1) by simp
  qed
  define finish where
    "finish = (\<lambda>u c es.
       and_then
         (if round request = 1
          then enable_github_pages cfg w (es @ [Print ''Enabling GitHub Pages...''])
                 (task request)
          else (Inr (), es))
         (\<lambda>_ tr3.
            let pages_url = ''https://'' @ GITHUB_USERNAME @ ''.github.io/''
                              @ task request @ ''/''
            in and_then
                 (notify_evaluation w (tr3 @ [Print ''Notifying evaluation URL...''])
                    request u c pages_url)
                 (\<lambda>_ tr4.
                    (Inr (Success u pages_url c),
                     tr4 @ [Print ''Task completed successfully!'']))))"
  define body where
    "body = (\<lambda>html es.
       and_then
         (if round request = 1
          then create_github_repo cfg w
                 (es @ [Print (''Creating GitHub repo: '' @ task request)])
                 (task request) html (brief request)
          else update_github_repo cfg w
                 (es @ [Print (''Updating GitHub repo: '' @ task request)])
                 (task request) html (brief request))
         (\<lambda>(u, c) tr2. finish u c tr2))"
  have whole: "receive_task_try cfg w tr request = and_then gen body"
    by (simp add: receive_task_try_def gen_def tr0_def body_def finish_def Let_def)
  have rest: "I (snd (finish u c es))" if es: "I es" for es u c
  proof -
    define p where "p = ''https://'' @ GITHUB_USERNAME @ ''.github.io/'' @ task request @ ''/''"
    define last_step where
      "last_step = (\<lambda>tr3.
         and_then
           (notify_evaluation w (tr3 @ [Print ''Notifying evaluation URL...'']) request u c p)
           (\<lambda>_ tr4. (Inr (Success u p c), tr4 @ [Print ''Task completed successfully!''])))"
    have fin: "finish u c es
        = and_then
            (if round request = 1
             then enable_github_pages cfg w (es @ [Print ''Enabling GitHub Pages...''])
                    (task request)
             else (Inr (), es))
            (\<lambda>_ tr3. last_step tr3)"
      by (simp add: finish_def last_step_def p_def Let_def)
    have k: "I (snd (last_step tr3))" if "I tr3" for tr3
    proof -
      let ?n = "notify_evaluation w (tr3 @ [Print ''Notifying evaluation URL...'']) request u c p"
      have n: "I (snd ?n)"
        by (rule notified[OF print[OF that]])
      show ?thesis
      proof (cases "fst ?n")
        case (Inl e)
        then have "snd (last_step tr3) = snd ?n"
          by (simp add: last_step_def snd_and_then)
        with n show ?thesis by simp
      next
        case (Inr v)
        then have "snd (last_step tr3) = snd ?n @ [Print ''Task completed successfully!'']"
          by (simp add: last_step_def snd_and_then)
        with print[OF n] show ?thesis by simp
      qed
    qed
    show ?thesis
    proof (cases "round request = 1")
      case True
      let ?e = "enable_github_pages cfg w (es @ [Print ''Enabling GitHub Pages...''])
                  (task request)"
      have e: "I (snd ?e)"
        by (rule enable[OF print[OF es] True])
      show ?thesis
      proof (cases "fst ?e")
        case (Inl x)
        then have "snd (finish u c es) = snd ?e"
          using True by (simp add: fin snd_and_then)
        with e show ?thesis by simp
      next
        case (Inr v)
        then have "snd (finish u c es) = snd (last_step (snd ?e))"
          using True by (simp add: fin snd_and_then)
        with k[OF e] show ?thesis by simp
      qed
    next
      case False
      then have "snd (finish u c es) = snd (last_step es)"
        by (simp add: fin snd_and_then)
      with k[OF es] show ?thesis by simp
    qed
  qed
  have pub: "I (snd (body html es))" if es: "I es" for es html
  proof -
    let ?pr = "Print (if round request = 1 then ''Creating GitHub repo: '' @ task request
                      else ''Updating GitHub repo: '' @ task request)"
    let ?p = "if round request = 1
              then create_github_repo cfg w (es @ [?pr]) (task request) html (brief request)
              else update_github_repo cfg w (es @ [?pr]) (task request) html (brief request)"
    have b: "body html es = and_then ?p (\<lambda>(u, c) tr2. finish u c tr2)"
      by (simp add: body_def)
    have p: "I (snd ?p)"
      by (rule publish[OF print[OF es]])
    show ?thesis
    proof (cases "fst ?p")
      case (Inl x)
      then have "snd (body html es) = snd ?p"
        unfolding b by (simp add: snd_and_then)
      with p show ?thesis by simp
    next
      case (Inr uc)
      then have "snd (body html es) = snd (finish (fst uc) (snd uc) (snd ?p))"
        unfolding b by (simp add: snd_and_then split: prod.splits)
      with rest[OF p] show ?thesis by simp
    qed
  qed
  show ?thesis
  proof (cases "fst gen")
    case (Inl e)
    then have "snd (receive_task_try cfg w tr request) = snd gen"
      by (simp add: whole snd_and_then)
    with I1 show ?thesis by simp
  next
    case (Inr html)
    then have "snd (receive_task_try cfg w tr request) = snd (body html (snd gen))"
      by (simp add: whole snd_and_then)
    with pub[OF I1] show ?thesis by simp
  qed
qed

lemma receive_task_invariant:
  assumes init: "I []"
    and other: "\<And>es ev. I es \<Longrightarrow> (\<forall>rq. ev \<noteq> Http rq) \<Longrightarrow> I (es @ [ev])"
    and groq: "\<And>es p. I es \<Longrightarrow> I (es @ [Http (groq_request cfg p)])"
    and publish: "\<And>es html.
        I es \<Longrightarrow>
        I (snd (if round request = 1
                then create_github_repo cfg w es (task request) html (brief request)
                else update_github_repo cfg w es (task request) html (brief request)))"
    and pages: "\<And>es. I es \<Longrightarrow> round request = 1 \<Longrightarrow>
                  I (es @ [Http (pages_request cfg (task request))])"
    and notify: "\<And>es u c p. I es \<Longrightarrow> I (es @ [Http (notify_call request u c p)])"
  shows "I (snd (receive_task cfg w request))"
proof -
  have "I (snd (receive_task_try cfg w [] request))"
    by (rule receive_task_try_invariant[of I, OF init other groq publish pages notify])
  then show ?thesis
    using init other[of "snd (receive_task_try cfg w [] request)"]
    by (auto simp: receive_task_def split: prod.splits sum.splits)
qed

section \<open>What a successful run has done\<close>

lemma answered_sha_append:
  "i < length es \<Longrightarrow> answered_sha w (es @ rest) i v = answered_sha w es i v"
  by (auto simp: answered_sha_def nth_append split: event.splits)

lemma create_github_repo_Inr:
  assumes "create_github_repo cfg w tr repo_name html_code brief_text = (Inr (u, c), T)"
  shows "\<exists>es i. T = tr @ es \<and> length tr \<le> i \<and> i < length T
           \<and> writes_file repo_name ''index.html'' (T ! i) \<and> answered_sha w T i c"
proof -
  let ?h = "github_headers cfg"
  let ?c = "Http (create_request cfg repo_name brief_text)"
  from assms obtain r1 tr2 tr3 tr4 v1 v3 where
    readme: "add_file_to_repo w (tr @ [?c, Sleep 2]) repo_name ''README.md''
               (JStr (generate_readme repo_name brief_text 1)) ''Initial commit'' ?h
             = (Inr v1, tr2)"
    and index: "add_file_to_repo w (tr2 @ [Sleep 1]) repo_name ''index.html'' html_code
                  ''Add generated app'' ?h = (Inr c, tr3)"
    and license: "add_file_to_repo w tr3 repo_name ''LICENSE'' (JStr get_mit_license)
                    ''Add MIT license'' ?h = (Inr v3, T)"
    by (auto simp: create_github_repo_def Let_def and_then_eq_Inr requests_eq_Inr
             split: if_splits sum.splits)
  from add_file_to_repo_Inr[OF readme] obtain e1 where
    tr2: "tr2 = tr @ [?c, Sleep 2,
                      Http (put_request ?h repo_name ''README.md'' ''Initial commit'' e1 None)]"
    by auto
  from add_file_to_repo_Inr[OF index] obtain enc r where
    tr3: "tr3 = (tr2 @ [Sleep 1])
                @ [Http (put_request ?h repo_name ''index.html'' ''Add generated app'' enc None)]"
    and ans: "w (tr2 @ [Sleep 1])
                (put_request ?h repo_name ''index.html'' ''Add generated app'' enc None)
              = Responds r" "commit_sha_of r = Inr c"
    by auto
  from add_file_to_repo_Inr[OF license] obtain e3 where
    T: "T = tr3 @ [Http (put_request ?h repo_name ''LICENSE'' ''Add MIT license'' e3 None)]"
    by auto
  define i where "i = length (tr2 @ [Sleep 1])"
  have i: "i < length tr3" "tr3 ! i
      = Http (put_request ?h repo_name ''index.html'' ''Add generated app'' enc None)"
    "take i tr3 = tr2 @ [Sleep 1]"
    unfolding tr3 i_def by (simp_all add: nth_append del: append_assoc)
  have "answered_sha w tr3 i c"
    unfolding answered_sha_def i(2,3) using ans by simp
  then have "answered_sha w T i c"
    unfolding T using answered_sha_append[OF i(1)] by simp
  moreover have "writes_file repo_name ''index.html'' (T ! i)"
    unfolding T using i(1,2) by (simp add: nth_append writes_file_def put_request_def)
  moreover have "length tr \<le> i" "i < length T" "\<exists>es. T = tr @ es"
    unfolding T tr3 tr2 i_def by simp_all
  ultimately show ?thesis by blast
qed

lemma update_github_repo_Inr:
  assumes "update_github_repo cfg w tr repo_name html_code brief_text = (Inr (u, c), T)"
  shows "u = JStr (''https://github.com/SiriChandanaSykam/'' @ repo_name)
         \<and> (\<exists>es i. T = tr @ es \<and> length tr \<le> i \<and> i < length T
               \<and> writes_file repo_name ''index.html'' (T ! i) \<and> answered_sha w T i c)"
proof -
  let ?h = "github_headers cfg"
  from assms obtain tr1 v2 where
    index: "update_file_in_repo w tr repo_name ''index.html'' html_code
              ''Update app for round 2'' ?h = (Inr c, tr1)"
    and readme: "update_file_in_repo w tr1 repo_name ''README.md''
                   (JStr (generate_readme repo_name brief_text 2))
                   ''Update README for round 2'' ?h = (Inr v2, T)"
    and u: "u = JStr (''https://github.com/'' @ GITHUB_USERNAME @ ''/'' @ repo_name)"
    by (auto simp: update_github_repo_def Let_def and_then_eq_Inr)
  let ?g = "Http (get_request ?h repo_name ''index.html'')"
  from update_file_in_repo_Inr[OF index] obtain enc sha r where
    tr1: "tr1 = (tr @ [?g])
                @ [Http (put_request ?h repo_name ''index.html'' ''Update app for round 2''
                           enc sha)]"
    and ans: "w (tr @ [?g])
                (put_request ?h repo_name ''index.html'' ''Update app for round 2'' enc sha)
              = Responds r" "commit_sha_of r = Inr c"
    by auto
  from update_file_in_repo_Inr[OF readme] obtain es2 where T: "T = tr1 @ es2"
    by auto
  define i where "i = length (tr @ [?g])"
  have i: "i < length tr1" "tr1 ! i
      = Http (put_request ?h repo_name ''index.html'' ''Update app for round 2'' enc sha)"
    "take i tr1 = tr @ [?g]"
    unfolding tr1 i_def by (simp_all add: nth_append del: append_assoc)
  have "answered_sha w tr1 i c"
    unfolding answered_sha_def i(2,3) using ans by simp
  then have "answered_sha w T i c"
    unfolding T using answered_sha_append[OF i(1)] by simp
  moreover have "writes_file repo_name ''index.html'' (T ! i)"
    unfolding T using i(1,2) by (simp add: nth_append writes_file_def put_request_def)
  moreover have "length tr \<le> i" "i < length T" "\<exists>es. T = tr @ es"
    unfolding T tr1 i_def by simp_all
  moreover have "u = JStr (''https://github.com/SiriChandanaSykam/'' @ repo_name)"
    using u by (simp add: GITHUB_USERNAME_def)
  ultimately show ?thesis by blast
qed

lemma and_then_InrE:
  assumes "and_then m f = (Inr v, tr')"
  obtains x tr1 where "m = (Inr x, tr1)" "f x tr1 = (Inr v, tr')"
  using assms unfolding and_then_eq_Inr by blast

lemma receive_task_try_Inr:
  assumes tried: "receive_task_try cfg w tr request = (Inr b, T)"
  shows "\<exists>html tr1 u c tr2 tr3 tr4.
      (if round request = 1
       then create_github_repo cfg w
              (tr1 @ [Print (''Creating GitHub repo: '' @ task request)])
              (task request) html (brief request)
       else update_github_repo cfg w
              (tr1 @ [Print (''Updating GitHub repo: '' @ task request)])
              (task request) html (brief request)) = (Inr (u, c), tr2)
      \<and> (if round request = 1
          then enable_github_pages cfg w (tr2 @ [Print ''Enabling GitHub Pages...''])
                 (task request)
          else (Inr (), tr2)) = (Inr (), tr3)
      \<and> notify_evaluation w (tr3 @ [Print ''Notifying evaluation URL...'']) request u c
            (''https://'' @ GITHUB_USERNAME @ ''.github.io/'' @ task request @ ''/'')
          = (Inr (), tr4)
      \<and> T = tr4 @ [Print ''Task completed successfully!'']
      \<and> b = Success u (''https://'' @ GITHUB_USERNAME @ ''.github.io/'' @ task request @ ''/'')
              c"
proof -
  define p where "p = ''https://'' @ GITHUB_USERNAME @ ''.github.io/'' @ task request @ ''/''"
  define gen where
    "gen = generate_app_with_groq cfg w
       (tr @ [Print (''Received task: '' @ task request @ '', round: ''
                       @ str_int (round request)),
              Print ''Generating code with Groq...''])
       (brief request) (checks request) (attachments request)"
  define pub where
    "pub = (\<lambda>html es.
       if round request = 1
       then create_github_repo cfg w
              (es @ [Print (''Creating GitHub repo: '' @ task request)])
              (task request) html (brief request)
       else update_github_repo cfg w
              (es @ [Print (''Updating GitHub repo: '' @ task request)])
              (task request) html (brief request))"
  define en where
    "en = (\<lambda>es.
       if round request = 1
       then enable_github_pages cfg w (es @ [Print ''Enabling GitHub Pages...''])
              (task request)
       else (Inr (), es))"
  define no where
    "no = (\<lambda>u c es.
       notify_evaluation w (es @ [Print ''Notifying evaluation URL...'']) request u c p)"
  have whole: "receive_task_try cfg w tr request
      = and_then gen (\<lambda>html tr1.
          and_then (pub html tr1) (\<lambda>uc tr2.
            and_then (en tr2) (\<lambda>_ tr3.
              and_then (no (fst uc) (snd uc) tr3) (\<lambda>_ tr4.
                (Inr (Success (fst uc) p (snd uc)),
                 tr4 @ [Print ''Task completed successfully!''])))))"
    by (simp add: receive_task_try_def gen_def pub_def en_def no_def p_def Let_def
          case_prod_unfold)
  from tried[unfolded whole] obtain html tr1 where
    s1: "and_then (pub html tr1) (\<lambda>uc tr2.
            and_then (en tr2) (\<lambda>_ tr3.
              and_then (no (fst uc) (snd uc) tr3) (\<lambda>_ tr4.
                (Inr (Success (fst uc) p (snd uc)),
                 tr4 @ [Print ''Task completed successfully!''])))) = (Inr b, T)"
    by (rule and_then_InrE)
  from s1 obtain uc tr2 where
    pub: "pub html tr1 = (Inr uc, tr2)"
    and s2: "and_then (en tr2) (\<lambda>_ tr3.
              and_then (no (fst uc) (snd uc) tr3) (\<lambda>_ tr4.
                (Inr (Success (fst uc) p (snd uc)),
                 tr4 @ [Print ''Task completed successfully!'']))) = (Inr b, T)"
    by (rule and_then_InrE)
  from s2 obtain x3 tr3 where
    en: "en tr2 = (Inr x3, tr3)"
    and s3: "and_then (no (fst uc) (snd uc) tr3) (\<lambda>_ tr4.
                (Inr (Success (fst uc) p (snd uc)),
                 tr4 @ [Print ''Task completed successfully!''])) = (Inr b, T)"
    by (rule and_then_InrE)
  from s3 obtain x4 tr4 where
    no: "no (fst uc) (snd uc) tr3 = (Inr x4, tr4)"
    and s4: "(Inr (Success (fst uc) p (snd uc)) :: exn + body,
              tr4 @ [Print ''Task completed successfully!'']) = (Inr b, T)"
    by (rule and_then_InrE)
  have "pub html tr1 = (Inr (fst uc, snd uc), tr2)" "en tr2 = (Inr (), tr3)"
    "no (fst uc) (snd uc) tr3 = (Inr (), tr4)"
    "T = tr4 @ [Print ''Task completed successfully!'']"
    "b = Success (fst uc) p (snd uc)"
    using pub en no s4 by simp_all
  then show ?thesis
    unfolding pub_def en_def no_def p_def by blast
qed

lemma receive_task_Success:
  assumes "fst (receive_task cfg w request) = Returned (Success u p c)"
  shows "\<exists>html tr1 tr2 mid es.
      (if round request = 1
       then create_github_repo cfg w tr1 (task request) html (brief request)
       else update_github_repo cfg w tr1 (task request) html (brief request)) = (Inr (u, c), tr2)
      \<and> (round request = 1 \<longrightarrow> Http (pages_request cfg (task request)) \<in> set mid)
      \<and> snd (receive_task cfg w request)
          = tr2 @ mid @ Http (notify_call request u c p) # es"
proof -
  from assms obtain T where tried: "receive_task_try cfg w [] request = (Inr (Success u p c), T)"
    and T: "snd (receive_task cfg w request) = T"
    by (auto simp: receive_task_def split: if_splits prod.splits sum.splits)
  let ?n = "task request"
  from receive_task_try_Inr[OF tried] obtain html tr1 tr2 tr3 tr4 where
    pub: "(if round request = 1
           then create_github_repo cfg w (tr1 @ [Print (''Creating GitHub repo: '' @ ?n)])
                  ?n html (brief request)
           else update_github_repo cfg w (tr1 @ [Print (''Updating GitHub repo: '' @ ?n)])
                  ?n html (brief request)) = (Inr (u, c), tr2)"
    and en: "(if round request = 1
              then enable_github_pages cfg w (tr2 @ [Print ''Enabling GitHub Pages...'']) ?n
              else (Inr (), tr2)) = (Inr (), tr3)"
    and no: "notify_evaluation w (tr3 @ [Print ''Notifying evaluation URL...'']) request u c p
               = (Inr (), tr4)"
    and T4: "T = tr4 @ [Print ''Task completed successfully!'']"
    by auto
  obtain mid where mid: "tr3 = tr2 @ mid"
    "round request = 1 \<longrightarrow> Http (pages_request cfg ?n) \<in> set mid"
  proof (cases "round request = 1")
    case True
    with en enable_github_pages_events[of cfg w "tr2 @ [Print ''Enabling GitHub Pages...'']" ?n]
    obtain es3 where "tr3 = (tr2 @ [Print ''Enabling GitHub Pages...''])
                              @ Http (pages_request cfg ?n) # es3"
      by (metis snd_conv)
    then show ?thesis
      by (intro that[of "Print ''Enabling GitHub Pages...'' # Http (pages_request cfg ?n) # es3"])
         auto
  next
    case False
    with en show ?thesis by (intro that[of "[]"]) auto
  qed
  obtain es4 where es4: "tr4 = (tr3 @ [Print ''Notifying evaluation URL...''])
                                 @ Http (notify_call request u c p) # es4"
    using no notify_evaluation_first_request[of w "tr3 @ [Print ''Notifying evaluation URL...'']"
        request u c p]
    by (metis snd_conv)
  have "snd (receive_task cfg w request)
          = tr2 @ (mid @ [Print ''Notifying evaluation URL...''])
              @ Http (notify_call request u c p)
                # (es4 @ [Print ''Task completed successfully!''])"
    unfolding T T4 es4 mid(1) by simp
  moreover have "round request = 1 \<longrightarrow>
      Http (pages_request cfg ?n) \<in> set (mid @ [Print ''Notifying evaluation URL...''])"
    using mid(2) by simp
  moreover have "(if round request = 1
       then create_github_repo cfg w
              (tr1 @ [Print ((if round request = 1 then ''Creating GitHub repo: ''
                              else ''Updating GitHub repo: '') @ ?n)])
              ?n html (brief request)
       else update_github_repo cfg w
              (tr1 @ [Print ((if round request = 1 then ''Creating GitHub repo: ''
                              else ''Updating GitHub repo: '') @ ?n)])
              ?n html (brief request)) = (Inr (u, c), tr2)"
    using pub by (cases "round request = 1") simp_all
  ultimately show ?thesis by blast
qed

subsection \<open>What a successful run has sent to the evaluation URL\<close>

lemma notify_call_literal:
  "notify_call request repo_url commit_sha pages_url
     = \<lparr>http_method = ''POST'', http_url = evaluation_url request,
        http_headers = [(''Content-Type'', ''application/json'')],
        http_json = Some (JObj [(''email'', JStr (email request)),
                                (''task'', JStr (task request)),
                                (''round'', JNum (round request)),
                                (''nonce'', JStr (nonce request)),
                                (''repo_url'', repo_url),
                                (''commit_sha'', commit_sha),
                                (''pages_url'', JStr pages_url)]),
        http_timeout = Some 10\<rparr>"
  by (simp add: notify_call_def notify_request_def notify_payload_def)

lemma receive_task_notified:
  assumes "fst (receive_task cfg w request) = Returned (Success u p c)"
  shows "\<exists>pre es.
      snd (receive_task cfg w request)
        = pre @ Print ''Notifying evaluation URL...'' # Http (notify_call request u c p) # es
      \<and> (\<forall>rq. Http rq \<in> set es \<longrightarrow> rq = notify_call request u c p)"
proof -
  from assms obtain T where tried: "receive_task_try cfg w [] request = (Inr (Success u p c), T)"
    and T: "snd (receive_task cfg w request) = T"
    by (auto simp: receive_task_def split: if_splits prod.splits sum.splits)
  from receive_task_try_Inr[OF tried] obtain tr3 tr4 where
    no: "notify_evaluation w (tr3 @ [Print ''Notifying evaluation URL...'']) request u c p
               = (Inr (), tr4)"
    and T4: "T = tr4 @ [Print ''Task completed successfully!'']"
    by auto
  let ?rq = "notify_call request u c p"
  obtain es4 where es4: "tr4 = (tr3 @ [Print ''Notifying evaluation URL...'']) @ Http ?rq # es4"
    using no notify_evaluation_first_request[of w "tr3 @ [Print ''Notifying evaluation URL...'']"
        request u c p]
    by (metis snd_conv)
  obtain es5 where es5: "tr4 = (tr3 @ [Print ''Notifying evaluation URL...'']) @ es5"
    "\<forall>rq. Http rq \<in> set es5 \<longrightarrow> rq = ?rq"
    using no notify_evaluation_events[of w "tr3 @ [Print ''Notifying evaluation URL...'']"
        request u c p]
    by (metis snd_conv)
  have "es5 = Http ?rq # es4"
    using es4 es5(1) by simp
  with es5(2) have all: "\<forall>rq. Http rq \<in> set (es4 @ [Print ''Task completed successfully!''])
                           \<longrightarrow> rq = ?rq"
    by simp
  have "snd (receive_task cfg w request)
          = tr3 @ Print ''Notifying evaluation URL...'' # Http ?rq
              # (es4 @ [Print ''Task completed successfully!''])"
    unfolding T T4 es4 by simp
  with all show ?thesis by blast
qed

lemma attempts_pos_request: "1 \<le> attempts es \<Longrightarrow> \<exists>rq. Http rq \<in> set es"
  by (induction es) (auto simp: attempts_def split: if_splits event.splits)

lemma attempts_Http_Cons: "1 \<le> attempts (Http rq # es)"
  by (simp add: attempts_def)

section \<open>Order of the writes in a run of round 1\<close>

lemma receive_task_preceded:
  assumes r: "round request = 1"
    and Q: "\<And>ev. Q ev \<Longrightarrow> is_write ev"
    and pub: "\<And>tr html.
        \<exists>es. snd (create_github_repo cfg w tr (task request) html (brief request)) = tr @ es
            \<and> preceded P Q es"
  shows "preceded P Q (snd (receive_task cfg w request))"
proof (rule receive_task_invariant[of "preceded P Q"])
  show "preceded P Q []" by simp
next
  fix es ev assume "preceded P Q es" "\<forall>rq. ev \<noteq> Http rq"
  moreover from this have "\<not> Q ev"
    using Q[of ev] by (cases ev) (auto simp: is_write_def)
  ultimately show "preceded P Q (es @ [ev])"
    by (intro preceded_append) (auto simp: preceded_Cons)
next
  fix es p assume "preceded P Q es"
  moreover have "\<not> Q (Http (groq_request cfg p))"
    using Q[of "Http (groq_request cfg p)"] by (auto simp: is_write_def groq_request_def)
  ultimately show "preceded P Q (es @ [Http (groq_request cfg p)])"
    by (intro preceded_append) (auto simp: preceded_Cons)
next
  fix es html assume a: "preceded P Q es"
  obtain new where
    "snd (create_github_repo cfg w es (task request) html (brief request)) = es @ new"
    "preceded P Q new"
    using pub by blast
  with a r show "preceded P Q
     (snd (if round request = 1
           then create_github_repo cfg w es (task request) html (brief request)
           else update_github_repo cfg w es (task request) html (brief request)))"
    by (simp add: preceded_append)
next
  fix es assume "preceded P Q es"
  moreover have "\<not> Q (Http (pages_request cfg (task request)))"
    using Q[of "Http (pages_request cfg (task request))"]
    by (auto simp: is_write_def pages_request_def)
  ultimately show "preceded P Q (es @ [Http (pages_request cfg (task request))])"
    by (intro preceded_append) (auto simp: preceded_Cons)
next
  fix es u c p assume "preceded P Q es"
  moreover have "\<not> Q (Http (notify_call request u c p))"
    using Q[of "Http (notify_call request u c p)"]
    by (auto simp: is_write_def notify_call_def notify_request_def)
  ultimately show "preceded P Q (es @ [Http (notify_call request u c p)])"
    by (intro preceded_append) (auto simp: preceded_Cons)
qed

lemma create_github_repo_order:
  "\<exists>es. snd (create_github_repo cfg w tr repo_name html_code brief_text) = tr @ es
        \<and> preceded is_create is_write es
        \<and> preceded (writes_file repo_name ''README.md'')
             (\<lambda>ev. is_write ev \<and> \<not> writes_file repo_name ''README.md'' ev) es
        \<and> preceded is_create (writes_file repo_name ''index.html'') es"
proof -
  let ?h = "github_headers cfg"
  let ?seq = "[Http (create_request cfg repo_name brief_text), Sleep 2,
              Http (put_request ?h repo_name ''README.md'' ''Initial commit''
                      (b64encode (utf8_encode (generate_readme repo_name brief_text 1))) None),
              Sleep 1]
             @ (case encode_content html_code of
                  Inl e \<Rightarrow> []
                | Inr enc \<Rightarrow>
                    [Http (put_request ?h repo_name ''index.html''
                             ''Add generated app'' enc None),
                     Http (put_request ?h repo_name ''LICENSE''
                             ''Add MIT license'' (b64encode (utf8_encode get_mit_license))
                             None)])"
  obtain es where es: "snd (create_github_repo cfg w tr repo_name html_code brief_text) = tr @ es"
    "prefix es ?seq"
    using create_github_repo_events by blast
  have c: "is_create (Http (create_request cfg repo_name brief_text))"
    "\<not> is_write (Http (create_request cfg repo_name brief_text))"
    by (simp_all add: is_create_def is_write_def create_request_def)
  have s: "\<not> is_write (Sleep k)" "\<not> writes_file repo_name p (Sleep k)" for k p
    by (simp_all add: is_write_def writes_file_def)
  have cw: "\<not> writes_file repo_name p (Http (create_request cfg repo_name brief_text))" for p
    by (simp add: writes_file_def create_request_def)
  have rd: "writes_file repo_name ''README.md''
              (Http (put_request ?h repo_name ''README.md'' m enc None))" for m enc
    by (simp add: writes_file_def put_request_def)
  have "preceded is_create is_write ?seq"
    by (cases "encode_content html_code") (simp_all add: preceded_Cons c s)
  moreover have "preceded (writes_file repo_name ''README.md'')
             (\<lambda>ev. is_write ev \<and> \<not> writes_file repo_name ''README.md'' ev) ?seq"
    by (cases "encode_content html_code") (simp_all add: preceded_Cons c s rd)
  moreover have "preceded is_create (writes_file repo_name ''index.html'') ?seq"
    by (cases "encode_content html_code") (simp_all add: preceded_Cons c s cw)
  ultimately show ?thesis
    using es preceded_prefix[OF _ es(2)] by blast
qed

section \<open>Round 1: the order of the publisher's calls\<close>

text \<open>
  C3. Whatever the world answers, among the events the create path adds the repository
  creation comes before every file write, the write of \<open>README.md\<close> comes before every
  other file write, and the write of \<open>index.html\<close> comes after the creation. The same holds
  for all the events of the handler on a request of round 1.
\<close>

theorem create_then_readme_then_rest:
  "(\<exists>es. snd (create_github_repo cfg w tr repo_name html_code brief_text) = tr @ es
         \<and> preceded is_create is_write es
         \<and> preceded (writes_file repo_name ''README.md'')
              (\<lambda>ev. is_write ev \<and> \<not> writes_file repo_name ''README.md'' ev) es
         \<and> preceded is_create (writes_file repo_name ''index.html'') es)
   \<and> (round request = 1 \<longrightarrow>
         preceded is_create is_write (snd (receive_task cfg w request))
         \<and> preceded (writes_file (task request) ''README.md'')
              (\<lambda>ev. is_write ev \<and> \<not> writes_file (task request) ''README.md'' ev)
              (snd (receive_task cfg w request))
         \<and> preceded is_create (writes_file (task request) ''index.html'')
              (snd (receive_task cfg w request)))"
proof -
  have handler: "preceded P Q (snd (receive_task cfg w request))"
    if "round request = 1" "\<And>ev. Q ev \<Longrightarrow> is_write ev"
      "\<And>tr html.
        \<exists>es. snd (create_github_repo cfg w tr (task request) html (brief request)) = tr @ es
            \<and> preceded P Q es" for P Q
    using that by (rule receive_task_preceded)
  have "preceded is_create is_write (snd (receive_task cfg w request))"
    if "round request = 1"
    by (rule handler[OF that]) (use create_github_repo_order in blast)+
  moreover have "preceded (writes_file (task request) ''README.md'')
              (\<lambda>ev. is_write ev \<and> \<not> writes_file (task request) ''README.md'' ev)
              (snd (receive_task cfg w request))"
    if "round request = 1"
    by (rule handler[OF that]) (use create_github_repo_order in blast)+
  moreover have "preceded is_create (writes_file (task request) ''index.html'')
              (snd (receive_task cfg w request))"
    if "round request = 1"
  proof (rule handler[OF that])
    show "is_write ev" if "writes_file (task request) ''index.html'' ev" for ev
      using that by (cases ev) (auto simp: writes_file_def is_write_def)
  qed (use create_github_repo_order in blast)
  ultimately show ?thesis
    using create_github_repo_order[of cfg w tr repo_name html_code brief_text] by blast
qed


lemma sample_writes_friendly:
  "filter is_write (snd (receive_task sample_config friendly_world sample_request))
     = [Http (put_request (github_headers sample_config) ''demo1'' ''README.md''
                ''Initial commit''
                (b64encode (utf8_encode (generate_readme ''demo1'' ''a counter app'' 1))) None),
        Http (put_request (github_headers sample_config) ''demo1'' ''index.html''
                ''Add generated app'' (b64encode (utf8_encode ''<p>0</p>'')) None),
        Http (put_request (github_headers sample_config) ''demo1'' ''LICENSE''
                ''Add MIT license'' (b64encode (utf8_encode get_mit_license)) None)]"
  by (simp add: receive_task_def run_defs sample_defs is_write_def)

theorem create_then_readme_then_rest_witness:
  "round sample_request = 1
   \<and> preceded is_create is_write (snd (receive_task sample_config friendly_world sample_request))
   \<and> preceded (writes_file (task sample_request) ''README.md'')
        (\<lambda>ev. is_write ev \<and> \<not> writes_file (task sample_request) ''README.md'' ev)
        (snd (receive_task sample_config friendly_world sample_request))
   \<and> preceded is_create (writes_file (task sample_request) ''index.html'')
        (snd (receive_task sample_config friendly_world sample_request))
   \<and> length (filter is_write (snd (receive_task sample_config friendly_world sample_request)))
       = 3"
proof -
  have h: "round sample_request = 1"
    by (simp add: sample_request_def)
  show ?thesis
    using h create_then_readme_then_rest [of sample_config friendly_world "[]" "[]" JNull "[]"
        sample_request]
    unfolding sample_writes_friendly by simp
qed

section \<open>Later rounds: the update path\<close>

lemma update_github_repo_no_create:
  "\<exists>es. snd (update_github_repo cfg w tr repo_name html_code brief_text) = tr @ es
        \<and> (\<forall>ev \<in> set es. \<not> is_create ev)
        \<and> (\<forall>rq. Http rq \<in> set es \<longrightarrow> http_method rq = ''GET'' \<or> http_method rq = ''PUT'')"
proof -
  obtain es where es:
    "snd (update_github_repo cfg w tr repo_name html_code brief_text) = tr @ es"
    "\<forall>ev \<in> set es. reads_file repo_name ''index.html'' ev
        \<or> writes_file repo_name ''index.html'' ev
        \<or> reads_file repo_name ''README.md'' ev
        \<or> writes_file repo_name ''README.md'' ev"
    using update_github_repo_events by blast
  have "\<not> is_create ev" if "ev \<in> set es" for ev
    using es(2) that by (cases ev) (auto simp: is_create_def reads_file_def writes_file_def)
  moreover have "http_method rq = ''GET'' \<or> http_method rq = ''PUT''" if "Http rq \<in> set es" for rq
    using es(2) that by (auto simp: reads_file_def writes_file_def)
  ultimately show ?thesis using es(1) by blast
qed

lemma receive_task_no_create:
  assumes "round request \<noteq> 1"
  shows "Http (create_request cfg' n b) \<notin> set (snd (receive_task cfg w request))"
proof (rule receive_task_invariant[of "\<lambda>es. Http (create_request cfg' n b) \<notin> set es"])
  show "Http (create_request cfg' n b) \<notin> set []" by simp
next
  fix es ev assume "Http (create_request cfg' n b) \<notin> set es" "\<forall>rq. ev \<noteq> Http rq"
  then show "Http (create_request cfg' n b) \<notin> set (es @ [ev])" by auto
next
  fix es p assume "Http (create_request cfg' n b) \<notin> set es"
  then show "Http (create_request cfg' n b) \<notin> set (es @ [Http (groq_request cfg p)])"
    by (auto simp: create_request_def groq_request_def)
next
  fix es html assume a: "Http (create_request cfg' n b) \<notin> set es"
  obtain new where new:
    "snd (update_github_repo cfg w es (task request) html (brief request)) = es @ new"
    "\<forall>rq. Http rq \<in> set new \<longrightarrow> http_method rq = ''GET'' \<or> http_method rq = ''PUT''"
    using update_github_repo_no_create by blast
  have "Http (create_request cfg' n b) \<notin> set new"
    using new(2) by (auto simp: create_request_def)
  with a new(1) assms show "Http (create_request cfg' n b)
      \<notin> set (snd (if round request = 1
                    then create_github_repo cfg w es (task request) html (brief request)
                    else update_github_repo cfg w es (task request) html (brief request)))"
    by simp
next
  fix es assume "round request = 1"
  with assms show "Http (create_request cfg' n b)
      \<notin> set (es @ [Http (pages_request cfg (task request))])" by simp
next
  fix es u c p assume "Http (create_request cfg' n b) \<notin> set es"
  then show "Http (create_request cfg' n b) \<notin> set (es @ [Http (notify_call request u c p)])"
    by (auto simp: create_request_def notify_call_def notify_request_def)
qed

lemma receive_task_no_pages:
  assumes "round request \<noteq> 1"
  shows "Http (pages_request cfg' n) \<notin> set (snd (receive_task cfg w request))"
proof (rule receive_task_invariant[of "\<lambda>es. Http (pages_request cfg' n) \<notin> set es"])
  show "Http (pages_request cfg' n) \<notin> set []" by simp
next
  fix es ev assume "Http (pages_request cfg' n) \<notin> set es" "\<forall>rq. ev \<noteq> Http rq"
  then show "Http (pages_request cfg' n) \<notin> set (es @ [ev])" by auto
next
  fix es p assume "Http (pages_request cfg' n) \<notin> set es"
  then show "Http (pages_request cfg' n) \<notin> set (es @ [Http (groq_request cfg p)])"
    by (auto simp: pages_request_def groq_request_def)
next
  fix es html assume a: "Http (pages_request cfg' n) \<notin> set es"
  obtain new where new:
    "snd (update_github_repo cfg w es (task request) html (brief request)) = es @ new"
    "\<forall>rq. Http rq \<in> set new \<longrightarrow> http_method rq = ''GET'' \<or> http_method rq = ''PUT''"
    using update_github_repo_no_create by blast
  have "Http (pages_request cfg' n) \<notin> set new"
    using new(2) by (auto simp: pages_request_def)
  with a new(1) assms show "Http (pages_request cfg' n)
      \<notin> set (snd (if round request = 1
                    then create_github_repo cfg w es (task request) html (brief request)
                    else update_github_repo cfg w es (task request) html (brief request)))"
    by simp
next
  fix es assume "round request = 1"
  with assms show "Http (pages_request cfg' n)
      \<notin> set (es @ [Http (pages_request cfg (task request))])" by simp
next
  fix es u c p assume "Http (pages_request cfg' n) \<notin> set es"
  then show "Http (pages_request cfg' n) \<notin> set (es @ [Http (notify_call request u c p)])"
    by (auto simp: pages_request_def notify_call_def notify_request_def)
qed

lemma update_file_in_repo_found:
  assumes "w tr (get_request headers repo_name file_path) = Responds g"
    and "status_code g = 200"
    and "then_get (json_of g) (getitem ''sha'') = Inr file_sha"
  shows "snd (update_file_in_repo w tr repo_name file_path (JStr s) message headers)
           = tr @ [Http (get_request headers repo_name file_path),
                   Http (put_request headers repo_name file_path message
                           (b64encode (utf8_encode s)) (Some file_sha))]"
  using assms by (simp add: update_file_in_repo_def snd_and_then split: sum.splits)

lemma update_file_in_repo_missing:
  assumes "w tr (get_request headers repo_name file_path) = Responds g"
    and "status_code g \<noteq> 200"
  shows "update_file_in_repo w tr repo_name file_path content message headers
           = add_file_to_repo w (tr @ [Http (get_request headers repo_name file_path)])
               repo_name file_path content message headers"
    and "snd (update_file_in_repo w tr repo_name file_path (JStr s) message headers)
           = tr @ [Http (get_request headers repo_name file_path),
                   Http (put_request headers repo_name file_path message
                           (b64encode (utf8_encode s)) None)]"
  using assms by (simp_all add: update_file_in_repo_def add_file_to_repo_events)

lemma sample_run_round_2:
  "fst (receive_task sample_config friendly_world (sample_request\<lparr>round := 2\<rparr>))
     = Returned (Success (JStr ''https://github.com/SiriChandanaSykam/demo1'')
         ''https://SiriChandanaSykam.github.io/demo1/''
         (JStr ''https://api.github.com/repos/SiriChandanaSykam/demo1/contents/index.html''))"
  by (simp add: receive_task_def run_defs sample_defs)

lemma sample_run_round_1:
  "fst (receive_task sample_config friendly_world sample_request)
     = Returned (Success (JStr ''https://github.com/SiriChandanaSykam/demo1'')
         ''https://SiriChandanaSykam.github.io/demo1/''
         (JStr ''https://api.github.com/repos/SiriChandanaSykam/demo1/contents/index.html''))"
  using sample_run_friendly
  by (auto simp: receive_task_def sample_config_def sample_request_def
           split: prod.splits sum.splits)

subsection \<open>The requests of the update path, one by one\<close>

lemma update_file_in_repo_run:
  assumes g: "w tr (get_request h n p) = Responds g"
    and k: "if status_code g = 200
            then then_get (json_of g) (getitem ''sha'') = Inr v \<and> k = Some v else k = None"
    and r: "w (tr @ [Http (get_request h n p)])
              (put_request h n p m (b64encode (utf8_encode s)) k) = Responds r"
    and ok: "status_code r \<in> {200, 201}"
    and c: "commit_sha_of r = Inr c"
  shows "update_file_in_repo w tr n p (JStr s) m h
           = (Inr c, tr @ [Http (get_request h n p),
                           Http (put_request h n p m (b64encode (utf8_encode s)) k)])"
proof (cases "status_code g = 200")
  case True
  with k have "then_get (json_of g) (getitem ''sha'') = Inr v" "k = Some v"
    by simp_all
  with g r ok c True show ?thesis
    by (auto simp: update_file_in_repo_def)
next
  case False
  with k have "k = None"
    by simp
  with g r ok c False show ?thesis
    by (auto simp: update_file_in_repo_def add_file_to_repo_def)
qed

lemma update_github_repo_run:
  assumes i: "update_file_in_repo w tr n ''index.html'' html ''Update app for round 2''
                (github_headers cfg) = (Inr c1, tr1)"
    and r: "update_file_in_repo w tr1 n ''README.md'' (JStr (generate_readme n b 2))
                ''Update README for round 2'' (github_headers cfg) = (Inr c2, tr2)"
  shows "update_github_repo cfg w tr n html b
           = (Inr (JStr (''https://github.com/SiriChandanaSykam/'' @ n), c1), tr2)"
  using i r by (simp add: update_github_repo_def Let_def GITHUB_USERNAME_def)

lemma update_file_in_repo_keyed:
  "(\<exists>e. update_file_in_repo w tr n p (JStr s) m h
           = (Inl e, tr @ [Http (get_request h n p)]))
   \<or> (\<exists>g v k. w tr (get_request h n p) = Responds g
          \<and> (if status_code g = 200
               then then_get (json_of g) (getitem ''sha'') = Inr v \<and> k = Some v else k = None)
          \<and> snd (update_file_in_repo w tr n p (JStr s) m h)
              = tr @ [Http (get_request h n p),
                      Http (put_request h n p m (b64encode (utf8_encode s)) k)])"
proof (cases "w tr (get_request h n p)")
  case (Raises x)
  then show ?thesis
    by (simp add: update_file_in_repo_def requests_def)
next
  case (Responds g)
  show ?thesis
  proof (cases "status_code g = 200")
    case False
    have "snd (update_file_in_repo w tr n p (JStr s) m h)
            = tr @ [Http (get_request h n p),
                    Http (put_request h n p m (b64encode (utf8_encode s)) None)]"
      using update_file_in_repo_missing(2)[of w tr h n p g s m] Responds False by simp
    with Responds False show ?thesis
      by auto
  next
    case True
    show ?thesis
    proof (cases "then_get (json_of g) (getitem ''sha'')")
      case (Inl e)
      with Responds True show ?thesis
        by (simp add: update_file_in_repo_def)
    next
      case (Inr v)
      have "snd (update_file_in_repo w tr n p (JStr s) m h)
            = tr @ [Http (get_request h n p),
                    Http (put_request h n p m (b64encode (utf8_encode s)) (Some v))]"
        using update_file_in_repo_found[of w tr h n p g v s m] Responds True Inr by simp
      with Responds True Inr show ?thesis
        by auto
    qed
  qed
qed

lemma update_file_in_repo_Inr_keyed:
  assumes "update_file_in_repo w tr n p content m h = (Inr c, T)"
  shows "\<exists>s g v k. content = JStr s \<and> w tr (get_request h n p) = Responds g
          \<and> (if status_code g = 200
               then then_get (json_of g) (getitem ''sha'') = Inr v \<and> k = Some v else k = None)
          \<and> T = tr @ [Http (get_request h n p),
                         Http (put_request h n p m (b64encode (utf8_encode s)) k)]"
proof -
  from update_file_in_repo_Inr[OF assms] obtain enc where "encode_content content = Inr enc"
    by blast
  then obtain s where s: "content = JStr s"
    by (cases content) auto
  from update_file_in_repo_keyed[of w tr n p s m h] assms s
  obtain g v k where "w tr (get_request h n p) = Responds g"
    "if status_code g = 200
     then then_get (json_of g) (getitem ''sha'') = Inr v \<and> k = Some v else k = None"
    "snd (update_file_in_repo w tr n p (JStr s) m h)
       = tr @ [Http (get_request h n p), Http (put_request h n p m (b64encode (utf8_encode s)) k)]"
    by auto
  with assms s show ?thesis
    by auto
qed

lemma snd_update_github_repo:
  "snd (update_github_repo cfg w tr n html b)
     = (case fst (update_file_in_repo w tr n ''index.html'' html ''Update app for round 2''
                    (github_headers cfg)) of
          Inl e \<Rightarrow> snd (update_file_in_repo w tr n ''index.html'' html
                          ''Update app for round 2'' (github_headers cfg))
        | Inr c \<Rightarrow>
            snd (update_file_in_repo w
                   (snd (update_file_in_repo w tr n ''index.html'' html
                           ''Update app for round 2'' (github_headers cfg)))
                   n ''README.md'' (JStr (generate_readme n b 2))
                   ''Update README for round 2'' (github_headers cfg)))"
  by (simp add: update_github_repo_def Let_def snd_and_then split: sum.splits)

lemma update_github_repo_keyed:
  assumes G1: "G1 = get_request (github_headers cfg) n ''index.html''"
    and P1: "P1 = put_request (github_headers cfg) n ''index.html'' ''Update app for round 2''
                    (b64encode (utf8_encode s))"
    and G2: "G2 = get_request (github_headers cfg) n ''README.md''"
    and P2: "P2 = put_request (github_headers cfg) n ''README.md'' ''Update README for round 2''
                    (b64encode (utf8_encode (generate_readme n b 2)))"
  shows "\<exists>es. snd (update_github_repo cfg w tr n (JStr s) b) = tr @ es
     \<and> (es = [Http G1]
        \<or> (\<exists>g1 v1 k1. w tr G1 = Responds g1
              \<and> (if status_code g1 = 200
                   then then_get (json_of g1) (getitem ''sha'') = Inr v1 \<and> k1 = Some v1
                   else k1 = None)
              \<and> (es = [Http G1, Http (P1 k1)]
                 \<or> es = [Http G1, Http (P1 k1), Http G2]
                 \<or> (\<exists>g2 v2 k2. w (tr @ [Http G1, Http (P1 k1)]) G2 = Responds g2
                       \<and> (if status_code g2 = 200
                            then then_get (json_of g2) (getitem ''sha'') = Inr v2 \<and> k2 = Some v2
                            else k2 = None)
                       \<and> es = [Http G1, Http (P1 k1), Http G2, Http (P2 k2)]))))"
proof -
  let ?h = "github_headers cfg"
  define first where
    "first = update_file_in_repo w tr n ''index.html'' (JStr s) ''Update app for round 2'' ?h"
  define second where
    "second = (\<lambda>tr1. update_file_in_repo w tr1 n ''README.md'' (JStr (generate_readme n b 2))
                 ''Update README for round 2'' ?h)"
  have run: "snd (update_github_repo cfg w tr n (JStr s) b)
          = (case fst first of Inl e \<Rightarrow> snd first | Inr c \<Rightarrow> snd (second (snd first)))"
    unfolding first_def second_def by (rule snd_update_github_repo)
  consider e where "first = (Inl e, tr @ [Http G1])"
    | g1 v1 k1 where "w tr G1 = Responds g1"
        "if status_code g1 = 200
         then then_get (json_of g1) (getitem ''sha'') = Inr v1 \<and> k1 = Some v1 else k1 = None"
        "snd first = tr @ [Http G1, Http (P1 k1)]"
    using update_file_in_repo_keyed[of w tr n "''index.html''" s "''Update app for round 2''" ?h]
    unfolding first_def G1 P1 by blast
  then show ?thesis
  proof cases
    case 1
    then have "snd (update_github_repo cfg w tr n (JStr s) b) = tr @ [Http G1]"
      unfolding run by simp
    then show ?thesis by blast
  next
    case 2
    define tr1 where "tr1 = tr @ [Http G1, Http (P1 k1)]"
    have tr1: "snd first = tr1"
      using 2(3) by (simp add: tr1_def)
    show ?thesis
    proof (cases "fst first")
      case (Inl e)
      then have "snd (update_github_repo cfg w tr n (JStr s) b) = tr @ [Http G1, Http (P1 k1)]"
        unfolding run using 2(3) by simp
      with 2(1,2) show ?thesis by blast
    next
      case (Inr c)
      then have run2: "snd (update_github_repo cfg w tr n (JStr s) b) = snd (second tr1)"
        unfolding run tr1 by simp
      consider e where "second tr1 = (Inl e, tr1 @ [Http G2])"
        | g2 v2 k2 where "w tr1 G2 = Responds g2"
            "if status_code g2 = 200
             then then_get (json_of g2) (getitem ''sha'') = Inr v2 \<and> k2 = Some v2
             else k2 = None"
            "snd (second tr1) = tr1 @ [Http G2, Http (P2 k2)]"
        using update_file_in_repo_keyed[of w tr1 n "''README.md''" "generate_readme n b 2"
            "''Update README for round 2''" ?h]
        unfolding second_def G2 P2 by blast
      then show ?thesis
      proof cases
        case 1
        then have "snd (update_github_repo cfg w tr n (JStr s) b)
                     = tr @ [Http G1, Http (P1 k1), Http G2]"
          unfolding run2 by (simp add: tr1_def)
        with 2(1,2) show ?thesis by blast
      next
        case second: 2
        have "snd (update_github_repo cfg w tr n (JStr s) b)
                = tr @ [Http G1, Http (P1 k1), Http G2, Http (P2 k2)]"
          unfolding run2 second(3) by (simp add: tr1_def)
        moreover have "w (tr @ [Http G1, Http (P1 k1)]) G2 = Responds g2"
          using second(1) by (simp add: tr1_def)
        ultimately show ?thesis
          using 2(1,2) second(2) by blast
      qed
    qed
  qed
qed

lemma update_github_repo_forward:
  assumes G1: "G1 = get_request (github_headers cfg) n ''index.html''"
    and P1: "P1 = put_request (github_headers cfg) n ''index.html'' ''Update app for round 2''
                    (b64encode (utf8_encode s))"
    and G2: "G2 = get_request (github_headers cfg) n ''README.md''"
    and P2: "P2 = put_request (github_headers cfg) n ''README.md'' ''Update README for round 2''
                    (b64encode (utf8_encode (generate_readme n b 2)))"
    and g1: "w tr G1 = Responds g1"
    and k1: "if status_code g1 = 200
             then then_get (json_of g1) (getitem ''sha'') = Inr v1 \<and> k1 = Some v1
             else k1 = None"
    and p1: "w (tr @ [Http G1]) (P1 k1) = Responds p1" "status_code p1 \<in> {200, 201}"
            "commit_sha_of p1 = Inr c1"
    and g2: "w (tr @ [Http G1, Http (P1 k1)]) G2 = Responds g2"
    and k2: "if status_code g2 = 200
             then then_get (json_of g2) (getitem ''sha'') = Inr v2 \<and> k2 = Some v2
             else k2 = None"
    and p2: "w (tr @ [Http G1, Http (P1 k1), Http G2]) (P2 k2) = Responds p2"
            "status_code p2 \<in> {200, 201}" "commit_sha_of p2 = Inr c2"
  shows "update_github_repo cfg w tr n (JStr s) b
           = (Inr (JStr (''https://github.com/SiriChandanaSykam/'' @ n), c1),
              tr @ [Http G1, Http (P1 k1), Http G2, Http (P2 k2)])"
proof -
  let ?h = "github_headers cfg"
  have first: "update_file_in_repo w tr n ''index.html'' (JStr s) ''Update app for round 2'' ?h
                 = (Inr c1, tr @ [Http G1, Http (P1 k1)])"
    unfolding G1 P1
    by (rule update_file_in_repo_run[where g = g1 and v = v1 and r = p1])
       (use g1 k1 p1 in \<open>simp_all add: G1 P1\<close>)
  have second: "update_file_in_repo w (tr @ [Http G1, Http (P1 k1)]) n ''README.md''
                  (JStr (generate_readme n b 2)) ''Update README for round 2'' ?h
                 = (Inr c2, (tr @ [Http G1, Http (P1 k1)]) @ [Http G2, Http (P2 k2)])"
    unfolding G2 P2
    by (rule update_file_in_repo_run[where g = g2 and v = v2 and r = p2])
       (use g2 k2 p2 in \<open>simp_all add: G2 P2\<close>)
  show ?thesis
    using update_github_repo_run[OF first second] by simp
qed

lemma update_github_repo_Inr_keyed:
  assumes ok: "update_github_repo cfg w tr n html b = (Inr (u, c), T)"
  shows "\<exists>s g1 v1 k1 g2 v2 k2. html = JStr s
      \<and> w tr (get_request (github_headers cfg) n ''index.html'') = Responds g1
      \<and> (if status_code g1 = 200
           then then_get (json_of g1) (getitem ''sha'') = Inr v1 \<and> k1 = Some v1 else k1 = None)
      \<and> w (tr @ [Http (get_request (github_headers cfg) n ''index.html''),
                    Http (put_request (github_headers cfg) n ''index.html''
                            ''Update app for round 2'' (b64encode (utf8_encode s)) k1)])
            (get_request (github_headers cfg) n ''README.md'') = Responds g2
      \<and> (if status_code g2 = 200
           then then_get (json_of g2) (getitem ''sha'') = Inr v2 \<and> k2 = Some v2 else k2 = None)
      \<and> T = tr @ [Http (get_request (github_headers cfg) n ''index.html''),
                    Http (put_request (github_headers cfg) n ''index.html''
                            ''Update app for round 2'' (b64encode (utf8_encode s)) k1),
                    Http (get_request (github_headers cfg) n ''README.md''),
                    Http (put_request (github_headers cfg) n ''README.md''
                            ''Update README for round 2''
                            (b64encode (utf8_encode (generate_readme n b 2))) k2)]"
proof -
  let ?h = "github_headers cfg"
  from ok obtain tr1 c2 where
    index: "update_file_in_repo w tr n ''index.html'' html ''Update app for round 2'' ?h
              = (Inr c, tr1)"
    and readme: "update_file_in_repo w tr1 n ''README.md'' (JStr (generate_readme n b 2))
                   ''Update README for round 2'' ?h = (Inr c2, T)"
    by (auto simp: update_github_repo_def Let_def and_then_eq_Inr)
  from update_file_in_repo_Inr_keyed[OF index] obtain s g1 v1 k1 where
    a: "html = JStr s" "w tr (get_request ?h n ''index.html'') = Responds g1"
      "if status_code g1 = 200
       then then_get (json_of g1) (getitem ''sha'') = Inr v1 \<and> k1 = Some v1 else k1 = None"
      "tr1 = tr @ [Http (get_request ?h n ''index.html''),
                   Http (put_request ?h n ''index.html'' ''Update app for round 2''
                           (b64encode (utf8_encode s)) k1)]"
    by blast
  from update_file_in_repo_Inr_keyed[OF readme] obtain s' g2 v2 k2 where
    b: "JStr (generate_readme n b 2) = JStr s'"
      "w tr1 (get_request ?h n ''README.md'') = Responds g2"
      "if status_code g2 = 200
       then then_get (json_of g2) (getitem ''sha'') = Inr v2 \<and> k2 = Some v2 else k2 = None"
      "T = tr1 @ [Http (get_request ?h n ''README.md''),
                  Http (put_request ?h n ''README.md'' ''Update README for round 2''
                          (b64encode (utf8_encode s')) k2)]"
    by blast
  from b(1) have s': "s' = generate_readme n b 2"
    by simp
  have T: "T = tr @ [Http (get_request ?h n ''index.html''),
                    Http (put_request ?h n ''index.html''
                            ''Update app for round 2'' (b64encode (utf8_encode s)) k1),
                    Http (get_request ?h n ''README.md''),
                    Http (put_request ?h n ''README.md''
                            ''Update README for round 2''
                            (b64encode (utf8_encode (generate_readme n b 2))) k2)]"
    unfolding b(4) a(4) s' by simp
  show ?thesis
    using a(1,2,3) b(2,3) T unfolding a(4) by blast
qed

lemma get_request_literal:
  "get_request (github_headers cfg) n p
     = \<lparr>http_method = ''GET'',
        http_url = ''https://api.github.com/repos/SiriChandanaSykam/'' @ n @ ''/contents/'' @ p,
        http_headers = [(''Authorization'', ''token '' @ str_env (GITHUB_TOKEN cfg)),
                        (''Accept'', ''application/vnd.github.v3+json'')],
        http_json = None, http_timeout = None\<rparr>"
  by (simp add: get_request_def github_headers_def contents_url_def GITHUB_USERNAME_def)

lemma put_request_literal:
  "put_request (github_headers cfg) n p m enc k
     = \<lparr>http_method = ''PUT'',
        http_url = ''https://api.github.com/repos/SiriChandanaSykam/'' @ n @ ''/contents/'' @ p,
        http_headers = [(''Authorization'', ''token '' @ str_env (GITHUB_TOKEN cfg)),
                        (''Accept'', ''application/vnd.github.v3+json'')],
        http_json = Some (JObj ([(''message'', JStr m), (''content'', JStr enc)]
                                 @ (case k of None \<Rightarrow> [] | Some v \<Rightarrow> [(''sha'', v)]))),
        http_timeout = None\<rparr>"
  by (simp add: put_request_def github_headers_def contents_url_def GITHUB_USERNAME_def)

lemma update_path_requests:
  assumes ir: "index_read =
           \<lparr>http_method = ''GET'',
            http_url = ''https://api.github.com/repos/SiriChandanaSykam/'' @ repo_name
                         @ ''/contents/index.html'',
            http_headers = [(''Authorization'', ''token '' @ str_env (GITHUB_TOKEN cfg)),
                            (''Accept'', ''application/vnd.github.v3+json'')],
            http_json = None, http_timeout = None\<rparr>"
    and iw: "index_write =
         (\<lambda>content key.
           \<lparr>http_method = ''PUT'',
            http_url = ''https://api.github.com/repos/SiriChandanaSykam/'' @ repo_name
                         @ ''/contents/index.html'',
            http_headers = [(''Authorization'', ''token '' @ str_env (GITHUB_TOKEN cfg)),
                            (''Accept'', ''application/vnd.github.v3+json'')],
            http_json = Some (JObj ([(''message'', JStr ''Update app for round 2''),
                                     (''content'', JStr (b64encode (utf8_encode content)))]
                                    @ key)),
            http_timeout = None\<rparr>)"
    and rr: "readme_read =
           \<lparr>http_method = ''GET'',
            http_url = ''https://api.github.com/repos/SiriChandanaSykam/'' @ repo_name
                         @ ''/contents/README.md'',
            http_headers = [(''Authorization'', ''token '' @ str_env (GITHUB_TOKEN cfg)),
                            (''Accept'', ''application/vnd.github.v3+json'')],
            http_json = None, http_timeout = None\<rparr>"
    and rw: "readme_write =
         (\<lambda>key.
           \<lparr>http_method = ''PUT'',
            http_url = ''https://api.github.com/repos/SiriChandanaSykam/'' @ repo_name
                         @ ''/contents/README.md'',
            http_headers = [(''Authorization'', ''token '' @ str_env (GITHUB_TOKEN cfg)),
                            (''Accept'', ''application/vnd.github.v3+json'')],
            http_json = Some (JObj ([(''message'', JStr ''Update README for round 2''),
                                     (''content'',
                                        JStr (b64encode (utf8_encode
                                                (generate_readme repo_name brief_text 2))))]
                                    @ key)),
            http_timeout = None\<rparr>)"
  shows "index_read = get_request (github_headers cfg) repo_name ''index.html''"
    and "index_write content (case k of None \<Rightarrow> [] | Some v \<Rightarrow> [(''sha'', v)])
           = put_request (github_headers cfg) repo_name ''index.html'' ''Update app for round 2''
               (b64encode (utf8_encode content)) k"
    and "readme_read = get_request (github_headers cfg) repo_name ''README.md''"
    and "readme_write (case k of None \<Rightarrow> [] | Some v \<Rightarrow> [(''sha'', v)])
           = put_request (github_headers cfg) repo_name ''README.md''
               ''Update README for round 2''
               (b64encode (utf8_encode (generate_readme repo_name brief_text 2))) k"
  unfolding ir iw rr rw get_request_literal put_request_literal by simp_all

lemma update_github_repo_keyed_list:
  assumes ir: "index_read = get_request (github_headers cfg) n ''index.html''"
    and iw: "\<And>k. index_write s (case k of None \<Rightarrow> [] | Some v \<Rightarrow> [(''sha'', v)])
           = put_request (github_headers cfg) n ''index.html'' ''Update app for round 2''
               (b64encode (utf8_encode s)) k"
    and rr: "readme_read = get_request (github_headers cfg) n ''README.md''"
    and rw: "\<And>k. readme_write (case k of None \<Rightarrow> [] | Some v \<Rightarrow> [(''sha'', v)])
           = put_request (github_headers cfg) n ''README.md'' ''Update README for round 2''
               (b64encode (utf8_encode (generate_readme n b 2))) k"
  shows "\<exists>es. snd (update_github_repo cfg w tr n (JStr s) b) = tr @ es
     \<and> (es = [Http index_read]
        \<or> (\<exists>g1 v1 k1. w tr index_read = Responds g1
              \<and> (if status_code g1 = 200
                   then then_get (json_of g1) (getitem ''sha'') = Inr v1 \<and> k1 = [(''sha'', v1)]
                   else k1 = [])
              \<and> (es = [Http index_read, Http (index_write s k1)]
                 \<or> es = [Http index_read, Http (index_write s k1), Http readme_read]
                 \<or> (\<exists>g2 v2 k2.
                       w (tr @ [Http index_read, Http (index_write s k1)]) readme_read
                         = Responds g2
                       \<and> (if status_code g2 = 200
                            then then_get (json_of g2) (getitem ''sha'') = Inr v2
                                 \<and> k2 = [(''sha'', v2)]
                            else k2 = [])
                       \<and> es = [Http index_read, Http (index_write s k1), Http readme_read,
                                Http (readme_write k2)]))))"
proof -
  define key :: "json option \<Rightarrow> (string \<times> json) list" where
    "key = (\<lambda>k. case k of None \<Rightarrow> [] | Some v \<Rightarrow> [(''sha'', v)])"
  have keyI: "if status_code g = 200
              then then_get (json_of g) (getitem ''sha'') = Inr v \<and> key k = [(''sha'', v)]
              else key k = []"
    if "if status_code g = 200
        then then_get (json_of g) (getitem ''sha'') = Inr v \<and> k = Some v else k = None"
    for g v k
    using that by (auto simp: key_def split: if_splits)
  define P1 where "P1 = put_request (github_headers cfg) n ''index.html''
                          ''Update app for round 2'' (b64encode (utf8_encode s))"
  define P2 where "P2 = put_request (github_headers cfg) n ''README.md''
                          ''Update README for round 2''
                          (b64encode (utf8_encode (generate_readme n b 2)))"
  have iw': "P1 k = index_write s (key k)" for k
    unfolding P1_def key_def by (rule iw[symmetric])
  have rw': "P2 k = readme_write (key k)" for k
    unfolding P2_def key_def by (rule rw[symmetric])
  from update_github_repo_keyed[OF ir P1_def rr P2_def, of w tr]
  obtain es where es: "snd (update_github_repo cfg w tr n (JStr s) b) = tr @ es"
    and shape: "es = [Http index_read]
        \<or> (\<exists>g1 v1 k1. w tr index_read = Responds g1
              \<and> (if status_code g1 = 200
                   then then_get (json_of g1) (getitem ''sha'') = Inr v1 \<and> k1 = Some v1
                   else k1 = None)
              \<and> (es = [Http index_read, Http (P1 k1)]
                 \<or> es = [Http index_read, Http (P1 k1), Http readme_read]
                 \<or> (\<exists>g2 v2 k2. w (tr @ [Http index_read, Http (P1 k1)]) readme_read
                                    = Responds g2
                       \<and> (if status_code g2 = 200
                            then then_get (json_of g2) (getitem ''sha'') = Inr v2 \<and> k2 = Some v2
                            else k2 = None)
                       \<and> es = [Http index_read, Http (P1 k1), Http readme_read,
                                Http (P2 k2)])))"
    by blast
  from shape consider "es = [Http index_read]"
    | g1 v1 k1 where "w tr index_read = Responds g1"
        "if status_code g1 = 200
         then then_get (json_of g1) (getitem ''sha'') = Inr v1 \<and> k1 = Some v1 else k1 = None"
        "es = [Http index_read, Http (P1 k1)]
           \<or> es = [Http index_read, Http (P1 k1), Http readme_read]"
    | g1 v1 k1 g2 v2 k2 where "w tr index_read = Responds g1"
        "if status_code g1 = 200
         then then_get (json_of g1) (getitem ''sha'') = Inr v1 \<and> k1 = Some v1 else k1 = None"
        "w (tr @ [Http index_read, Http (P1 k1)]) readme_read = Responds g2"
        "if status_code g2 = 200
         then then_get (json_of g2) (getitem ''sha'') = Inr v2 \<and> k2 = Some v2 else k2 = None"
        "es = [Http index_read, Http (P1 k1), Http readme_read, Http (P2 k2)]"
    by blast
  then have "es = [Http index_read]
        \<or> (\<exists>g1 v1 k1. w tr index_read = Responds g1
              \<and> (if status_code g1 = 200
                   then then_get (json_of g1) (getitem ''sha'') = Inr v1 \<and> k1 = [(''sha'', v1)]
                   else k1 = [])
              \<and> (es = [Http index_read, Http (index_write s k1)]
                 \<or> es = [Http index_read, Http (index_write s k1), Http readme_read]
                 \<or> (\<exists>g2 v2 k2.
                       w (tr @ [Http index_read, Http (index_write s k1)]) readme_read
                         = Responds g2
                       \<and> (if status_code g2 = 200
                            then then_get (json_of g2) (getitem ''sha'') = Inr v2
                                 \<and> k2 = [(''sha'', v2)]
                            else k2 = [])
                       \<and> es = [Http index_read, Http (index_write s k1), Http readme_read,
                                Http (readme_write k2)])))"
  proof cases
    case 1
    then show ?thesis by blast
  next
    case 2
    from keyI[OF 2(2)] 2(1,3) show ?thesis
      unfolding iw' by blast
  next
    case 3
    from keyI[OF 3(2)] keyI[OF 3(4)] 3(1,3,5) show ?thesis
      unfolding iw' rw' by blast
  qed
  with es show ?thesis by blast
qed

lemma update_github_repo_forward_list:
  assumes ir: "index_read = get_request (github_headers cfg) n ''index.html''"
    and iw: "\<And>k. index_write s (case k of None \<Rightarrow> [] | Some v \<Rightarrow> [(''sha'', v)])
           = put_request (github_headers cfg) n ''index.html'' ''Update app for round 2''
               (b64encode (utf8_encode s)) k"
    and rr: "readme_read = get_request (github_headers cfg) n ''README.md''"
    and rw: "\<And>k. readme_write (case k of None \<Rightarrow> [] | Some v \<Rightarrow> [(''sha'', v)])
           = put_request (github_headers cfg) n ''README.md'' ''Update README for round 2''
               (b64encode (utf8_encode (generate_readme n b 2))) k"
    and g1: "w tr index_read = Responds r1"
    and k1: "if status_code r1 = 200
             then then_get (json_of r1) (getitem ''sha'') = Inr sha1 \<and> key1 = [(''sha'', sha1)]
             else key1 = []"
    and p1: "w (tr @ [Http index_read]) (index_write s key1) = Responds a1"
            "status_code a1 \<in> {200, 201}" "commit_sha_of a1 = Inr c1"
    and g2: "w (tr @ [Http index_read, Http (index_write s key1)]) readme_read = Responds r2"
    and k2: "if status_code r2 = 200
             then then_get (json_of r2) (getitem ''sha'') = Inr sha2 \<and> key2 = [(''sha'', sha2)]
             else key2 = []"
    and p2: "w (tr @ [Http index_read, Http (index_write s key1), Http readme_read])
               (readme_write key2) = Responds a2"
            "status_code a2 \<in> {200, 201}" "commit_sha_of a2 = Inr c2"
  shows "update_github_repo cfg w tr n (JStr s) b
           = (Inr (JStr (''https://github.com/SiriChandanaSykam/'' @ n), c1),
              tr @ [Http index_read, Http (index_write s key1), Http readme_read,
                    Http (readme_write key2)])"
proof -
  define o1 where "o1 = (if status_code r1 = 200 then Some sha1 else None)"
  define o2 where "o2 = (if status_code r2 = 200 then Some sha2 else None)"
  have key1: "key1 = (case o1 of None \<Rightarrow> [] | Some v \<Rightarrow> [(''sha'', v)])"
    and o1: "if status_code r1 = 200
             then then_get (json_of r1) (getitem ''sha'') = Inr sha1 \<and> o1 = Some sha1
             else o1 = None"
    using k1 by (auto simp: o1_def split: if_splits)
  have key2: "key2 = (case o2 of None \<Rightarrow> [] | Some v \<Rightarrow> [(''sha'', v)])"
    and o2: "if status_code r2 = 200
             then then_get (json_of r2) (getitem ''sha'') = Inr sha2 \<and> o2 = Some sha2
             else o2 = None"
    using k2 by (auto simp: o2_def split: if_splits)
  define P1 where "P1 = put_request (github_headers cfg) n ''index.html''
                          ''Update app for round 2'' (b64encode (utf8_encode s))"
  define P2 where "P2 = put_request (github_headers cfg) n ''README.md''
                          ''Update README for round 2''
                          (b64encode (utf8_encode (generate_readme n b 2)))"
  have iw': "index_write s key1 = P1 o1"
    unfolding P1_def key1 by (rule iw)
  have rw': "readme_write key2 = P2 o2"
    unfolding P2_def key2 by (rule rw)
  show ?thesis
    unfolding iw' rw'
    by (rule update_github_repo_forward[OF ir P1_def rr P2_def, where ?g1.0 = r1 and ?v1.0 = sha1
          and ?g2.0 = r2 and ?v2.0 = sha2 and ?p1.0 = a1 and ?p2.0 = a2 and ?c2.0 = c2])
       (use g1 o1 p1 g2 o2 p2 in \<open>simp_all add: iw' rw'\<close>)
qed

lemma receive_task_update_path:
  assumes ir: "index_read = get_request (github_headers cfg) (task request) ''index.html''"
    and iw: "\<And>content k.
           index_write content (case k of None \<Rightarrow> [] | Some v \<Rightarrow> [(''sha'', v)])
           = put_request (github_headers cfg) (task request) ''index.html''
               ''Update app for round 2'' (b64encode (utf8_encode content)) k"
    and rr: "readme_read = get_request (github_headers cfg) (task request) ''README.md''"
    and rw: "\<And>k. readme_write (case k of None \<Rightarrow> [] | Some v \<Rightarrow> [(''sha'', v)])
           = put_request (github_headers cfg) (task request) ''README.md''
               ''Update README for round 2''
               (b64encode (utf8_encode (generate_readme (task request) (brief request) 2))) k"
    and r: "1 < round request"
    and ok: "fst (receive_task cfg w request) = Returned (Success u p c)"
  shows "\<exists>pre post html g1 v1 k1 g2 v2 k2.
      snd (receive_task cfg w request)
        = pre @ [Http index_read, Http (index_write html k1), Http readme_read,
                 Http (readme_write k2)] @ post
      \<and> w pre index_read = Responds g1
      \<and> (if status_code g1 = 200
           then then_get (json_of g1) (getitem ''sha'') = Inr v1 \<and> k1 = [(''sha'', v1)]
           else k1 = [])
      \<and> w (pre @ [Http index_read, Http (index_write html k1)]) readme_read = Responds g2
      \<and> (if status_code g2 = 200
           then then_get (json_of g2) (getitem ''sha'') = Inr v2 \<and> k2 = [(''sha'', v2)]
           else k2 = [])"
proof -
  define key :: "json option \<Rightarrow> (string \<times> json) list" where
    "key = (\<lambda>k. case k of None \<Rightarrow> [] | Some v \<Rightarrow> [(''sha'', v)])"
  have keyI: "if status_code g = 200
              then then_get (json_of g) (getitem ''sha'') = Inr v \<and> key k = [(''sha'', v)]
              else key k = []"
    if "if status_code g = 200
        then then_get (json_of g) (getitem ''sha'') = Inr v \<and> k = Some v else k = None"
    for g v k
    using that by (auto simp: key_def split: if_splits)
  from receive_task_Success[OF ok] r obtain html tr1 tr2 post where
    pub: "update_github_repo cfg w tr1 (task request) html (brief request) = (Inr (u, c), tr2)"
    and T: "snd (receive_task cfg w request) = tr2 @ post"
    by (auto split: if_splits)
  from update_github_repo_Inr_keyed[OF pub] obtain s g1 v1 k1 g2 v2 k2 where
    html: "html = JStr s"
    and g1: "w tr1 (get_request (github_headers cfg) (task request) ''index.html'') = Responds g1"
    and k1: "if status_code g1 = 200
             then then_get (json_of g1) (getitem ''sha'') = Inr v1 \<and> k1 = Some v1 else k1 = None"
    and g2: "w (tr1 @ [Http (get_request (github_headers cfg) (task request) ''index.html''),
                    Http (put_request (github_headers cfg) (task request) ''index.html''
                            ''Update app for round 2'' (b64encode (utf8_encode s)) k1)])
            (get_request (github_headers cfg) (task request) ''README.md'') = Responds g2"
    and k2: "if status_code g2 = 200
             then then_get (json_of g2) (getitem ''sha'') = Inr v2 \<and> k2 = Some v2 else k2 = None"
    and tr2: "tr2 = tr1 @ [Http (get_request (github_headers cfg) (task request) ''index.html''),
                    Http (put_request (github_headers cfg) (task request) ''index.html''
                            ''Update app for round 2'' (b64encode (utf8_encode s)) k1),
                    Http (get_request (github_headers cfg) (task request) ''README.md''),
                    Http (put_request (github_headers cfg) (task request) ''README.md''
                            ''Update README for round 2''
                            (b64encode (utf8_encode
                               (generate_readme (task request) (brief request) 2))) k2)]"
    by blast
  have iw': "put_request (github_headers cfg) (task request) ''index.html''
               ''Update app for round 2'' (b64encode (utf8_encode s)) k1
             = index_write s (key k1)"
    unfolding key_def by (rule iw[symmetric])
  have rw': "put_request (github_headers cfg) (task request) ''README.md''
               ''Update README for round 2''
               (b64encode (utf8_encode (generate_readme (task request) (brief request) 2))) k2
             = readme_write (key k2)"
    unfolding key_def by (rule rw[symmetric])
  have "snd (receive_task cfg w request)
        = tr1 @ [Http index_read, Http (index_write s (key k1)), Http readme_read,
                 Http (readme_write (key k2))] @ post"
    unfolding T tr2 iw' rw' ir rr by simp
  moreover have "w tr1 index_read = Responds g1"
    using g1 unfolding ir .
  moreover have "w (tr1 @ [Http index_read, Http (index_write s (key k1))]) readme_read
                   = Responds g2"
    using g2 unfolding iw' ir rr .
  ultimately show ?thesis
    using keyI[OF k1] keyI[OF k2] by blast
qed

text \<open>
  C4. On the update path no repository is created: every request of \<open>update_github_repo\<close>
  is a read (\<open>GET\<close>) or a write (\<open>PUT\<close>) of \<open>index.html\<close> or \<open>README.md\<close>, each write comes
  after the read of the same file, and the artifact is written before the metadata is read.
  A write whose read is answered with status 200 and a revision identifier submits the
  content with that identifier under \<open>sha\<close>; a write whose read is answered with another
  status behaves as plain creation and submits no \<open>sha\<close>. The handler of a request of a
  round above 1 sends no repository-creation request at all.

  With the four requests written out field by field (the read and the write of
  \<open>index.html\<close>, the read and the write of \<open>README.md\<close>, a write being the \<open>PUT\<close> whose JSON
  body has \<open>message\<close>, \<open>content\<close> in base 64, and then the fields of its key):
  \<^item> whatever the world answers, the requests of the publisher are the read of \<open>index.html\<close>
    alone, or that read and the write of \<open>index.html\<close>, or these two and the read of
    \<open>README.md\<close>, or these three and the write of \<open>README.md\<close>; the read before a write was
    answered, and the key of the write is \<open>sha\<close> with the value of the answer when the answer
    has status 200, and empty when it has another status;
  \<^item> when each read is answered (with status 200 and a \<open>sha\<close>, or with another status) and
    each write is answered with status 200 or 201 and a commit, the publisher returns the
    local location and the commit of the \<open>index.html\<close> write, and has sent exactly the four
    requests, each write keyed as above;
  \<^item> a successful run of the handler on a request of a round above 1 contains these four
    requests in a row, each write keyed to what the world answered to its read.
\<close>

theorem update_path_reads_before_writing:
  "(\<exists>es. snd (update_github_repo cfg w tr repo_name html_code brief_text) = tr @ es
         \<and> (\<forall>ev \<in> set es. \<not> is_create ev)
         \<and> (\<forall>ev \<in> set es. reads_file repo_name ''index.html'' ev
                \<or> writes_file repo_name ''index.html'' ev
                \<or> reads_file repo_name ''README.md'' ev
                \<or> writes_file repo_name ''README.md'' ev)
         \<and> preceded (reads_file repo_name ''index.html'')
              (writes_file repo_name ''index.html'') es
         \<and> preceded (reads_file repo_name ''README.md'')
              (writes_file repo_name ''README.md'') es
         \<and> preceded (writes_file repo_name ''index.html'')
              (reads_file repo_name ''README.md'') es)
   \<and> (w tr (get_request headers repo_name file_path) = Responds g
        \<and> status_code g = 200
        \<and> then_get (json_of g) (getitem ''sha'') = Inr file_sha \<longrightarrow>
        snd (update_file_in_repo w tr repo_name file_path (JStr s) message headers)
          = tr @ [Http (get_request headers repo_name file_path),
                  Http (put_request headers repo_name file_path message
                          (b64encode (utf8_encode s)) (Some file_sha))])
   \<and> (w tr (get_request headers repo_name file_path) = Responds g'
        \<and> status_code g' \<noteq> 200 \<longrightarrow>
        update_file_in_repo w tr repo_name file_path content message headers
          = add_file_to_repo w (tr @ [Http (get_request headers repo_name file_path)])
              repo_name file_path content message headers
        \<and> snd (update_file_in_repo w tr repo_name file_path (JStr s) message headers)
            = tr @ [Http (get_request headers repo_name file_path),
                    Http (put_request headers repo_name file_path message
                            (b64encode (utf8_encode s)) None)])
   \<and> (1 < round request \<longrightarrow>
        (\<forall>n b. Http (create_request cfg n b) \<notin> set (snd (receive_task cfg w request))))
   \<and> (index_read =
           \<lparr>http_method = ''GET'',
            http_url = ''https://api.github.com/repos/SiriChandanaSykam/'' @ repo_name
                         @ ''/contents/index.html'',
            http_headers = [(''Authorization'', ''token '' @ str_env (GITHUB_TOKEN cfg)),
                            (''Accept'', ''application/vnd.github.v3+json'')],
            http_json = None, http_timeout = None\<rparr>
        \<and> index_write =
         (\<lambda>content key.
           \<lparr>http_method = ''PUT'',
            http_url = ''https://api.github.com/repos/SiriChandanaSykam/'' @ repo_name
                         @ ''/contents/index.html'',
            http_headers = [(''Authorization'', ''token '' @ str_env (GITHUB_TOKEN cfg)),
                            (''Accept'', ''application/vnd.github.v3+json'')],
            http_json = Some (JObj ([(''message'', JStr ''Update app for round 2''),
                                     (''content'', JStr (b64encode (utf8_encode content)))]
                                    @ key)),
            http_timeout = None\<rparr>)
        \<and> readme_read =
           \<lparr>http_method = ''GET'',
            http_url = ''https://api.github.com/repos/SiriChandanaSykam/'' @ repo_name
                         @ ''/contents/README.md'',
            http_headers = [(''Authorization'', ''token '' @ str_env (GITHUB_TOKEN cfg)),
                            (''Accept'', ''application/vnd.github.v3+json'')],
            http_json = None, http_timeout = None\<rparr>
        \<and> readme_write =
         (\<lambda>key.
           \<lparr>http_method = ''PUT'',
            http_url = ''https://api.github.com/repos/SiriChandanaSykam/'' @ repo_name
                         @ ''/contents/README.md'',
            http_headers = [(''Authorization'', ''token '' @ str_env (GITHUB_TOKEN cfg)),
                            (''Accept'', ''application/vnd.github.v3+json'')],
            http_json = Some (JObj ([(''message'', JStr ''Update README for round 2''),
                                     (''content'',
                                        JStr (b64encode (utf8_encode
                                                (generate_readme repo_name brief_text 2))))]
                                    @ key)),
            http_timeout = None\<rparr>)
        \<longrightarrow>
        (\<exists>es. snd (update_github_repo cfg w tr repo_name (JStr s) brief_text) = tr @ es
           \<and> (es = [Http index_read]
              \<or> (\<exists>g1 v1 k1. w tr index_read = Responds g1
                    \<and> (if status_code g1 = 200
                         then then_get (json_of g1) (getitem ''sha'') = Inr v1
                              \<and> k1 = [(''sha'', v1)]
                         else k1 = [])
                    \<and> (es = [Http index_read, Http (index_write s k1)]
                       \<or> es = [Http index_read, Http (index_write s k1), Http readme_read]
                       \<or> (\<exists>g2 v2 k2.
                             w (tr @ [Http index_read, Http (index_write s k1)]) readme_read
                               = Responds g2
                             \<and> (if status_code g2 = 200
                                  then then_get (json_of g2) (getitem ''sha'') = Inr v2
                                       \<and> k2 = [(''sha'', v2)]
                                  else k2 = [])
                             \<and> es = [Http index_read, Http (index_write s k1),
                                      Http readme_read, Http (readme_write k2)])))))
        \<and> (w tr index_read = Responds r1
             \<and> (if status_code r1 = 200
                  then then_get (json_of r1) (getitem ''sha'') = Inr sha1
                       \<and> key1 = [(''sha'', sha1)]
                  else key1 = [])
             \<and> w (tr @ [Http index_read]) (index_write s key1) = Responds a1
             \<and> status_code a1 \<in> {200, 201} \<and> commit_sha_of a1 = Inr c1
             \<and> w (tr @ [Http index_read, Http (index_write s key1)]) readme_read = Responds r2
             \<and> (if status_code r2 = 200
                  then then_get (json_of r2) (getitem ''sha'') = Inr sha2
                       \<and> key2 = [(''sha'', sha2)]
                  else key2 = [])
             \<and> w (tr @ [Http index_read, Http (index_write s key1), Http readme_read])
                   (readme_write key2) = Responds a2
             \<and> status_code a2 \<in> {200, 201} \<and> commit_sha_of a2 = Inr c2
             \<longrightarrow>
             update_github_repo cfg w tr repo_name (JStr s) brief_text
               = (Inr (JStr (''https://github.com/SiriChandanaSykam/'' @ repo_name), c1),
                  tr @ [Http index_read, Http (index_write s key1), Http readme_read,
                        Http (readme_write key2)]))
        \<and> (1 < round request \<and> task request = repo_name \<and> brief request = brief_text
             \<and> fst (receive_task cfg w request) = Returned (Success u p c)
             \<longrightarrow>
             (\<exists>pre post html g1 v1 k1 g2 v2 k2.
                snd (receive_task cfg w request)
                  = pre @ [Http index_read, Http (index_write html k1), Http readme_read,
                           Http (readme_write k2)] @ post
                \<and> w pre index_read = Responds g1
                \<and> (if status_code g1 = 200
                     then then_get (json_of g1) (getitem ''sha'') = Inr v1
                          \<and> k1 = [(''sha'', v1)]
                     else k1 = [])
                \<and> w (pre @ [Http index_read, Http (index_write html k1)]) readme_read
                    = Responds g2
                \<and> (if status_code g2 = 200
                     then then_get (json_of g2) (getitem ''sha'') = Inr v2
                          \<and> k2 = [(''sha'', v2)]
                     else k2 = []))))"
proof -
  obtain es where es:
    "snd (update_github_repo cfg w tr repo_name html_code brief_text) = tr @ es"
    "\<forall>ev \<in> set es. reads_file repo_name ''index.html'' ev
        \<or> writes_file repo_name ''index.html'' ev
        \<or> reads_file repo_name ''README.md'' ev
        \<or> writes_file repo_name ''README.md'' ev"
    "preceded (reads_file repo_name ''index.html'') (writes_file repo_name ''index.html'') es"
    "preceded (reads_file repo_name ''README.md'') (writes_file repo_name ''README.md'') es"
    "preceded (writes_file repo_name ''index.html'') (reads_file repo_name ''README.md'') es"
    using update_github_repo_events by blast
  have nc: "\<forall>ev \<in> set es. \<not> is_create ev"
  proof
    fix ev assume "ev \<in> set es"
    with es(2) show "\<not> is_create ev"
      by (cases ev) (auto simp: is_create_def reads_file_def writes_file_def)
  qed
  have first: "\<exists>es. snd (update_github_repo cfg w tr repo_name html_code brief_text) = tr @ es
         \<and> (\<forall>ev \<in> set es. \<not> is_create ev)
         \<and> (\<forall>ev \<in> set es. reads_file repo_name ''index.html'' ev
                \<or> writes_file repo_name ''index.html'' ev
                \<or> reads_file repo_name ''README.md'' ev
                \<or> writes_file repo_name ''README.md'' ev)
         \<and> preceded (reads_file repo_name ''index.html'')
              (writes_file repo_name ''index.html'') es
         \<and> preceded (reads_file repo_name ''README.md'')
              (writes_file repo_name ''README.md'') es
         \<and> preceded (writes_file repo_name ''index.html'')
              (reads_file repo_name ''README.md'') es"
    using es nc by blast
  have handler: "\<forall>n b. Http (create_request cfg n b) \<notin> set (snd (receive_task cfg w request))"
    if "1 < round request"
    using receive_task_no_create[of request cfg _ _ cfg w] that by auto
  have found: "snd (update_file_in_repo w tr repo_name file_path (JStr s) message headers)
          = tr @ [Http (get_request headers repo_name file_path),
                  Http (put_request headers repo_name file_path message
                          (b64encode (utf8_encode s)) (Some file_sha))]"
    if "w tr (get_request headers repo_name file_path) = Responds g
        \<and> status_code g = 200
        \<and> then_get (json_of g) (getitem ''sha'') = Inr file_sha"
    using that by (intro update_file_in_repo_found) auto
  have missing: "update_file_in_repo w tr repo_name file_path content message headers
          = add_file_to_repo w (tr @ [Http (get_request headers repo_name file_path)])
              repo_name file_path content message headers
        \<and> snd (update_file_in_repo w tr repo_name file_path (JStr s) message headers)
            = tr @ [Http (get_request headers repo_name file_path),
                    Http (put_request headers repo_name file_path message
                            (b64encode (utf8_encode s)) None)]"
    if "w tr (get_request headers repo_name file_path) = Responds g'
        \<and> status_code g' \<noteq> 200"
    using that update_file_in_repo_missing by blast
  have new: "(\<exists>es. snd (update_github_repo cfg w tr repo_name (JStr s) brief_text) = tr @ es
           \<and> (es = [Http index_read]
              \<or> (\<exists>g1 v1 k1. w tr index_read = Responds g1
                    \<and> (if status_code g1 = 200
                         then then_get (json_of g1) (getitem ''sha'') = Inr v1
                              \<and> k1 = [(''sha'', v1)]
                         else k1 = [])
                    \<and> (es = [Http index_read, Http (index_write s k1)]
                       \<or> es = [Http index_read, Http (index_write s k1), Http readme_read]
                       \<or> (\<exists>g2 v2 k2.
                             w (tr @ [Http index_read, Http (index_write s k1)]) readme_read
                               = Responds g2
                             \<and> (if status_code g2 = 200
                                  then then_get (json_of g2) (getitem ''sha'') = Inr v2
                                       \<and> k2 = [(''sha'', v2)]
                                  else k2 = [])
                             \<and> es = [Http index_read, Http (index_write s k1),
                                      Http readme_read, Http (readme_write k2)])))))
        \<and> (w tr index_read = Responds r1
             \<and> (if status_code r1 = 200
                  then then_get (json_of r1) (getitem ''sha'') = Inr sha1
                       \<and> key1 = [(''sha'', sha1)]
                  else key1 = [])
             \<and> w (tr @ [Http index_read]) (index_write s key1) = Responds a1
             \<and> status_code a1 \<in> {200, 201} \<and> commit_sha_of a1 = Inr c1
             \<and> w (tr @ [Http index_read, Http (index_write s key1)]) readme_read = Responds r2
             \<and> (if status_code r2 = 200
                  then then_get (json_of r2) (getitem ''sha'') = Inr sha2
                       \<and> key2 = [(''sha'', sha2)]
                  else key2 = [])
             \<and> w (tr @ [Http index_read, Http (index_write s key1), Http readme_read])
                   (readme_write key2) = Responds a2
             \<and> status_code a2 \<in> {200, 201} \<and> commit_sha_of a2 = Inr c2
             \<longrightarrow>
             update_github_repo cfg w tr repo_name (JStr s) brief_text
               = (Inr (JStr (''https://github.com/SiriChandanaSykam/'' @ repo_name), c1),
                  tr @ [Http index_read, Http (index_write s key1), Http readme_read,
                        Http (readme_write key2)]))
        \<and> (1 < round request \<and> task request = repo_name \<and> brief request = brief_text
             \<and> fst (receive_task cfg w request) = Returned (Success u p c)
             \<longrightarrow>
             (\<exists>pre post html g1 v1 k1 g2 v2 k2.
                snd (receive_task cfg w request)
                  = pre @ [Http index_read, Http (index_write html k1), Http readme_read,
                           Http (readme_write k2)] @ post
                \<and> w pre index_read = Responds g1
                \<and> (if status_code g1 = 200
                     then then_get (json_of g1) (getitem ''sha'') = Inr v1
                          \<and> k1 = [(''sha'', v1)]
                     else k1 = [])
                \<and> w (pre @ [Http index_read, Http (index_write html k1)]) readme_read
                    = Responds g2
                \<and> (if status_code g2 = 200
                     then then_get (json_of g2) (getitem ''sha'') = Inr v2
                          \<and> k2 = [(''sha'', v2)]
                     else k2 = [])))"
    if eqs: "index_read =
           \<lparr>http_method = ''GET'',
            http_url = ''https://api.github.com/repos/SiriChandanaSykam/'' @ repo_name
                         @ ''/contents/index.html'',
            http_headers = [(''Authorization'', ''token '' @ str_env (GITHUB_TOKEN cfg)),
                            (''Accept'', ''application/vnd.github.v3+json'')],
            http_json = None, http_timeout = None\<rparr>
        \<and> index_write =
         (\<lambda>content key.
           \<lparr>http_method = ''PUT'',
            http_url = ''https://api.github.com/repos/SiriChandanaSykam/'' @ repo_name
                         @ ''/contents/index.html'',
            http_headers = [(''Authorization'', ''token '' @ str_env (GITHUB_TOKEN cfg)),
                            (''Accept'', ''application/vnd.github.v3+json'')],
            http_json = Some (JObj ([(''message'', JStr ''Update app for round 2''),
                                     (''content'', JStr (b64encode (utf8_encode content)))]
                                    @ key)),
            http_timeout = None\<rparr>)
        \<and> readme_read =
           \<lparr>http_method = ''GET'',
            http_url = ''https://api.github.com/repos/SiriChandanaSykam/'' @ repo_name
                         @ ''/contents/README.md'',
            http_headers = [(''Authorization'', ''token '' @ str_env (GITHUB_TOKEN cfg)),
                            (''Accept'', ''application/vnd.github.v3+json'')],
            http_json = None, http_timeout = None\<rparr>
        \<and> readme_write =
         (\<lambda>key.
           \<lparr>http_method = ''PUT'',
            http_url = ''https://api.github.com/repos/SiriChandanaSykam/'' @ repo_name
                         @ ''/contents/README.md'',
            http_headers = [(''Authorization'', ''token '' @ str_env (GITHUB_TOKEN cfg)),
                            (''Accept'', ''application/vnd.github.v3+json'')],
            http_json = Some (JObj ([(''message'', JStr ''Update README for round 2''),
                                     (''content'',
                                        JStr (b64encode (utf8_encode
                                                (generate_readme repo_name brief_text 2))))]
                                    @ key)),
            http_timeout = None\<rparr>)"
  proof -
    note b = update_path_requests[OF eqs[THEN conjunct1] eqs[THEN conjunct2, THEN conjunct1]
        eqs[THEN conjunct2, THEN conjunct2, THEN conjunct1]
        eqs[THEN conjunct2, THEN conjunct2, THEN conjunct2]]
    note every = update_github_repo_keyed_list[where index_read = index_read
        and index_write = index_write and readme_read = readme_read
        and readme_write = readme_write and cfg = cfg and n = repo_name and s = s
        and b = brief_text and w = w and tr = tr, OF b(1) b(2) b(3) b(4)]
    have forward: "update_github_repo cfg w tr repo_name (JStr s) brief_text
               = (Inr (JStr (''https://github.com/SiriChandanaSykam/'' @ repo_name), c1),
                  tr @ [Http index_read, Http (index_write s key1), Http readme_read,
                        Http (readme_write key2)])"
      if h: "w tr index_read = Responds r1
             \<and> (if status_code r1 = 200
                  then then_get (json_of r1) (getitem ''sha'') = Inr sha1
                       \<and> key1 = [(''sha'', sha1)]
                  else key1 = [])
             \<and> w (tr @ [Http index_read]) (index_write s key1) = Responds a1
             \<and> status_code a1 \<in> {200, 201} \<and> commit_sha_of a1 = Inr c1
             \<and> w (tr @ [Http index_read, Http (index_write s key1)]) readme_read = Responds r2
             \<and> (if status_code r2 = 200
                  then then_get (json_of r2) (getitem ''sha'') = Inr sha2
                       \<and> key2 = [(''sha'', sha2)]
                  else key2 = [])
             \<and> w (tr @ [Http index_read, Http (index_write s key1), Http readme_read])
                   (readme_write key2) = Responds a2
             \<and> status_code a2 \<in> {200, 201} \<and> commit_sha_of a2 = Inr c2"
      by (rule update_github_repo_forward_list[where index_read = index_read
            and index_write = index_write and readme_read = readme_read
            and readme_write = readme_write and cfg = cfg and n = repo_name and s = s
            and b = brief_text and w = w and tr = tr, OF b(1) b(2) b(3) b(4), where ?r1.0 = r1
            and ?sha1.0 = sha1 and ?a1.0 = a1 and ?r2.0 = r2 and ?sha2.0 = sha2 and ?a2.0 = a2
            and ?c2.0 = c2])
         (use h in \<open>simp_all\<close>)
    have handler_path: "\<exists>pre post html g1 v1 k1 g2 v2 k2.
                snd (receive_task cfg w request)
                  = pre @ [Http index_read, Http (index_write html k1), Http readme_read,
                           Http (readme_write k2)] @ post
                \<and> w pre index_read = Responds g1
                \<and> (if status_code g1 = 200
                     then then_get (json_of g1) (getitem ''sha'') = Inr v1
                          \<and> k1 = [(''sha'', v1)]
                     else k1 = [])
                \<and> w (pre @ [Http index_read, Http (index_write html k1)]) readme_read
                    = Responds g2
                \<and> (if status_code g2 = 200
                     then then_get (json_of g2) (getitem ''sha'') = Inr v2
                          \<and> k2 = [(''sha'', v2)]
                     else k2 = [])"
      if h: "1 < round request \<and> task request = repo_name \<and> brief request = brief_text
             \<and> fst (receive_task cfg w request) = Returned (Success u p c)"
    proof -
      from h have n: "repo_name = task request" and bt: "brief_text = brief request"
        and r: "1 < round request"
        and ok: "fst (receive_task cfg w request) = Returned (Success u p c)"
        by simp_all
      show ?thesis
        by (rule receive_task_update_path[where index_read = index_read
              and index_write = index_write and readme_read = readme_read
              and readme_write = readme_write and cfg = cfg and request = request,
              OF b(1)[unfolded n] b(2)[unfolded n] b(3)[unfolded n] b(4)[unfolded n bt] r ok])
    qed
    show ?thesis
      using every forward handler_path by blast
  qed
  show ?thesis
    using first handler found missing new by blast
qed

theorem update_path_reads_before_writing_witness:
  "1 < round (sample_request\<lparr>round := 2\<rparr>)
   \<and> (\<forall>n b. Http (create_request sample_config n b)
          \<notin> set (snd (receive_task sample_config friendly_world
                          (sample_request\<lparr>round := 2\<rparr>))))
   \<and> friendly_world [] (get_request (github_headers sample_config) ''demo1'' ''index.html'')
       = Responds \<lparr>status_code = 200, response_text = [],
                   response_json = Some (JObj [(''sha'', JStr ''f00'')])\<rparr>
   \<and> snd (update_file_in_repo friendly_world [] ''demo1'' ''index.html'' (JStr ''<p>0</p>'')
            ''Update app for round 2'' (github_headers sample_config))
       = [Http (get_request (github_headers sample_config) ''demo1'' ''index.html''),
          Http (put_request (github_headers sample_config) ''demo1'' ''index.html''
                  ''Update app for round 2'' (b64encode (utf8_encode ''<p>0</p>''))
                  (Some (JStr ''f00'')))]
   \<and> fresh_world [] (get_request (github_headers sample_config) ''demo1'' ''index.html'')
       = Responds \<lparr>status_code = 404, response_text = [], response_json = None\<rparr>
   \<and> snd (update_file_in_repo fresh_world [] ''demo1'' ''index.html'' (JStr ''<p>0</p>'')
            ''Update app for round 2'' (github_headers sample_config))
       = [Http (get_request (github_headers sample_config) ''demo1'' ''index.html''),
          Http (put_request (github_headers sample_config) ''demo1'' ''index.html''
                  ''Update app for round 2'' (b64encode (utf8_encode ''<p>0</p>'')) None)]
   \<and> update_github_repo sample_config friendly_world [] ''demo1'' (JStr ''<p>0</p>'')
       ''a counter app''
     = (Inr (JStr ''https://github.com/SiriChandanaSykam/demo1'',
               JStr ''https://api.github.com/repos/SiriChandanaSykam/demo1/contents/index.html''),
          [Http \<lparr>http_method = ''GET'',
     http_url = ''https://api.github.com/repos/SiriChandanaSykam/demo1/contents/index.html'',
     http_headers = [(''Authorization'', ''token ghp''),
                     (''Accept'', ''application/vnd.github.v3+json'')],
     http_json = None, http_timeout = None\<rparr>,
   Http \<lparr>http_method = ''PUT'',
     http_url = ''https://api.github.com/repos/SiriChandanaSykam/demo1/contents/index.html'',
     http_headers = [(''Authorization'', ''token ghp''),
                     (''Accept'', ''application/vnd.github.v3+json'')],
     http_json = Some (JObj
           [(''message'', JStr ''Update app for round 2''),
            (''content'', JStr (b64encode (utf8_encode ''<p>0</p>''))),
            (''sha'', JStr ''f00'')]),
     http_timeout = None\<rparr>,
   Http \<lparr>http_method = ''GET'',
     http_url = ''https://api.github.com/repos/SiriChandanaSykam/demo1/contents/README.md'',
     http_headers = [(''Authorization'', ''token ghp''),
                     (''Accept'', ''application/vnd.github.v3+json'')],
     http_json = None, http_timeout = None\<rparr>,
   Http \<lparr>http_method = ''PUT'',
     http_url = ''https://api.github.com/repos/SiriChandanaSykam/demo1/contents/README.md'',
     http_headers = [(''Authorization'', ''token ghp''),
                     (''Accept'', ''application/vnd.github.v3+json'')],
     http_json = Some (JObj
           [(''message'', JStr ''Update README for round 2''),
            (''content'', JStr (b64encode (utf8_encode (generate_readme ''demo1'' ''a counter app'' 2)))),
            (''sha'', JStr ''f00'')]),
     http_timeout = None\<rparr>])
   \<and> update_github_repo sample_config fresh_world [] ''demo1'' (JStr ''<p>0</p>'')
       ''a counter app''
     = (Inr (JStr ''https://github.com/SiriChandanaSykam/demo1'',
               JStr ''https://api.github.com/repos/SiriChandanaSykam/demo1/contents/index.html''),
          [Http \<lparr>http_method = ''GET'',
     http_url = ''https://api.github.com/repos/SiriChandanaSykam/demo1/contents/index.html'',
     http_headers = [(''Authorization'', ''token ghp''),
                     (''Accept'', ''application/vnd.github.v3+json'')],
     http_json = None, http_timeout = None\<rparr>,
   Http \<lparr>http_method = ''PUT'',
     http_url = ''https://api.github.com/repos/SiriChandanaSykam/demo1/contents/index.html'',
     http_headers = [(''Authorization'', ''token ghp''),
                     (''Accept'', ''application/vnd.github.v3+json'')],
     http_json = Some (JObj
           [(''message'', JStr ''Update app for round 2''),
            (''content'', JStr (b64encode (utf8_encode ''<p>0</p>'')))]),
     http_timeout = None\<rparr>,
   Http \<lparr>http_method = ''GET'',
     http_url = ''https://api.github.com/repos/SiriChandanaSykam/demo1/contents/README.md'',
     http_headers = [(''Authorization'', ''token ghp''),
                     (''Accept'', ''application/vnd.github.v3+json'')],
     http_json = None, http_timeout = None\<rparr>,
   Http \<lparr>http_method = ''PUT'',
     http_url = ''https://api.github.com/repos/SiriChandanaSykam/demo1/contents/README.md'',
     http_headers = [(''Authorization'', ''token ghp''),
                     (''Accept'', ''application/vnd.github.v3+json'')],
     http_json = Some (JObj
           [(''message'', JStr ''Update README for round 2''),
            (''content'', JStr (b64encode (utf8_encode (generate_readme ''demo1'' ''a counter app'' 2))))]),
     http_timeout = None\<rparr>])
   \<and> (\<exists>pre post html.
         snd (receive_task sample_config friendly_world (sample_request\<lparr>round := 2\<rparr>))
           = pre @ [Http \<lparr>http_method = ''GET'',
     http_url = ''https://api.github.com/repos/SiriChandanaSykam/demo1/contents/index.html'',
     http_headers = [(''Authorization'', ''token ghp''),
                     (''Accept'', ''application/vnd.github.v3+json'')],
     http_json = None, http_timeout = None\<rparr>,
   Http \<lparr>http_method = ''PUT'',
     http_url = ''https://api.github.com/repos/SiriChandanaSykam/demo1/contents/index.html'',
     http_headers = [(''Authorization'', ''token ghp''),
                     (''Accept'', ''application/vnd.github.v3+json'')],
     http_json = Some (JObj
           [(''message'', JStr ''Update app for round 2''),
            (''content'', JStr (b64encode (utf8_encode html))),
            (''sha'', JStr ''f00'')]),
     http_timeout = None\<rparr>,
   Http \<lparr>http_method = ''GET'',
     http_url = ''https://api.github.com/repos/SiriChandanaSykam/demo1/contents/README.md'',
     http_headers = [(''Authorization'', ''token ghp''),
                     (''Accept'', ''application/vnd.github.v3+json'')],
     http_json = None, http_timeout = None\<rparr>,
   Http \<lparr>http_method = ''PUT'',
     http_url = ''https://api.github.com/repos/SiriChandanaSykam/demo1/contents/README.md'',
     http_headers = [(''Authorization'', ''token ghp''),
                     (''Accept'', ''application/vnd.github.v3+json'')],
     http_json = Some (JObj
           [(''message'', JStr ''Update README for round 2''),
            (''content'', JStr (b64encode (utf8_encode (generate_readme ''demo1'' ''a counter app'' 2)))),
            (''sha'', JStr ''f00'')]),
     http_timeout = None\<rparr>] @ post)"
proof -
  define ir where "ir = \<lparr>http_method = ''GET'',
     http_url = ''https://api.github.com/repos/SiriChandanaSykam/demo1/contents/index.html'',
     http_headers = [(''Authorization'', ''token ghp''),
                     (''Accept'', ''application/vnd.github.v3+json'')],
     http_json = None, http_timeout = None\<rparr>"
  define iw where "iw = (\<lambda>content key. \<lparr>http_method = ''PUT'',
     http_url = ''https://api.github.com/repos/SiriChandanaSykam/demo1/contents/index.html'',
     http_headers = [(''Authorization'', ''token ghp''),
                     (''Accept'', ''application/vnd.github.v3+json'')],
     http_json = Some (JObj
           ([(''message'', JStr ''Update app for round 2''),
             (''content'', JStr (b64encode (utf8_encode content)))] @ key)),
     http_timeout = None\<rparr>)"
  define rr where "rr = \<lparr>http_method = ''GET'',
     http_url = ''https://api.github.com/repos/SiriChandanaSykam/demo1/contents/README.md'',
     http_headers = [(''Authorization'', ''token ghp''),
                     (''Accept'', ''application/vnd.github.v3+json'')],
     http_json = None, http_timeout = None\<rparr>"
  define rw where "rw = (\<lambda>key. \<lparr>http_method = ''PUT'',
     http_url = ''https://api.github.com/repos/SiriChandanaSykam/demo1/contents/README.md'',
     http_headers = [(''Authorization'', ''token ghp''),
                     (''Accept'', ''application/vnd.github.v3+json'')],
     http_json = Some (JObj
           ([(''message'', JStr ''Update README for round 2''),
             (''content'', JStr (b64encode (utf8_encode (generate_readme ''demo1'' ''a counter app'' 2))))] @ key)),
     http_timeout = None\<rparr>)"
  define present where "present = \<lparr>status_code = 200, response_text = [],
                             response_json = Some (JObj [(''sha'', JStr ''f00'')])\<rparr>"
  define absent where "absent = \<lparr>status_code = 404, response_text = [],
                               response_json = None\<rparr>"
  define written where "written = (\<lambda>f. \<lparr>status_code = 201, response_text = [],
       response_json = Some (JObj [(''commit'', JObj [(''sha'',
         JStr (''https://api.github.com/repos/SiriChandanaSykam/demo1/contents/'' @ f))])])\<rparr>)"
  let ?rq = "sample_request\<lparr>round := 2\<rparr>"
  have eqs: "ir = \<lparr>http_method = ''GET'',
            http_url = ''https://api.github.com/repos/SiriChandanaSykam/'' @ ''demo1''
                         @ ''/contents/index.html'',
            http_headers = [(''Authorization'', ''token '' @ str_env (GITHUB_TOKEN sample_config)),
                            (''Accept'', ''application/vnd.github.v3+json'')],
            http_json = None, http_timeout = None\<rparr>
        \<and> iw = (\<lambda>content key.
           \<lparr>http_method = ''PUT'',
            http_url = ''https://api.github.com/repos/SiriChandanaSykam/'' @ ''demo1''
                         @ ''/contents/index.html'',
            http_headers = [(''Authorization'', ''token '' @ str_env (GITHUB_TOKEN sample_config)),
                            (''Accept'', ''application/vnd.github.v3+json'')],
            http_json = Some (JObj ([(''message'', JStr ''Update app for round 2''),
                                     (''content'', JStr (b64encode (utf8_encode content)))]
                                    @ key)),
            http_timeout = None\<rparr>)
        \<and> rr = \<lparr>http_method = ''GET'',
            http_url = ''https://api.github.com/repos/SiriChandanaSykam/'' @ ''demo1''
                         @ ''/contents/README.md'',
            http_headers = [(''Authorization'', ''token '' @ str_env (GITHUB_TOKEN sample_config)),
                            (''Accept'', ''application/vnd.github.v3+json'')],
            http_json = None, http_timeout = None\<rparr>
        \<and> rw = (\<lambda>key.
           \<lparr>http_method = ''PUT'',
            http_url = ''https://api.github.com/repos/SiriChandanaSykam/'' @ ''demo1''
                         @ ''/contents/README.md'',
            http_headers = [(''Authorization'', ''token '' @ str_env (GITHUB_TOKEN sample_config)),
                            (''Accept'', ''application/vnd.github.v3+json'')],
            http_json = Some (JObj ([(''message'', JStr ''Update README for round 2''),
                                     (''content'',
                                        JStr (b64encode (utf8_encode
                                                (generate_readme ''demo1'' ''a counter app'' 2))))]
                                    @ key)),
            http_timeout = None\<rparr>)"
    unfolding ir_def iw_def rr_def rw_def by (simp add: sample_config_def str_env_def)
  have reads: "friendly_world h ir = Responds present" "friendly_world h rr = Responds present"
    "fresh_world h ir = Responds absent" "fresh_world h rr = Responds absent" for h
    unfolding ir_def rr_def present_def absent_def
    by (simp_all add: friendly_world_def fresh_world_def sample_response_def)
  have writes: "friendly_world h (iw x k) = Responds (written ''index.html'')"
    "friendly_world h (rw k) = Responds (written ''README.md'')"
    "fresh_world h (iw x k) = Responds (written ''index.html'')"
    "fresh_world h (rw k) = Responds (written ''README.md'')" for h x k
    unfolding iw_def rw_def written_def
    by (simp_all add: friendly_world_def fresh_world_def sample_response_def)
  have answers: "status_code present = 200"
    "then_get (json_of present) (getitem ''sha'') = Inr (JStr ''f00'')"
    "status_code absent \<noteq> 200"
    "status_code (written f) = 201"
    "commit_sha_of (written f)
       = Inr (JStr (''https://api.github.com/repos/SiriChandanaSykam/demo1/contents/'' @ f))"
    for f
    unfolding present_def absent_def written_def
    by (simp_all add: then_get_def json_of_def commit_sha_of_def)
  note friendly_path =
    update_path_reads_before_writing [where cfg = sample_config and w = friendly_world
      and tr = "[]" and repo_name = "''demo1''" and s = "''<p>0</p>''"
      and brief_text = "''a counter app''" and index_read = ir and index_write = iw
      and readme_read = rr and readme_write = rw and ?r1.0 = present and ?sha1.0 = "JStr ''f00''"
      and ?key1.0 = "[(''sha'', JStr ''f00'')]" and ?a1.0 = "written ''index.html''"
      and ?c1.0 = "JStr ''https://api.github.com/repos/SiriChandanaSykam/demo1/contents/index.html''"
      and ?r2.0 = present and ?sha2.0 = "JStr ''f00''"
      and ?key2.0 = "[(''sha'', JStr ''f00'')]" and ?a2.0 = "written ''README.md''"
      and ?c2.0 = "JStr ''https://api.github.com/repos/SiriChandanaSykam/demo1/contents/README.md''"
      and request = ?rq
      and u = "JStr ''https://github.com/SiriChandanaSykam/demo1''"
      and p = "''https://SiriChandanaSykam.github.io/demo1/''"
      and c = "JStr ''https://api.github.com/repos/SiriChandanaSykam/demo1/contents/index.html''"]
  note fresh_path =
    update_path_reads_before_writing [where cfg = sample_config and w = fresh_world
      and tr = "[]" and repo_name = "''demo1''" and s = "''<p>0</p>''"
      and brief_text = "''a counter app''" and index_read = ir and index_write = iw
      and readme_read = rr and readme_write = rw and ?r1.0 = absent
      and ?key1.0 = "[]" and ?a1.0 = "written ''index.html''"
      and ?c1.0 = "JStr ''https://api.github.com/repos/SiriChandanaSykam/demo1/contents/index.html''"
      and ?r2.0 = absent
      and ?key2.0 = "[]" and ?a2.0 = "written ''README.md''"
      and ?c2.0 = "JStr ''https://api.github.com/repos/SiriChandanaSykam/demo1/contents/README.md''"]
  have run_friendly:
    "update_github_repo sample_config friendly_world [] ''demo1'' (JStr ''<p>0</p>'')
       ''a counter app''
     = (Inr (JStr (''https://github.com/SiriChandanaSykam/'' @ ''demo1''),
             JStr ''https://api.github.com/repos/SiriChandanaSykam/demo1/contents/index.html''),
        [Http ir, Http (iw ''<p>0</p>'' [(''sha'', JStr ''f00'')]), Http rr,
         Http (rw [(''sha'', JStr ''f00'')])])"
    by (rule friendly_path[THEN conjunct2, THEN conjunct2, THEN conjunct2, THEN conjunct2,
          THEN mp, OF eqs, THEN conjunct2, THEN conjunct1, THEN mp, simplified append_Nil])
       (simp add: reads writes answers)
  have run_fresh:
    "update_github_repo sample_config fresh_world [] ''demo1'' (JStr ''<p>0</p>'')
       ''a counter app''
     = (Inr (JStr (''https://github.com/SiriChandanaSykam/'' @ ''demo1''),
             JStr ''https://api.github.com/repos/SiriChandanaSykam/demo1/contents/index.html''),
        [Http ir, Http (iw ''<p>0</p>'' []), Http rr, Http (rw [])])"
    by (rule fresh_path[THEN conjunct2, THEN conjunct2, THEN conjunct2, THEN conjunct2,
          THEN mp, OF eqs, THEN conjunct2, THEN conjunct1, THEN mp, simplified append_Nil])
       (simp add: reads writes answers)
  have handler_path: "\<exists>pre post html.
         snd (receive_task sample_config friendly_world ?rq)
           = pre @ [Http ir, Http (iw html [(''sha'', JStr ''f00'')]), Http rr,
                    Http (rw [(''sha'', JStr ''f00'')])] @ post"
  proof -
    have r: "1 < round ?rq" "task ?rq = ''demo1''" "brief ?rq = ''a counter app''"
      by (simp_all add: sample_request_def)
    note path = friendly_path[THEN conjunct2, THEN conjunct2, THEN conjunct2, THEN conjunct2,
        THEN mp, OF eqs, THEN conjunct2, THEN conjunct2, THEN mp]
    have "1 < round ?rq \<and> task ?rq = ''demo1'' \<and> brief ?rq = ''a counter app''
          \<and> fst (receive_task sample_config friendly_world ?rq)
              = Returned (Success (JStr ''https://github.com/SiriChandanaSykam/demo1'')
                  ''https://SiriChandanaSykam.github.io/demo1/''
                  (JStr ''https://api.github.com/repos/SiriChandanaSykam/demo1/contents/index.html''))"
      using r sample_run_round_2 by simp
    from path[OF this]
    obtain pre post html g1 v1 k1 g2 v2 k2 where
      T: "snd (receive_task sample_config friendly_world ?rq)
            = pre @ [Http ir, Http (iw html k1), Http rr, Http (rw k2)] @ post"
      and g1: "friendly_world pre ir = Responds g1"
        "if status_code g1 = 200
         then then_get (json_of g1) (getitem ''sha'') = Inr v1 \<and> k1 = [(''sha'', v1)]
         else k1 = []"
      and g2: "friendly_world (pre @ [Http ir, Http (iw html k1)]) rr = Responds g2"
        "if status_code g2 = 200
         then then_get (json_of g2) (getitem ''sha'') = Inr v2 \<and> k2 = [(''sha'', v2)]
         else k2 = []"
      by blast
    from g1 reads(1)[of pre] answers(1,2) have "k1 = [(''sha'', JStr ''f00'')]"
      by auto
    moreover from g2 reads(2)[of "pre @ [Http ir, Http (iw html k1)]"] answers(1,2)
    have "k2 = [(''sha'', JStr ''f00'')]"
      by auto
    ultimately show ?thesis
      using T by blast
  qed
  let ?h = "github_headers sample_config"
  let ?g = "\<lparr>status_code = 200, response_text = [],
             response_json = Some (JObj [(''sha'', JStr ''f00'')])\<rparr>"
  let ?g' = "\<lparr>status_code = 404, response_text = [], response_json = None\<rparr>"
  have r: "1 < round (sample_request\<lparr>round := 2\<rparr>)"
    by simp
  have found: "friendly_world [] (get_request ?h ''demo1'' ''index.html'') = Responds ?g"
    "status_code ?g = 200" "then_get (json_of ?g) (getitem ''sha'') = Inr (JStr ''f00'')"
    by (simp_all add: friendly_world_def sample_response_def get_request_def then_get_def
          json_of_def)
  have missing: "fresh_world [] (get_request ?h ''demo1'' ''index.html'') = Responds ?g'"
    "status_code ?g' \<noteq> 200"
    by (simp_all add: fresh_world_def sample_response_def get_request_def)
  note friendly =
      update_path_reads_before_writing [of sample_config friendly_world "[]" "''demo1''" JNull
        "[]" ?h "''index.html''" ?g "JStr ''f00''" "''<p>0</p>''" "''Update app for round 2''"
        ?g' JNull "sample_request\<lparr>round := 2\<rparr>"]
  note fresh =
      update_path_reads_before_writing [of sample_config fresh_world "[]" "''demo1''" JNull
        "[]" ?h "''index.html''" ?g "JStr ''f00''" "''<p>0</p>''" "''Update app for round 2''"
        ?g' JNull "sample_request\<lparr>round := 2\<rparr>"]
  have "\<forall>n b. Http (create_request sample_config n b)
          \<notin> set (snd (receive_task sample_config friendly_world
                          (sample_request\<lparr>round := 2\<rparr>)))"
    by (rule friendly[THEN conjunct2, THEN conjunct2, THEN conjunct2, THEN conjunct1, THEN mp,
          OF r])
  moreover have "snd (update_file_in_repo friendly_world [] ''demo1'' ''index.html''
            (JStr ''<p>0</p>'') ''Update app for round 2'' ?h)
       = [] @ [Http (get_request ?h ''demo1'' ''index.html''),
          Http (put_request ?h ''demo1'' ''index.html''
                  ''Update app for round 2'' (b64encode (utf8_encode ''<p>0</p>''))
                  (Some (JStr ''f00'')))]"
    by (rule friendly[THEN conjunct2, THEN conjunct1, THEN mp]) (simp add: found)
  moreover have "snd (update_file_in_repo fresh_world [] ''demo1'' ''index.html''
            (JStr ''<p>0</p>'') ''Update app for round 2'' ?h)
       = [] @ [Http (get_request ?h ''demo1'' ''index.html''),
          Http (put_request ?h ''demo1'' ''index.html''
                  ''Update app for round 2'' (b64encode (utf8_encode ''<p>0</p>'')) None)]"
    by (rule fresh[THEN conjunct2, THEN conjunct2, THEN conjunct1, THEN mp, THEN conjunct2])
       (simp add: missing)
  ultimately have old:
    "1 < round (sample_request\<lparr>round := 2\<rparr>)
   \<and> (\<forall>n b. Http (create_request sample_config n b)
          \<notin> set (snd (receive_task sample_config friendly_world
                          (sample_request\<lparr>round := 2\<rparr>))))
   \<and> friendly_world [] (get_request (github_headers sample_config) ''demo1'' ''index.html'')
       = Responds \<lparr>status_code = 200, response_text = [],
                   response_json = Some (JObj [(''sha'', JStr ''f00'')])\<rparr>
   \<and> snd (update_file_in_repo friendly_world [] ''demo1'' ''index.html'' (JStr ''<p>0</p>'')
            ''Update app for round 2'' (github_headers sample_config))
       = [Http (get_request (github_headers sample_config) ''demo1'' ''index.html''),
          Http (put_request (github_headers sample_config) ''demo1'' ''index.html''
                  ''Update app for round 2'' (b64encode (utf8_encode ''<p>0</p>''))
                  (Some (JStr ''f00'')))]
   \<and> fresh_world [] (get_request (github_headers sample_config) ''demo1'' ''index.html'')
       = Responds \<lparr>status_code = 404, response_text = [], response_json = None\<rparr>
   \<and> snd (update_file_in_repo fresh_world [] ''demo1'' ''index.html'' (JStr ''<p>0</p>'')
            ''Update app for round 2'' (github_headers sample_config))
       = [Http (get_request (github_headers sample_config) ''demo1'' ''index.html''),
          Http (put_request (github_headers sample_config) ''demo1'' ''index.html''
                  ''Update app for round 2'' (b64encode (utf8_encode ''<p>0</p>'')) None)]"
    using r found(1) missing(1) by simp
  have new:
    "update_github_repo sample_config friendly_world [] ''demo1'' (JStr ''<p>0</p>'')
       ''a counter app''
     = (Inr (JStr ''https://github.com/SiriChandanaSykam/demo1'',
             JStr ''https://api.github.com/repos/SiriChandanaSykam/demo1/contents/index.html''),
        [Http ir, Http (iw ''<p>0</p>'' [(''sha'', JStr ''f00'')]), Http rr,
         Http (rw [(''sha'', JStr ''f00'')])])
     \<and> update_github_repo sample_config fresh_world [] ''demo1'' (JStr ''<p>0</p>'')
       ''a counter app''
     = (Inr (JStr ''https://github.com/SiriChandanaSykam/demo1'',
             JStr ''https://api.github.com/repos/SiriChandanaSykam/demo1/contents/index.html''),
        [Http ir, Http (iw ''<p>0</p>'' []), Http rr, Http (rw [])])
     \<and> (\<exists>pre post html.
         snd (receive_task sample_config friendly_world ?rq)
           = pre @ [Http ir, Http (iw html [(''sha'', JStr ''f00'')]), Http rr,
                    Http (rw [(''sha'', JStr ''f00'')])] @ post)"
    using run_friendly run_fresh handler_path by simp
  show ?thesis
    using old new unfolding ir_def iw_def rr_def rw_def by simp
qed

section \<open>Static site enabler\<close>

lemma enable_github_pages_Responds:
  assumes "w tr (pages_request cfg repo_name) = Responds r"
  shows "enable_github_pages cfg w tr repo_name
           = (Inr (),
              tr @ [Http (pages_request cfg repo_name)]
                 @ (if status_code r = 201 \<or> status_code r = 409 then []
                    else [Print (''Warning: GitHub Pages response: ''
                                   @ str_int (status_code r))])
                 @ [Sleep 5])"
  using assms by (simp add: enable_github_pages_def)

text \<open>
  C7. Whatever response the world gives to the enabling request, the enabler returns
  normally: it sends the one request, prints a warning exactly when the status is neither
  201 nor 409, waits 5 seconds, and raises nothing. The handler sends the enabling request
  only on round 1: on any other round no such request occurs among its events, and every
  successful run of round 1 has sent it.
\<close>

theorem pages_enabler_never_fatal:
  "(w tr (pages_request cfg repo_name) = Responds r \<longrightarrow>
      enable_github_pages cfg w tr repo_name
        = (Inr (),
           tr @ [Http (pages_request cfg repo_name)]
              @ (if status_code r = 201 \<or> status_code r = 409 then []
                 else [Print (''Warning: GitHub Pages response: '' @ str_int (status_code r))])
              @ [Sleep 5]))
   \<and> (round request \<noteq> 1 \<longrightarrow>
        (\<forall>n. Http (pages_request cfg n) \<notin> set (snd (receive_task cfg w request))))
   \<and> (round request = 1 \<and> fst (receive_task cfg w request) = Returned (Success u p c) \<longrightarrow>
        Http (pages_request cfg (task request)) \<in> set (snd (receive_task cfg w request)))"
proof -
  have other: "\<forall>n. Http (pages_request cfg n) \<notin> set (snd (receive_task cfg w request))"
    if "round request \<noteq> 1"
    using receive_task_no_pages[OF that] by blast
  have first: "Http (pages_request cfg (task request)) \<in> set (snd (receive_task cfg w request))"
    if "round request = 1 \<and> fst (receive_task cfg w request) = Returned (Success u p c)"
  proof -
    from that receive_task_Success[of cfg w request u p c] obtain tr2 mid es where
      "Http (pages_request cfg (task request)) \<in> set mid"
      "snd (receive_task cfg w request) = tr2 @ mid @ Http (notify_call request u c p) # es"
      by blast
    then show ?thesis by simp
  qed
  show ?thesis
    using other first enable_github_pages_Responds[of w tr cfg repo_name r] by blast
qed

theorem pages_enabler_never_fatal_witness:
  "(\<lambda>tr rq. sample_response 500 None) [] (pages_request sample_config ''demo1'')
       = Responds \<lparr>status_code = 500, response_text = [], response_json = None\<rparr>
   \<and> enable_github_pages sample_config (\<lambda>tr rq. sample_response 500 None) [] ''demo1''
       = (Inr (), [Http (pages_request sample_config ''demo1''),
                   Print ''Warning: GitHub Pages response: 500'', Sleep 5])
   \<and> round (sample_request\<lparr>round := 2\<rparr>) \<noteq> 1
   \<and> (\<forall>n. Http (pages_request sample_config n)
          \<notin> set (snd (receive_task sample_config friendly_world
                          (sample_request\<lparr>round := 2\<rparr>))))
   \<and> round sample_request = 1
   \<and> Http (pages_request sample_config (task sample_request))
       \<in> set (snd (receive_task sample_config friendly_world sample_request))"
proof -
  let ?w = "\<lambda>(tr :: event list) (rq :: http_request). sample_response 500 None"
  let ?r = "\<lparr>status_code = 500, response_text = [], response_json = None\<rparr>"
  have a: "?w [] (pages_request sample_config ''demo1'') = Responds ?r"
    by (simp add: sample_response_def)
  have b: "round (sample_request\<lparr>round := 2\<rparr>) \<noteq> 1"
    by simp
  have c: "round sample_request = 1"
    by (simp add: sample_request_def)
  have s500: "str_int 500 = ''500''"
    by code_simp
  have "enable_github_pages sample_config ?w [] ''demo1''
       = (Inr (), [Http (pages_request sample_config ''demo1''),
                   Print ''Warning: GitHub Pages response: 500'', Sleep 5])"
    using a pages_enabler_never_fatal [of ?w "[]" sample_config "''demo1''" ?r sample_request]
    by (simp add: s500)
  moreover have "\<forall>n. Http (pages_request sample_config n)
          \<notin> set (snd (receive_task sample_config friendly_world
                          (sample_request\<lparr>round := 2\<rparr>)))"
    using b pages_enabler_never_fatal [of friendly_world "[]" sample_config "''demo1''" ?r
        "sample_request\<lparr>round := 2\<rparr>"]
    by blast
  moreover have "Http (pages_request sample_config (task sample_request))
       \<in> set (snd (receive_task sample_config friendly_world sample_request))"
    using c sample_run_round_1
      pages_enabler_never_fatal [of friendly_world "[]" sample_config "''demo1''" ?r
        sample_request]
    by blast
  ultimately show ?thesis
    using a b c by simp
qed

section \<open>The revision identifier and the location that are reported\<close>

text \<open>
  C8. When a publish succeeds, on the create path and on the update path alike, the
  \<open>commit_sha\<close> it returns is the \<open>["commit"]["sha"]\<close> of the response the world gave to a
  write of \<open>index.html\<close> made during that publish. The handler's success body carries that
  value, and so does the notification: after the handler has announced the notification at
  least one request is sent, and every request sent from there on is the \<open>POST\<close> to the
  evaluation URL whose JSON body has the fields \<open>email\<close>, \<open>task\<close>, \<open>round\<close>, \<open>nonce\<close>,
  \<open>repo_url\<close>, \<open>commit_sha\<close> and \<open>pages_url\<close>, with that same value under \<open>commit_sha\<close>.
\<close>

theorem commit_sha_is_of_artifact_write:
  "(create_github_repo cfg w tr repo_name html_code brief_text = (Inr (u, c), T) \<longrightarrow>
      (\<exists>i. length tr \<le> i \<and> i < length T
           \<and> writes_file repo_name ''index.html'' (T ! i) \<and> answered_sha w T i c))
   \<and> (update_github_repo cfg w tr repo_name html_code brief_text = (Inr (u', c'), T') \<longrightarrow>
        (\<exists>i. length tr \<le> i \<and> i < length T'
             \<and> writes_file repo_name ''index.html'' (T' ! i) \<and> answered_sha w T' i c'))
   \<and> (fst (receive_task cfg w request) = Returned (Success repo_url pages_url commit_sha) \<longrightarrow>
        (\<exists>i. i < length (snd (receive_task cfg w request))
            \<and> writes_file (task request) ''index.html'' (snd (receive_task cfg w request) ! i)
            \<and> answered_sha w (snd (receive_task cfg w request)) i commit_sha)
        \<and> Http (notify_call request repo_url commit_sha pages_url)
            \<in> set (snd (receive_task cfg w request))
        \<and> (\<exists>pre es.
              snd (receive_task cfg w request) = pre @ Print ''Notifying evaluation URL...'' # es
              \<and> 1 \<le> attempts es
              \<and> (\<forall>rq. Http rq \<in> set es \<longrightarrow>
                    rq = \<lparr>http_method = ''POST'', http_url = evaluation_url request,
                          http_headers = [(''Content-Type'', ''application/json'')],
                          http_json = Some (JObj [(''email'', JStr (email request)),
                                                  (''task'', JStr (task request)),
                                                  (''round'', JNum (round request)),
                                                  (''nonce'', JStr (nonce request)),
                                                  (''repo_url'', repo_url),
                                                  (''commit_sha'', commit_sha),
                                                  (''pages_url'', JStr pages_url)]),
                          http_timeout = Some 10\<rparr>)))"
proof -
  define lit where "lit = \<lparr>http_method = ''POST'', http_url = evaluation_url request,
                          http_headers = [(''Content-Type'', ''application/json'')],
                          http_json = Some (JObj [(''email'', JStr (email request)),
                                                  (''task'', JStr (task request)),
                                                  (''round'', JNum (round request)),
                                                  (''nonce'', JStr (nonce request)),
                                                  (''repo_url'', repo_url),
                                                  (''commit_sha'', commit_sha),
                                                  (''pages_url'', JStr pages_url)]),
                          http_timeout = Some 10\<rparr>"
  have lit: "notify_call request repo_url commit_sha pages_url = lit"
    unfolding lit_def by (rule notify_call_literal)
  have handler:
    "(\<exists>i. i < length (snd (receive_task cfg w request))
        \<and> writes_file (task request) ''index.html'' (snd (receive_task cfg w request) ! i)
        \<and> answered_sha w (snd (receive_task cfg w request)) i commit_sha)
     \<and> Http (notify_call request repo_url commit_sha pages_url)
         \<in> set (snd (receive_task cfg w request))
     \<and> (\<exists>pre es.
              snd (receive_task cfg w request) = pre @ Print ''Notifying evaluation URL...'' # es
              \<and> 1 \<le> attempts es
              \<and> (\<forall>rq. Http rq \<in> set es \<longrightarrow> rq = lit))"
    if ok: "fst (receive_task cfg w request) = Returned (Success repo_url pages_url commit_sha)"
  proof -
    let ?n = "task request"
    from receive_task_Success[OF ok] obtain html tr1 tr2 mid es where
      pub: "(if round request = 1
             then create_github_repo cfg w tr1 ?n html (brief request)
             else update_github_repo cfg w tr1 ?n html (brief request))
            = (Inr (repo_url, commit_sha), tr2)"
      and T: "snd (receive_task cfg w request)
                = tr2 @ mid @ Http (notify_call request repo_url commit_sha pages_url) # es"
      by blast
    have "\<exists>i. i < length tr2 \<and> writes_file ?n ''index.html'' (tr2 ! i)
             \<and> answered_sha w tr2 i commit_sha"
    proof (cases "round request = 1")
      case True
      with pub create_github_repo_Inr[of cfg w tr1 ?n html "brief request" repo_url commit_sha tr2]
      show ?thesis by auto
    next
      case False
      with pub update_github_repo_Inr[of cfg w tr1 ?n html "brief request" repo_url commit_sha tr2]
      show ?thesis by auto
    qed
    then obtain i where i: "i < length tr2" "writes_file ?n ''index.html'' (tr2 ! i)"
      "answered_sha w tr2 i commit_sha" by blast
    have "i < length (snd (receive_task cfg w request))"
      "writes_file ?n ''index.html'' (snd (receive_task cfg w request) ! i)"
      "answered_sha w (snd (receive_task cfg w request)) i commit_sha"
      unfolding T using i answered_sha_append[OF i(1)] by (simp_all add: nth_append)
    moreover have "Http (notify_call request repo_url commit_sha pages_url)
        \<in> set (snd (receive_task cfg w request))"
      unfolding T by simp
    moreover have "\<exists>pre es.
              snd (receive_task cfg w request) = pre @ Print ''Notifying evaluation URL...'' # es
              \<and> 1 \<le> attempts es
              \<and> (\<forall>rq. Http rq \<in> set es \<longrightarrow> rq = lit)"
    proof -
      from receive_task_notified[OF ok] obtain pre es' where
        N: "snd (receive_task cfg w request)
              = pre @ Print ''Notifying evaluation URL...'' # Http lit # es'"
        and all: "\<forall>rq. Http rq \<in> set es' \<longrightarrow> rq = lit"
        unfolding lit by blast
      have "1 \<le> attempts (Http lit # es')"
        by (rule attempts_Http_Cons)
      moreover have "\<forall>rq. Http rq \<in> set (Http lit # es') \<longrightarrow> rq = lit"
        using all by simp
      ultimately show ?thesis
        using N by blast
    qed
    ultimately show ?thesis by blast
  qed
  show ?thesis
    unfolding lit_def[symmetric]
    using handler
      create_github_repo_Inr[of cfg w tr repo_name html_code brief_text u c T]
      update_github_repo_Inr[of cfg w tr repo_name html_code brief_text u' c' T']
    by blast
qed

theorem commit_sha_is_of_artifact_write_witness:
  "fst (receive_task sample_config friendly_world sample_request)
     = Returned (Success (JStr ''https://github.com/SiriChandanaSykam/demo1'')
         ''https://SiriChandanaSykam.github.io/demo1/''
         (JStr ''https://api.github.com/repos/SiriChandanaSykam/demo1/contents/index.html''))
   \<and> (\<exists>i. i < length (snd (receive_task sample_config friendly_world sample_request))
         \<and> writes_file (task sample_request) ''index.html''
             (snd (receive_task sample_config friendly_world sample_request) ! i)
         \<and> answered_sha friendly_world
             (snd (receive_task sample_config friendly_world sample_request)) i
             (JStr ''https://api.github.com/repos/SiriChandanaSykam/demo1/contents/index.html''))
   \<and> Http \<lparr>http_method = ''POST'', http_url = ''https://eval.example/cb'',
            http_headers = [(''Content-Type'', ''application/json'')],
            http_json = Some (JObj [(''email'', JStr ''a@b.com''),
              (''task'', JStr ''demo1''),
              (''round'', JNum 1),
              (''nonce'', JStr ''abc''),
              (''repo_url'', JStr ''https://github.com/SiriChandanaSykam/demo1''),
              (''commit_sha'',
                 JStr ''https://api.github.com/repos/SiriChandanaSykam/demo1/contents/index.html''),
              (''pages_url'', JStr ''https://SiriChandanaSykam.github.io/demo1/'')]),
            http_timeout = Some 10\<rparr>
       \<in> set (snd (receive_task sample_config friendly_world sample_request))
   \<and> fst (receive_task sample_config friendly_world (sample_request\<lparr>round := 2\<rparr>))
     = Returned (Success (JStr ''https://github.com/SiriChandanaSykam/demo1'')
         ''https://SiriChandanaSykam.github.io/demo1/''
         (JStr ''https://api.github.com/repos/SiriChandanaSykam/demo1/contents/index.html''))
   \<and> Http (notify_call (sample_request\<lparr>round := 2\<rparr>)
             (JStr ''https://github.com/SiriChandanaSykam/demo1'')
             (JStr ''https://api.github.com/repos/SiriChandanaSykam/demo1/contents/index.html'')
             ''https://SiriChandanaSykam.github.io/demo1/'')
       \<in> set (snd (receive_task sample_config friendly_world
                       (sample_request\<lparr>round := 2\<rparr>)))"
proof -
  let ?T = "snd (receive_task sample_config friendly_world sample_request)"
  let ?u = "JStr ''https://github.com/SiriChandanaSykam/demo1''"
  let ?p = "''https://SiriChandanaSykam.github.io/demo1/''"
  let ?c = "JStr ''https://api.github.com/repos/SiriChandanaSykam/demo1/contents/index.html''"
  define lit where "lit = \<lparr>http_method = ''POST'', http_url = ''https://eval.example/cb'',
            http_headers = [(''Content-Type'', ''application/json'')],
            http_json = Some (JObj [(''email'', JStr ''a@b.com''),
              (''task'', JStr ''demo1''),
              (''round'', JNum 1),
              (''nonce'', JStr ''abc''),
              (''repo_url'', ?u),
              (''commit_sha'', ?c),
              (''pages_url'', JStr ?p)]),
            http_timeout = Some 10\<rparr>"
  note one = commit_sha_is_of_artifact_write [of sample_config friendly_world "[]" "[]" JNull "[]"
      JNull JNull "[]" JNull JNull "[]" sample_request ?u ?p ?c]
  note two = commit_sha_is_of_artifact_write [of sample_config friendly_world "[]" "[]" JNull "[]"
      JNull JNull "[]" JNull JNull "[]" "sample_request\<lparr>round := 2\<rparr>" ?u ?p ?c]
  have fields: "\<lparr>http_method = ''POST'', http_url = evaluation_url sample_request,
                  http_headers = [(''Content-Type'', ''application/json'')],
                  http_json = Some (JObj [(''email'', JStr (email sample_request)),
                                          (''task'', JStr (task sample_request)),
                                          (''round'', JNum (round sample_request)),
                                          (''nonce'', JStr (nonce sample_request)),
                                          (''repo_url'', ?u),
                                          (''commit_sha'', ?c),
                                          (''pages_url'', JStr ?p)]),
                  http_timeout = Some 10\<rparr> = lit"
    unfolding lit_def by (simp add: sample_request_def)
  from one sample_run_round_1 obtain pre es where
    T: "?T = pre @ Print ''Notifying evaluation URL...'' # es"
    and pos: "1 \<le> attempts es"
    and all: "\<forall>rq. Http rq \<in> set es \<longrightarrow> rq = lit"
    unfolding fields by blast
  from attempts_pos_request[OF pos] obtain rq where "Http rq \<in> set es"
    by blast
  with all have "Http lit \<in> set es"
    by blast
  then have sent: "Http lit \<in> set ?T"
    unfolding T by simp
  show ?thesis
    unfolding lit_def[symmetric]
    using sample_run_round_1 sample_run_round_2 one two sent
    by blast
qed

text \<open>
  C10. On the update path the location returned is the text \<open>https://github.com/\<close>, the
  fixed account name, \<open>/\<close> and the repository name, whatever the world answers. For a
  request of a round above 1 that succeeds, the success body carries that text built from
  the task name, and so does the notification: every request sent after the handler has
  announced the notification (there is at least one) is the \<open>POST\<close> to the evaluation URL
  whose JSON body has that text under \<open>repo_url\<close>.
\<close>

theorem update_repo_url_is_local:
  "(update_github_repo cfg w tr repo_name html_code brief_text = (Inr (u, c), T) \<longrightarrow>
      u = JStr (''https://github.com/SiriChandanaSykam/'' @ repo_name))
   \<and> (1 < round request
        \<and> fst (receive_task cfg w request) = Returned (Success repo_url pages_url commit_sha)
        \<longrightarrow>
        repo_url = JStr (''https://github.com/SiriChandanaSykam/'' @ task request)
        \<and> Http (notify_call request
                  (JStr (''https://github.com/SiriChandanaSykam/'' @ task request))
                  commit_sha pages_url)
            \<in> set (snd (receive_task cfg w request))
        \<and> (\<exists>pre es.
              snd (receive_task cfg w request) = pre @ Print ''Notifying evaluation URL...'' # es
              \<and> 1 \<le> attempts es
              \<and> (\<forall>rq. Http rq \<in> set es \<longrightarrow>
                    rq = \<lparr>http_method = ''POST'', http_url = evaluation_url request,
                          http_headers = [(''Content-Type'', ''application/json'')],
                          http_json = Some (JObj [(''email'', JStr (email request)),
                            (''task'', JStr (task request)),
                            (''round'', JNum (round request)),
                            (''nonce'', JStr (nonce request)),
                            (''repo_url'',
                               JStr (''https://github.com/SiriChandanaSykam/'' @ task request)),
                            (''commit_sha'', commit_sha),
                            (''pages_url'', JStr pages_url)]),
                          http_timeout = Some 10\<rparr>)))"
proof -
  define url where "url = JStr (''https://github.com/SiriChandanaSykam/'' @ task request)"
  define lit where "lit = \<lparr>http_method = ''POST'', http_url = evaluation_url request,
                          http_headers = [(''Content-Type'', ''application/json'')],
                          http_json = Some (JObj [(''email'', JStr (email request)),
                            (''task'', JStr (task request)),
                            (''round'', JNum (round request)),
                            (''nonce'', JStr (nonce request)),
                            (''repo_url'', url),
                            (''commit_sha'', commit_sha),
                            (''pages_url'', JStr pages_url)]),
                          http_timeout = Some 10\<rparr>"
  have lit: "notify_call request url commit_sha pages_url = lit"
    unfolding lit_def by (rule notify_call_literal)
  have handler:
    "repo_url = url
     \<and> Http (notify_call request url commit_sha pages_url)
         \<in> set (snd (receive_task cfg w request))
     \<and> (\<exists>pre es.
              snd (receive_task cfg w request) = pre @ Print ''Notifying evaluation URL...'' # es
              \<and> 1 \<le> attempts es
              \<and> (\<forall>rq. Http rq \<in> set es \<longrightarrow> rq = lit))"
    if r: "1 < round request"
      and ok: "fst (receive_task cfg w request) = Returned (Success repo_url pages_url commit_sha)"
  proof -
    from receive_task_Success[OF ok] obtain html tr1 tr2 mid es where
      pub: "(if round request = 1
             then create_github_repo cfg w tr1 (task request) html (brief request)
             else update_github_repo cfg w tr1 (task request) html (brief request))
            = (Inr (repo_url, commit_sha), tr2)"
      and T: "snd (receive_task cfg w request)
                = tr2 @ mid @ Http (notify_call request repo_url commit_sha pages_url) # es"
      by blast
    from pub r have "update_github_repo cfg w tr1 (task request) html (brief request)
                       = (Inr (repo_url, commit_sha), tr2)" by simp
    then have u: "repo_url = url"
      unfolding url_def using update_github_repo_Inr by blast
    have sent: "Http (notify_call request url commit_sha pages_url)
        \<in> set (snd (receive_task cfg w request))"
      unfolding T u by simp
    have "\<exists>pre es.
              snd (receive_task cfg w request) = pre @ Print ''Notifying evaluation URL...'' # es
              \<and> 1 \<le> attempts es
              \<and> (\<forall>rq. Http rq \<in> set es \<longrightarrow> rq = lit)"
    proof -
      from receive_task_notified[OF ok] obtain pre es' where
        N: "snd (receive_task cfg w request)
              = pre @ Print ''Notifying evaluation URL...'' # Http lit # es'"
        and all: "\<forall>rq. Http rq \<in> set es' \<longrightarrow> rq = lit"
        unfolding u lit by blast
      have "1 \<le> attempts (Http lit # es')"
        by (rule attempts_Http_Cons)
      moreover have "\<forall>rq. Http rq \<in> set (Http lit # es') \<longrightarrow> rq = lit"
        using all by simp
      ultimately show ?thesis
        using N by blast
    qed
    with u sent show ?thesis by blast
  qed
  show ?thesis
    unfolding lit_def[symmetric] url_def[symmetric]
    using handler update_github_repo_Inr[of cfg w tr repo_name html_code brief_text u c T]
    by blast
qed

theorem update_repo_url_is_local_witness:
  "1 < round (sample_request\<lparr>round := 2\<rparr>)
   \<and> fst (receive_task sample_config friendly_world (sample_request\<lparr>round := 2\<rparr>))
     = Returned (Success (JStr ''https://github.com/SiriChandanaSykam/demo1'')
         ''https://SiriChandanaSykam.github.io/demo1/''
         (JStr ''https://api.github.com/repos/SiriChandanaSykam/demo1/contents/index.html''))
   \<and> JStr ''https://github.com/SiriChandanaSykam/demo1''
       = JStr (''https://github.com/SiriChandanaSykam/''
                 @ task (sample_request\<lparr>round := 2\<rparr>))
   \<and> Http (notify_call (sample_request\<lparr>round := 2\<rparr>)
             (JStr (''https://github.com/SiriChandanaSykam/''
                      @ task (sample_request\<lparr>round := 2\<rparr>)))
             (JStr ''https://api.github.com/repos/SiriChandanaSykam/demo1/contents/index.html'')
             ''https://SiriChandanaSykam.github.io/demo1/'')
       \<in> set (snd (receive_task sample_config friendly_world
                       (sample_request\<lparr>round := 2\<rparr>)))
   \<and> Http \<lparr>http_method = ''POST'', http_url = ''https://eval.example/cb'',
            http_headers = [(''Content-Type'', ''application/json'')],
            http_json = Some (JObj [(''email'', JStr ''a@b.com''),
              (''task'', JStr ''demo1''),
              (''round'', JNum 2),
              (''nonce'', JStr ''abc''),
              (''repo_url'', JStr ''https://github.com/SiriChandanaSykam/demo1''),
              (''commit_sha'',
                 JStr ''https://api.github.com/repos/SiriChandanaSykam/demo1/contents/index.html''),
              (''pages_url'', JStr ''https://SiriChandanaSykam.github.io/demo1/'')]),
            http_timeout = Some 10\<rparr>
       \<in> set (snd (receive_task sample_config friendly_world
                       (sample_request\<lparr>round := 2\<rparr>)))"
proof -
  let ?rq = "sample_request\<lparr>round := 2\<rparr>"
  let ?T = "snd (receive_task sample_config friendly_world ?rq)"
  let ?u = "JStr ''https://github.com/SiriChandanaSykam/demo1''"
  let ?p = "''https://SiriChandanaSykam.github.io/demo1/''"
  let ?c = "JStr ''https://api.github.com/repos/SiriChandanaSykam/demo1/contents/index.html''"
  define lit where "lit = \<lparr>http_method = ''POST'', http_url = ''https://eval.example/cb'',
            http_headers = [(''Content-Type'', ''application/json'')],
            http_json = Some (JObj [(''email'', JStr ''a@b.com''),
              (''task'', JStr ''demo1''),
              (''round'', JNum 2),
              (''nonce'', JStr ''abc''),
              (''repo_url'', ?u),
              (''commit_sha'', ?c),
              (''pages_url'', JStr ?p)]),
            http_timeout = Some 10\<rparr>"
  have r: "1 < round ?rq"
    by simp
  note inst = update_repo_url_is_local [of sample_config friendly_world "[]" "[]" JNull "[]"
      JNull JNull "[]" ?rq ?u ?p ?c]
  have fields: "\<lparr>http_method = ''POST'', http_url = evaluation_url ?rq,
                  http_headers = [(''Content-Type'', ''application/json'')],
                  http_json = Some (JObj [(''email'', JStr (email ?rq)),
                    (''task'', JStr (task ?rq)),
                    (''round'', JNum (round ?rq)),
                    (''nonce'', JStr (nonce ?rq)),
                    (''repo_url'', JStr (''https://github.com/SiriChandanaSykam/'' @ task ?rq)),
                    (''commit_sha'', ?c),
                    (''pages_url'', JStr ?p)]),
                  http_timeout = Some 10\<rparr> = lit"
    unfolding lit_def by (simp add: sample_request_def)
  from inst r sample_run_round_2 obtain pre es where
    T: "?T = pre @ Print ''Notifying evaluation URL...'' # es"
    and pos: "1 \<le> attempts es"
    and all: "\<forall>rq. Http rq \<in> set es \<longrightarrow> rq = lit"
    unfolding fields by blast
  from attempts_pos_request[OF pos] obtain rq where "Http rq \<in> set es"
    by blast
  with all have "Http lit \<in> set es"
    by blast
  then have sent: "Http lit \<in> set ?T"
    unfolding T by simp
  have same_url: "?u = JStr (''https://github.com/SiriChandanaSykam/'' @ task ?rq)"
    by (simp add: sample_request_def)
  show ?thesis
    unfolding lit_def[symmetric]
    using r sample_run_round_2 inst sent same_url
    by blast
qed

end
